theory Spec2Isabelle
  imports Complex_Main
begin

section \<open>JavaScript values and coercions\<close>

text \<open>
  The rule engine is TypeScript; its state is \<^verbatim>\<open>Record<string, any>\<close>. The values the
  engine stores and compares are modelled here. Strings are lists of 8-bit code units.
  Numbers are exact rationals together with NaN and the two infinities: rounding to a
  double, overflow of a large literal to infinity and the sign of zero are outside
  the model.
\<close>

datatype jsnum = NaN | Fin rat | PosInf | NegInf

datatype scalar = Undefined | Null | Bool bool | Num jsnum | Str string

text \<open>
  The parser also builds arrays (list literals). An array is created fresh by the
  parser, so it is never identical to another value.
\<close>

datatype pval = Sc scalar | Arr "pval list"

text \<open>
  The engine reads a state only through \<^verbatim>\<open>state[key]\<close>, which is \<^verbatim>\<open>undefined\<close> for an
  absent key. A state is modelled by that reading, over the scalar values.

  Records are modelled by their own properties. The names that every object inherits
  (\<^verbatim>\<open>toString\<close>, \<^verbatim>\<open>constructor\<close> and the like) are taken not to be keys of a state, of a
  diff or of a rule table. The condition engine cannot ask a state for such a name:
  its tokenizer does not read it as an identifier.
\<close>

type_synonym WizardState = "string \<Rightarrow> scalar"

definition emptyState :: WizardState where
  "emptyState = (\<lambda>k. Undefined)"

subsection \<open>Characters\<close>

definition code :: "char \<Rightarrow> nat" where
  "code c = of_char c"

definition isDigit :: "char \<Rightarrow> bool" where
  "isDigit c \<longleftrightarrow> 48 \<le> code c \<and> code c \<le> 57"

definition isUpper :: "char \<Rightarrow> bool" where
  "isUpper c \<longleftrightarrow> 65 \<le> code c \<and> code c \<le> 90"

definition isLower :: "char \<Rightarrow> bool" where
  "isLower c \<longleftrightarrow> 97 \<le> code c \<and> code c \<le> 122"

text \<open>The class \<^verbatim>\<open>\s\<close>, which is also what \<^verbatim>\<open>trim()\<close> removes: tab, LF, VT, FF, CR, space, NBSP.\<close>

definition isSpace :: "char \<Rightarrow> bool" where
  "isSpace c \<longleftrightarrow> (9 \<le> code c \<and> code c \<le> 13) \<or> code c = 32 \<or> code c = 160"

text \<open>The class \<^verbatim>\<open>.\<close> of a regular expression: everything but the line terminators.\<close>

definition isDot :: "char \<Rightarrow> bool" where
  "isDot c \<longleftrightarrow> code c \<noteq> 10 \<and> code c \<noteq> 13"

definition squote :: char where
  "squote = CHR 0x27"

definition dquote :: char where
  "dquote = CHR 0x22"

definition isQuote :: "char \<Rightarrow> bool" where
  "isQuote c \<longleftrightarrow> c = squote \<or> c = dquote"

definition toLowerChar :: "char \<Rightarrow> char" where
  "toLowerChar c = (if isUpper c then char_of (code c + 32) else c)"

definition toLowerCase :: "string \<Rightarrow> string" where
  "toLowerCase s = map toLowerChar s"

definition trimStart :: "string \<Rightarrow> string" where
  "trimStart s = dropWhile isSpace s"

definition trim :: "string \<Rightarrow> string" where
  "trim s = rev (dropWhile isSpace (rev (dropWhile isSpace s)))"

text \<open>\<^verbatim>\<open>hay.includes(needle)\<close> on strings.\<close>

fun includesStr :: "string \<Rightarrow> string \<Rightarrow> bool" where
  "includesStr [] needle = (needle = [])"
| "includesStr (c # cs) needle = (take (length needle) (c # cs) = needle \<or> includesStr cs needle)"

subsection \<open>Numbers and strings\<close>

definition digitVal :: "char \<Rightarrow> nat" where
  "digitVal c = code c - 48"

definition digitsVal :: "string \<Rightarrow> nat" where
  "digitsVal s = foldl (\<lambda>acc c. 10 * acc + digitVal c) 0 s"

text \<open>The value of \<^verbatim>\<open>ddd.fff\<close> with integer digits \<open>ip\<close> and fraction digits \<open>fp\<close>.\<close>

definition decimalVal :: "string \<Rightarrow> string \<Rightarrow> rat" where
  "decimalVal ip fp = of_nat (digitsVal ip) + of_nat (digitsVal fp) / 10 ^ length fp"

text \<open>
  \<^verbatim>\<open>parseFloat\<close> on the strings the tokenizer hands it: an optional minus sign, then
  digits and dots. The longest prefix that is a decimal literal is read; a second dot
  ends it. Without a digit or fraction the result is NaN.
\<close>

definition parseFloat :: "string \<Rightarrow> jsnum" where
  "parseFloat s =
     (let neg = (case s of [] \<Rightarrow> False | c # _ \<Rightarrow> c = CHR ''-'');
          body = (if neg then tl s else s);
          ip = takeWhile isDigit body;
          r = dropWhile isDigit body;
          fp = (case r of [] \<Rightarrow> [] | c # r' \<Rightarrow> if c = CHR ''.'' then takeWhile isDigit r' else [])
      in if ip = [] \<and> fp = [] then NaN
         else Fin ((if neg then - 1 else 1) * decimalVal ip fp))"

text \<open>
  \<^verbatim>\<open>Number(s)\<close> on a string: surrounding white space is dropped, the empty string is 0,
  then a signed decimal literal (with optional fraction and exponent), a signed
  \<^verbatim>\<open>Infinity\<close>, or an unsigned hexadecimal, octal or binary literal; anything else is NaN.
\<close>

definition hexVal :: "char \<Rightarrow> nat option" where
  "hexVal c =
     (if isDigit c then Some (code c - 48)
      else if 97 \<le> code c \<and> code c \<le> 102 then Some (code c - 87)
      else if 65 \<le> code c \<and> code c \<le> 70 then Some (code c - 55)
      else None)"

definition radixVal :: "nat \<Rightarrow> string \<Rightarrow> jsnum" where
  "radixVal b s =
     (if s \<noteq> [] \<and> (\<forall>c \<in> set s. case hexVal c of None \<Rightarrow> False | Some d \<Rightarrow> d < b)
      then Fin (of_nat (foldl (\<lambda>acc c. b * acc + the (hexVal c)) 0 s))
      else NaN)"

definition exponentVal :: "string \<Rightarrow> int option" where
  "exponentVal s =
     (case s of
        [] \<Rightarrow> Some 0
      | c # r \<Rightarrow>
          if c = CHR ''e'' \<or> c = CHR ''E'' then
            (let neg = (case r of [] \<Rightarrow> False | d # _ \<Rightarrow> d = CHR ''-'');
                 signed = (case r of [] \<Rightarrow> False | d # _ \<Rightarrow> d = CHR ''-'' \<or> d = CHR ''+'');
                 ds = (if signed then tl r else r)
             in if ds \<noteq> [] \<and> (\<forall>d \<in> set ds. isDigit d)
                then Some ((if neg then - 1 else 1) * int (digitsVal ds))
                else None)
          else None)"

definition unsignedDecimal :: "string \<Rightarrow> rat option" where
  "unsignedDecimal s =
     (let ip = takeWhile isDigit s;
          r = dropWhile isDigit s;
          dotted = (case r of [] \<Rightarrow> False | c # _ \<Rightarrow> c = CHR ''.'');
          fp = (if dotted then takeWhile isDigit (tl r) else []);
          r2 = (if dotted then dropWhile isDigit (tl r) else r)
      in if ip = [] \<and> fp = [] then None
         else (case exponentVal r2 of
                 None \<Rightarrow> None
               | Some e \<Rightarrow> Some (decimalVal ip fp * (if e < 0 then 1 / 10 ^ nat (- e) else 10 ^ nat e))))"

definition stringToNumber :: "string \<Rightarrow> jsnum" where
  "stringToNumber s =
     (let t = trim s;
          low = toLowerCase (take 2 t)
      in if t = [] then Fin 0
         else if low = ''0x'' then radixVal 16 (drop 2 t)
         else if low = ''0o'' then radixVal 8 (drop 2 t)
         else if low = ''0b'' then radixVal 2 (drop 2 t)
         else
           (let neg = (hd t = CHR ''-'');
                u = (if hd t = CHR ''-'' \<or> hd t = CHR ''+'' then tl t else t)
            in if u = ''Infinity'' then (if neg then NegInf else PosInf)
               else (case unsignedDecimal u of
                       None \<Rightarrow> NaN
                     | Some q \<Rightarrow> Fin ((if neg then - 1 else 1) * q))))"

text \<open>\<^verbatim>\<open>Number(x)\<close> on a scalar.\<close>

fun toNumber :: "scalar \<Rightarrow> jsnum" where
  "toNumber Undefined = NaN"
| "toNumber Null = Fin 0"
| "toNumber (Bool b) = Fin (if b then 1 else 0)"
| "toNumber (Num n) = n"
| "toNumber (Str s) = stringToNumber s"

text \<open>
  Printing a number, as \<^verbatim>\<open>String(n)\<close> and template literals do. The decimal expansion
  is written out (up to 20 fraction digits), which is what JavaScript prints for the
  numbers with a short decimal expansion between \<open>10\<^sup>-\<^sup>6\<close> and \<open>10\<^sup>2\<^sup>1\<close>.
\<close>

fun natToString :: "nat \<Rightarrow> string" where
  "natToString n =
     (if n < 10 then [char_of (48 + n)]
      else natToString (n div 10) @ [char_of (48 + n mod 10)])"

fun fracDigits :: "nat \<Rightarrow> rat \<Rightarrow> string" where
  "fracDigits 0 q = []"
| "fracDigits (Suc fuel) q =
     (if q = 0 then []
      else (let d = nat \<lfloor>10 * q\<rfloor> in char_of (48 + d) # fracDigits fuel (10 * q - of_nat d)))"

definition ratToString :: "rat \<Rightarrow> string" where
  "ratToString q =
     (let a = \<bar>q\<bar>;
          n = nat \<lfloor>a\<rfloor>;
          f = a - of_nat n
      in (if q < 0 then ''-'' else []) @ natToString n @
         (if f = 0 then [] else CHR ''.'' # fracDigits 20 f))"

fun numToString :: "jsnum \<Rightarrow> string" where
  "numToString NaN = ''NaN''"
| "numToString PosInf = ''Infinity''"
| "numToString NegInf = ''-Infinity''"
| "numToString (Fin q) = ratToString q"

text \<open>\<^verbatim>\<open>String(x)\<close> on a scalar.\<close>

fun toString :: "scalar \<Rightarrow> string" where
  "toString Undefined = ''undefined''"
| "toString Null = ''null''"
| "toString (Bool b) = (if b then ''true'' else ''false'')"
| "toString (Num n) = numToString n"
| "toString (Str s) = s"

text \<open>\<^verbatim>\<open>typeof x === 'number'\<close>.\<close>

fun isNumber :: "scalar \<Rightarrow> bool" where
  "isNumber (Num n) = True"
| "isNumber v = False"

subsection \<open>Truthiness, equality and ordering\<close>

text \<open>\<^verbatim>\<open>Boolean(x)\<close>: undefined, null, false, 0, NaN and the empty string are falsy.\<close>

fun toBoolean :: "scalar \<Rightarrow> bool" where
  "toBoolean Undefined = False"
| "toBoolean Null = False"
| "toBoolean (Bool b) = b"
| "toBoolean (Num n) = (n \<noteq> NaN \<and> n \<noteq> Fin 0)"
| "toBoolean (Str s) = (s \<noteq> [])"

fun truthy :: "pval \<Rightarrow> bool" where
  "truthy (Sc v) = toBoolean v"
| "truthy (Arr xs) = True"

text \<open>\<^verbatim>\<open>a === b\<close> on scalars: the same type and value, and NaN differs from itself.\<close>

definition strictEq :: "scalar \<Rightarrow> scalar \<Rightarrow> bool" where
  "strictEq a b \<longleftrightarrow> a = b \<and> a \<noteq> Num NaN"

fun strictEqP :: "pval \<Rightarrow> pval \<Rightarrow> bool" where
  "strictEqP (Sc a) (Sc b) = strictEq a b"
| "strictEqP a b = False"

text \<open>\<^verbatim>\<open>Array.prototype.includes\<close> compares with SameValueZero, under which NaN equals NaN.\<close>

fun sameValueZero :: "pval \<Rightarrow> pval \<Rightarrow> bool" where
  "sameValueZero (Sc a) (Sc b) = (a = b)"
| "sameValueZero a b = False"

definition arrayIncludes :: "pval list \<Rightarrow> pval \<Rightarrow> bool" where
  "arrayIncludes xs v \<longleftrightarrow> (\<exists>x \<in> set xs. sameValueZero x v)"

text \<open>
  An array in a relational comparison is first turned into a string: its elements
  joined by commas, with undefined and null printed as nothing.
\<close>

fun joinComma :: "string list \<Rightarrow> string" where
  "joinComma [] = []"
| "joinComma [s] = s"
| "joinComma (s # t # ss) = s @ '','' @ joinComma (t # ss)"

fun arrayItemString :: "pval \<Rightarrow> string" where
  "arrayItemString (Sc Undefined) = []"
| "arrayItemString (Sc Null) = []"
| "arrayItemString (Sc v) = toString v"
| "arrayItemString (Arr xs) = joinComma (map arrayItemString xs)"

fun toPrimitive :: "pval \<Rightarrow> scalar" where
  "toPrimitive (Sc v) = v"
| "toPrimitive (Arr xs) = Str (joinComma (map arrayItemString xs))"

text \<open>Strings are ordered by code units.\<close>

fun strLess :: "string \<Rightarrow> string \<Rightarrow> bool" where
  "strLess [] [] = False"
| "strLess [] (y # ys) = True"
| "strLess (x # xs) [] = False"
| "strLess (x # xs) (y # ys) =
     (if code x < code y then True else if code y < code x then False else strLess xs ys)"

text \<open>The numeric \<open><\<close>; \<open>None\<close> is the "undefined" outcome when an operand is NaN.\<close>

fun numLess :: "jsnum \<Rightarrow> jsnum \<Rightarrow> bool option" where
  "numLess NaN b = None"
| "numLess a NaN = None"
| "numLess (Fin a) (Fin b) = Some (a < b)"
| "numLess (Fin a) PosInf = Some True"
| "numLess (Fin a) NegInf = Some False"
| "numLess PosInf b = Some False"
| "numLess NegInf NegInf = Some False"
| "numLess NegInf b = Some True"

text \<open>The abstract relational comparison \<open>x < y\<close> of the language.\<close>

definition relLess :: "pval \<Rightarrow> pval \<Rightarrow> bool option" where
  "relLess x y =
     (case (toPrimitive x, toPrimitive y) of
        (Str s, Str t) \<Rightarrow> Some (strLess s t)
      | (a, b) \<Rightarrow> numLess (toNumber a) (toNumber b))"

definition jsLt :: "pval \<Rightarrow> pval \<Rightarrow> bool" where
  "jsLt a b \<longleftrightarrow> relLess a b = Some True"

definition jsGt :: "pval \<Rightarrow> pval \<Rightarrow> bool" where
  "jsGt a b \<longleftrightarrow> relLess b a = Some True"

definition jsLe :: "pval \<Rightarrow> pval \<Rightarrow> bool" where
  "jsLe a b \<longleftrightarrow> relLess b a = Some False"

definition jsGe :: "pval \<Rightarrow> pval \<Rightarrow> bool" where
  "jsGe a b \<longleftrightarrow> relLess a b = Some False"


section \<open>The condition engine\<close>

subsection \<open>Tokens\<close>

text \<open>
  A token is its type together with its value. The keyword tokens carry the spelling
  of the keyword, which the parser never reads; it is left out. \<open>OTHER\<close> is a token
  whose type is none of the fifteen token types: the tokenizer produces it for a word
  that names an inherited property of the keyword table (see below), and the parser
  treats it in its default case.
\<close>

datatype token =
    IDENTIFIER string
  | STRING string
  | NUMBER jsnum
  | BOOLEAN bool
  | OPERATOR string
  | LPAREN
  | RPAREN
  | LBRACKET
  | RBRACKET
  | COMMA
  | AND
  | OR
  | NOT
  | IN
  | EOF
  | OTHER

datatype keyword = KwAND | KwOR | KwNOT | KwIN | KwBOOLEAN | KwInherited

definition keywordTable :: "(string \<times> keyword) list" where
  "keywordTable =
     [(''and'', KwAND), (''or'', KwOR), (''not'', KwNOT), (''in'', KwIN),
      (''true'', KwBOOLEAN), (''false'', KwBOOLEAN),
      (''True'', KwBOOLEAN), (''False'', KwBOOLEAN)]"

text \<open>
  The table \<^verbatim>\<open>keywords\<close> is a plain object, and \<^verbatim>\<open>keywords[word]\<close> also finds the
  properties that every object inherits. Their values are functions and objects,
  which are truthy and are no token type.
\<close>

definition inheritedNames :: "string list" where
  "inheritedNames =
     [''constructor'', ''hasOwnProperty'', ''isPrototypeOf'', ''propertyIsEnumerable'',
      ''toLocaleString'', ''toString'', ''valueOf'', ''__proto__'',
      ''__defineGetter__'', ''__defineSetter__'', ''__lookupGetter__'', ''__lookupSetter__'']"

definition lookupKeyword :: "string \<Rightarrow> keyword option" where
  "lookupKeyword w =
     (case map_of keywordTable w of
        Some k \<Rightarrow> Some k
      | None \<Rightarrow> if w \<in> set inheritedNames then Some KwInherited else None)"

definition operators :: "string list" where
  "operators = [''=='', ''!='', ''<='', ''>='', ''<'', ''>'', ''='']"

definition isNumChar :: "char \<Rightarrow> bool" where
  "isNumChar c \<longleftrightarrow> isDigit c \<or> c = CHR ''.''"

definition isIdStart :: "char \<Rightarrow> bool" where
  "isIdStart c \<longleftrightarrow> isLower c \<or> isUpper c \<or> c = CHR ''_''"

definition isIdChar :: "char \<Rightarrow> bool" where
  "isIdChar c \<longleftrightarrow> isLower c \<or> isUpper c \<or> isDigit c \<or> c = CHR ''_'' \<or> c = CHR ''.''"

text \<open>\<^verbatim>\<open>/[0-9]/.test(condition[pos + 1] || '')\<close>\<close>

definition nextIsDigit :: "string \<Rightarrow> bool" where
  "nextIsDigit cs = (case cs of [] \<Rightarrow> False | d # _ \<Rightarrow> isDigit d)"

definition matchOperator :: "string \<Rightarrow> string option" where
  "matchOperator s = find (\<lambda>op. take (length op) s = op) operators"

text \<open>The token of an identifier-shaped word: \<^verbatim>\<open>keywords[id] || keywords[lower]\<close>.\<close>

definition wordToken :: "string \<Rightarrow> token" where
  "wordToken ident =
     (let lower = toLowerCase ident;
          kw = (case lookupKeyword ident of Some k \<Rightarrow> Some k | None \<Rightarrow> lookupKeyword lower)
      in case kw of
           None \<Rightarrow> IDENTIFIER ident
         | Some KwBOOLEAN \<Rightarrow> BOOLEAN (lower = ''true'')
         | Some KwAND \<Rightarrow> AND
         | Some KwOR \<Rightarrow> OR
         | Some KwNOT \<Rightarrow> NOT
         | Some KwIN \<Rightarrow> IN
         | Some KwInherited \<Rightarrow> OTHER)"

lemma dropWhile_shorter:
  "length (dropWhile P cs) - n < Suc (length cs)"
  using length_dropWhile_le [of P cs] by simp

lemma matchOperator_nonempty:
  "matchOperator s = Some op \<Longrightarrow> 0 < length op"
  by (auto simp: matchOperator_def operators_def split: if_splits)

subsection \<open>The tokenizer\<close>

text \<open>
  The loop of \<^verbatim>\<open>tokenize\<close> over \<^verbatim>\<open>pos\<close>, as a function of the input that is left. The
  branches are in the order of the source: white space, string literals, numbers,
  operators, brackets and comma, words, and any other character is skipped.
\<close>

function tokenizeFrom :: "string \<Rightarrow> token list" where
  "tokenizeFrom [] = [EOF]"
| "tokenizeFrom (c # cs) =
     (if isSpace c then tokenizeFrom cs
      else if isQuote c then
        STRING (takeWhile (\<lambda>x. x \<noteq> c) cs) # tokenizeFrom (drop 1 (dropWhile (\<lambda>x. x \<noteq> c) cs))
      else if isDigit c then
        NUMBER (parseFloat (takeWhile isNumChar (c # cs))) # tokenizeFrom (dropWhile isNumChar (c # cs))
      else if c = CHR ''-'' \<and> nextIsDigit cs then
        NUMBER (parseFloat (CHR ''-'' # takeWhile isNumChar cs)) # tokenizeFrom (dropWhile isNumChar cs)
      else
        (case matchOperator (c # cs) of
           Some op \<Rightarrow> OPERATOR op # tokenizeFrom (drop (length op) (c # cs))
         | None \<Rightarrow>
             if c = CHR ''('' then LPAREN # tokenizeFrom cs
             else if c = CHR '')'' then RPAREN # tokenizeFrom cs
             else if c = CHR ''['' then LBRACKET # tokenizeFrom cs
             else if c = CHR '']'' then RBRACKET # tokenizeFrom cs
             else if c = CHR '','' then COMMA # tokenizeFrom cs
             else if isIdStart c then
               wordToken (takeWhile isIdChar (c # cs)) # tokenizeFrom (dropWhile isIdChar (c # cs))
             else tokenizeFrom cs))"
  by pat_completeness auto

termination
  by (relation "measure length")
     (auto simp: dropWhile_shorter [where n = 0, simplified] dropWhile_shorter
         isNumChar_def isIdChar_def isIdStart_def
       dest: matchOperator_nonempty)

definition tokenize :: "string \<Rightarrow> token list" where
  "tokenize condition = tokenizeFrom condition"


subsection \<open>The parser\<close>

text \<open>
  \<^verbatim>\<open>ConditionParser\<close> holds the token array, a position and the state. The position
  only ever moves forward and the tokens are read at the position, so the pair of
  array and position is modelled by the list of the tokens not yet passed. Reading
  beyond the array yields an \<^verbatim>\<open>EOF\<close> token.
\<close>

definition current :: "token list \<Rightarrow> token" where
  "current ts = (case ts of [] \<Rightarrow> EOF | t # _ \<Rightarrow> t)"

definition advance :: "token list \<Rightarrow> token list" where
  "advance ts = tl ts"

definition peek :: "nat \<Rightarrow> token list \<Rightarrow> token" where
  "peek offset ts = current (drop offset ts)"

text \<open>The comparison operators of \<^verbatim>\<open>parseComparison\<close>.\<close>

definition compareOp :: "string \<Rightarrow> pval \<Rightarrow> pval \<Rightarrow> bool" where
  "compareOp op left right =
     (if op = ''=='' \<or> op = ''='' then strictEqP left right
      else if op = ''!='' then \<not> strictEqP left right
      else if op = ''<'' then jsLt left right
      else if op = ''<='' then jsLe left right
      else if op = ''>'' then jsGt left right
      else if op = ''>='' then jsGe left right
      else False)"

text \<open>\<^verbatim>\<open>left || right\<close> and \<^verbatim>\<open>left && right\<close> on values that are both already computed.\<close>

definition jsOr :: "pval \<Rightarrow> pval \<Rightarrow> pval" where
  "jsOr left right = (if truthy left then left else right)"

definition jsAnd :: "pval \<Rightarrow> pval \<Rightarrow> pval" where
  "jsAnd left right = (if truthy left then right else left)"

text \<open>
  Each method returns its value and the tokens that are left. The \<^verbatim>\<open>while\<close> loops of
  \<^verbatim>\<open>parseOr\<close>, \<^verbatim>\<open>parseAnd\<close> and \<^verbatim>\<open>parseArray\<close> are the functions named \<open>\<dots>Loop\<close>.
  \<^verbatim>\<open>parseArray\<close> always returns an array, so the \<^verbatim>\<open>Array.isArray\<close> tests of
  \<^verbatim>\<open>parseComparison\<close> always succeed.
\<close>

function parseOr :: "WizardState \<Rightarrow> token list \<Rightarrow> pval \<times> token list"
  and parseOrLoop :: "WizardState \<Rightarrow> pval \<Rightarrow> token list \<Rightarrow> pval \<times> token list"
  and parseAnd :: "WizardState \<Rightarrow> token list \<Rightarrow> pval \<times> token list"
  and parseAndLoop :: "WizardState \<Rightarrow> pval \<Rightarrow> token list \<Rightarrow> pval \<times> token list"
  and parseNot :: "WizardState \<Rightarrow> token list \<Rightarrow> pval \<times> token list"
  and parseComparison :: "WizardState \<Rightarrow> token list \<Rightarrow> pval \<times> token list"
  and parseArray :: "WizardState \<Rightarrow> token list \<Rightarrow> pval list \<times> token list"
  and parseArrayLoop :: "WizardState \<Rightarrow> pval list \<Rightarrow> token list \<Rightarrow> pval list \<times> token list"
  and parsePrimary :: "WizardState \<Rightarrow> token list \<Rightarrow> pval \<times> token list"
where
  "parseOr st ts =
     (case parseAnd st ts of (left, ts1) \<Rightarrow> parseOrLoop st left ts1)"
| "parseOrLoop st left ts =
     (if current ts = OR then
        (case parseAnd st (advance ts) of (right, ts1) \<Rightarrow> parseOrLoop st (jsOr left right) ts1)
      else (left, ts))"
| "parseAnd st ts =
     (case parseNot st ts of (left, ts1) \<Rightarrow> parseAndLoop st left ts1)"
| "parseAndLoop st left ts =
     (if current ts = AND then
        (case parseNot st (advance ts) of (right, ts1) \<Rightarrow> parseAndLoop st (jsAnd left right) ts1)
      else (left, ts))"
| "parseNot st ts =
     (if current ts = NOT then
        (case parseNot st (advance ts) of (v, ts1) \<Rightarrow> (Sc (Bool (\<not> truthy v)), ts1))
      else parseComparison st ts)"
| "parseComparison st ts =
     (case parsePrimary st ts of (left, ts1) \<Rightarrow>
        if current ts1 = IN then
          (case parseArray st (advance ts1) of (right, ts2) \<Rightarrow>
             (Sc (Bool (arrayIncludes right left)), ts2))
        else if current ts1 = NOT \<and> peek 1 ts1 = IN then
          (case parseArray st (advance (advance ts1)) of (right, ts2) \<Rightarrow>
             (Sc (Bool (\<not> arrayIncludes right left)), ts2))
        else
          (case current ts1 of
             OPERATOR op \<Rightarrow>
               (case parsePrimary st (advance ts1) of (right, ts2) \<Rightarrow>
                  (Sc (Bool (compareOp op left right)), ts2))
           | _ \<Rightarrow> (left, ts1)))"
| "parseArray st ts =
     (if current ts \<noteq> LBRACKET then ([], ts)
      else
        (case parseArrayLoop st [] (advance ts) of (items, ts1) \<Rightarrow>
           if current ts1 = RBRACKET then (items, advance ts1) else (items, ts1)))"
| "parseArrayLoop st items ts =
     (if current ts \<noteq> RBRACKET \<and> current ts \<noteq> EOF then
        (case parsePrimary st ts of (v, ts1) \<Rightarrow>
           parseArrayLoop st (items @ [v]) (if current ts1 = COMMA then advance ts1 else ts1))
      else (items, ts))"
| "parsePrimary st ts =
     (case current ts of
        STRING s \<Rightarrow> (Sc (Str s), advance ts)
      | NUMBER n \<Rightarrow> (Sc (Num n), advance ts)
      | BOOLEAN b \<Rightarrow> (Sc (Bool b), advance ts)
      | IDENTIFIER name \<Rightarrow> (Sc (st name), advance ts)
      | LPAREN \<Rightarrow>
          (case parseOr st (advance ts) of (result, ts1) \<Rightarrow>
             (result, if current ts1 = RPAREN then advance ts1 else ts1))
      | LBRACKET \<Rightarrow> (case parseArray st ts of (items, ts1) \<Rightarrow> (Arr items, ts1))
      | _ \<Rightarrow> (Sc Undefined, advance ts))"
  by pat_completeness auto

abbreviation parser_dom where
  "parser_dom \<equiv> parseOr_parseOrLoop_parseAnd_parseAndLoop_parseNot_parseComparison_parseArray_parseArrayLoop_parsePrimary_dom"

text \<open>
  Termination: every method returns no more tokens than it was given, and
  \<^verbatim>\<open>parsePrimary\<close> passes at least one token when there is one. So each loop
  iteration and each nested call works on a shorter list.
\<close>

lemma length_advance: "length (advance ts) \<le> length ts"
  by (simp add: advance_def)

lemma length_advance_less: "ts \<noteq> [] \<Longrightarrow> length (advance ts) < length ts"
  by (cases ts) (simp_all add: advance_def)

lemma current_nonempty: "current ts \<noteq> EOF \<Longrightarrow> ts \<noteq> []"
  by (auto simp: current_def)

lemma parser_consumes:
  "parser_dom (Inl (Inl (Inl (st, ts)))) \<Longrightarrow> length (snd (parseOr st ts)) \<le> length ts"
  "parser_dom (Inl (Inl (Inr (st, left, ts)))) \<Longrightarrow> length (snd (parseOrLoop st left ts)) \<le> length ts"
  "parser_dom (Inl (Inr (Inl (st, ts)))) \<Longrightarrow> length (snd (parseAnd st ts)) \<le> length ts"
  "parser_dom (Inl (Inr (Inr (st, left, ts)))) \<Longrightarrow> length (snd (parseAndLoop st left ts)) \<le> length ts"
  "parser_dom (Inr (Inl (Inl (st, ts)))) \<Longrightarrow> length (snd (parseNot st ts)) \<le> length ts"
  "parser_dom (Inr (Inl (Inr (st, ts)))) \<Longrightarrow> length (snd (parseComparison st ts)) \<le> length ts"
  "parser_dom (Inr (Inr (Inl (st, ts)))) \<Longrightarrow>
     length (snd (parseArray st ts)) \<le> length ts \<and>
     (current ts = LBRACKET \<longrightarrow> length (snd (parseArray st ts)) < length ts)"
  "parser_dom (Inr (Inr (Inr (Inl (st, items, ts))))) \<Longrightarrow>
     length (snd (parseArrayLoop st items ts)) \<le> length ts"
  "parser_dom (Inr (Inr (Inr (Inr (st, ts))))) \<Longrightarrow>
     length (snd (parsePrimary st ts)) \<le> length ts \<and>
     (ts \<noteq> [] \<longrightarrow> length (snd (parsePrimary st ts)) < length ts)"
proof (induct rule: parseOr_parseOrLoop_parseAnd_parseAndLoop_parseNot_parseComparison_parseArray_parseArrayLoop_parsePrimary.pinduct)
  case (1 st ts)
  obtain left ts1 where eq: "parseAnd st ts = (left, ts1)" by (cases "parseAnd st ts")
  from 1(2) eq have a: "length ts1 \<le> length ts" by simp
  from 1(3) [of left ts1] eq have b: "length (snd (parseOrLoop st left ts1)) \<le> length ts1" by simp
  from 1(1) eq a b show ?case by (simp add: parseOr.psimps)
next
  case (2 st left ts)
  show ?case
  proof (cases "current ts = OR")
    case True
    obtain right ts1 where eq: "parseAnd st (advance ts) = (right, ts1)"
      by (cases "parseAnd st (advance ts)")
    from 2(2) True eq have a: "length ts1 \<le> length (advance ts)" by simp
    from 2(3) [of right ts1] True eq
    have b: "length (snd (parseOrLoop st (jsOr left right) ts1)) \<le> length ts1" by simp
    from 2(1) True eq a b length_advance [of ts] show ?thesis
      by (simp add: parseOrLoop.psimps)
  next
    case False
    with 2(1) show ?thesis by (simp add: parseOrLoop.psimps)
  qed
next
  case (3 st ts)
  obtain left ts1 where eq: "parseNot st ts = (left, ts1)" by (cases "parseNot st ts")
  from 3(2) eq have a: "length ts1 \<le> length ts" by simp
  from 3(3) [of left ts1] eq have b: "length (snd (parseAndLoop st left ts1)) \<le> length ts1" by simp
  from 3(1) eq a b show ?case by (simp add: parseAnd.psimps)
next
  case (4 st left ts)
  show ?case
  proof (cases "current ts = AND")
    case True
    obtain right ts1 where eq: "parseNot st (advance ts) = (right, ts1)"
      by (cases "parseNot st (advance ts)")
    from 4(2) True eq have a: "length ts1 \<le> length (advance ts)" by simp
    from 4(3) [of right ts1] True eq
    have b: "length (snd (parseAndLoop st (jsAnd left right) ts1)) \<le> length ts1" by simp
    from 4(1) True eq a b length_advance [of ts] show ?thesis
      by (simp add: parseAndLoop.psimps)
  next
    case False
    with 4(1) show ?thesis by (simp add: parseAndLoop.psimps)
  qed
next
  case (5 st ts)
  show ?case
  proof (cases "current ts = NOT")
    case True
    obtain v ts1 where eq: "parseNot st (advance ts) = (v, ts1)"
      by (cases "parseNot st (advance ts)")
    from 5(2) True eq have "length ts1 \<le> length (advance ts)" by simp
    with 5(1) True eq length_advance [of ts] show ?thesis
      by (simp add: parseNot.psimps)
  next
    case False
    with 5(1) 5(3) show ?thesis by (simp add: parseNot.psimps)
  qed
next
  case (6 st ts)
  obtain left ts1 where eq: "parsePrimary st ts = (left, ts1)" by (cases "parsePrimary st ts")
  from 6(2) eq have a: "length ts1 \<le> length ts" by simp
  have adv: "length (advance ts1) \<le> length ts" "length (advance (advance ts1)) \<le> length ts"
    using a length_advance [of ts1] length_advance [of "advance ts1"] by simp_all
  show ?case
  proof (cases "current ts1 = IN")
    case True
    from 6(3) [of left ts1] eq True
    have "length (snd (parseArray st (advance ts1))) \<le> length (advance ts1)" by simp
    with 6(1) eq True adv show ?thesis
      by (auto simp: parseComparison.psimps split: prod.splits)
  next
    case notIn: False
    show ?thesis
    proof (cases "current ts1 = NOT \<and> peek 1 ts1 = IN")
      case True
      from 6(4) [of left ts1] eq notIn True
      have "length (snd (parseArray st (advance (advance ts1)))) \<le> length (advance (advance ts1))"
        by simp
      with 6(1) eq notIn True adv show ?thesis
        by (auto simp: parseComparison.psimps split: prod.splits)
    next
      case notNotIn: False
      show ?thesis
      proof (cases "current ts1")
        case (OPERATOR op)
        from 6(5) [of left ts1 op] eq notIn notNotIn OPERATOR
        have "length (snd (parsePrimary st (advance ts1))) \<le> length (advance ts1)" by simp
        with 6(1) eq notIn notNotIn OPERATOR adv show ?thesis
          by (auto simp: parseComparison.psimps split: prod.splits)
      qed (use 6(1) eq notIn notNotIn a in \<open>simp_all add: parseComparison.psimps\<close>)
    qed
  qed
next
  case (7 st ts)
  show ?case
  proof (cases "current ts = LBRACKET")
    case True
    then have ne: "ts \<noteq> []" by (auto simp: current_def)
    from 7(2) True
    have "length (snd (parseArrayLoop st [] (advance ts))) \<le> length (advance ts)" by simp
    with 7(1) True length_advance_less [OF ne] length_advance [of "snd (parseArrayLoop st [] (advance ts))"]
    show ?thesis
      by (auto simp: parseArray.psimps split: prod.splits)
  next
    case False
    with 7(1) show ?thesis by (simp add: parseArray.psimps)
  qed
next
  case (8 st items ts)
  show ?case
  proof (cases "current ts \<noteq> RBRACKET \<and> current ts \<noteq> EOF")
    case True
    obtain v ts1 where eq: "parsePrimary st ts = (v, ts1)" by (cases "parsePrimary st ts")
    from 8(2) True eq have a: "length ts1 \<le> length ts" by simp
    let ?ts2 = "if current ts1 = COMMA then advance ts1 else ts1"
    have c: "length ?ts2 \<le> length ts" using a length_advance [of ts1] by simp
    from 8(3) [of v ts1] True eq
    have b: "length (snd (parseArrayLoop st (items @ [v]) ?ts2)) \<le> length ?ts2" by simp
    from 8(1) True eq b c show ?thesis
      by (simp add: parseArrayLoop.psimps)
  next
    case False
    with 8(1) show ?thesis by (auto simp: parseArrayLoop.psimps)
  qed
next
  case (9 st ts)
  show ?case
  proof (cases "current ts")
    case LPAREN
    then have ne: "ts \<noteq> []" by (auto simp: current_def)
    from 9(2) LPAREN
    have "length (snd (parseOr st (advance ts))) \<le> length (advance ts)" by simp
    with 9(1) LPAREN length_advance_less [OF ne] length_advance [of "snd (parseOr st (advance ts))"]
    show ?thesis
      by (auto simp: parsePrimary.psimps split: prod.splits)
  next
    case LBRACKET
    with 9(3) 9(1) show ?thesis
      by (auto simp: parsePrimary.psimps split: prod.splits)
  qed (use 9(1) length_advance [of ts] length_advance_less [of ts] in
        \<open>auto simp: parsePrimary.psimps\<close>)
qed

definition parserMeasure ::
  "((WizardState \<times> token list + WizardState \<times> pval \<times> token list) +
    (WizardState \<times> token list + WizardState \<times> pval \<times> token list)) +
   ((WizardState \<times> token list + WizardState \<times> token list) +
    (WizardState \<times> token list + (WizardState \<times> pval list \<times> token list + WizardState \<times> token list)))
   \<Rightarrow> nat" where
  "parserMeasure x =
     (case x of
        Inl (Inl (Inl (st, ts))) \<Rightarrow> 8 * length ts + 7
      | Inl (Inl (Inr (st, left, ts))) \<Rightarrow> 8 * length ts
      | Inl (Inr (Inl (st, ts))) \<Rightarrow> 8 * length ts + 6
      | Inl (Inr (Inr (st, left, ts))) \<Rightarrow> 8 * length ts
      | Inr (Inl (Inl (st, ts))) \<Rightarrow> 8 * length ts + 5
      | Inr (Inl (Inr (st, ts))) \<Rightarrow> 8 * length ts + 4
      | Inr (Inr (Inl (st, ts))) \<Rightarrow> 8 * length ts + 1
      | Inr (Inr (Inr (Inl (st, items, ts)))) \<Rightarrow> 8 * length ts + 3
      | Inr (Inr (Inr (Inr (st, ts)))) \<Rightarrow> 8 * length ts + 2)"

lemma consumed_parseAnd:
  "(x, y) = parseAnd st ts \<Longrightarrow> parser_dom (Inl (Inr (Inl (st, ts)))) \<Longrightarrow> length y \<le> length ts"
  using parser_consumes(3) [of st ts] by (cases "parseAnd st ts") simp

lemma consumed_parseNot:
  "(x, y) = parseNot st ts \<Longrightarrow> parser_dom (Inr (Inl (Inl (st, ts)))) \<Longrightarrow> length y \<le> length ts"
  using parser_consumes(5) [of st ts] by (cases "parseNot st ts") simp

lemma consumed_parsePrimary:
  "(x, y) = parsePrimary st ts \<Longrightarrow> parser_dom (Inr (Inr (Inr (Inr (st, ts))))) \<Longrightarrow>
   length y \<le> length ts \<and> (ts \<noteq> [] \<longrightarrow> length y < length ts)"
  using parser_consumes(9) [of st ts] by (cases "parsePrimary st ts") simp

lemma advance_shorter:
  "current ts \<noteq> EOF \<Longrightarrow> length (advance ts) < length ts"
  by (cases ts) (simp_all add: current_def advance_def)

termination parseOr
proof (relation "measure parserMeasure", goal_cases)
  case 1
  show ?case by simp
next
  case (2 st ts)
  show ?case by (simp add: parserMeasure_def)
next
  case (3 st ts x y)
  then have eq: "parseAnd st ts = (x, y)" by simp
  with 3 show ?case using consumed_parseAnd [of x y st ts] by (simp add: parserMeasure_def)
next
  case (4 st left ts)
  then show ?case using advance_shorter [of ts] by (simp add: parserMeasure_def)
next
  case (5 st left ts x y)
  then have eq: "parseAnd st (advance ts) = (x, y)" by simp
  with 5 show ?case
    using consumed_parseAnd [of x y st "advance ts"] advance_shorter [of ts]
    by (simp add: parserMeasure_def)
next
  case (6 st ts)
  show ?case by (simp add: parserMeasure_def)
next
  case (7 st ts x y)
  then have eq: "parseNot st ts = (x, y)" by simp
  with 7 show ?case using consumed_parseNot [of x y st ts] by (simp add: parserMeasure_def)
next
  case (8 st left ts)
  then show ?case using advance_shorter [of ts] by (simp add: parserMeasure_def)
next
  case (9 st left ts x y)
  then have eq: "parseNot st (advance ts) = (x, y)" by simp
  with 9 show ?case
    using consumed_parseNot [of x y st "advance ts"] advance_shorter [of ts]
    by (simp add: parserMeasure_def)
next
  case (10 st ts)
  then show ?case using advance_shorter [of ts] by (simp add: parserMeasure_def)
next
  case (11 st ts)
  show ?case by (simp add: parserMeasure_def)
next
  case (12 st ts)
  show ?case by (simp add: parserMeasure_def)
next
  case (13 st ts x y)
  then have eq: "parsePrimary st ts = (x, y)" by simp
  with 13 show ?case
    using consumed_parsePrimary [of x y st ts] advance_shorter [of y]
    by (simp add: parserMeasure_def)
next
  case (14 st ts x y)
  then have eq: "parsePrimary st ts = (x, y)" by simp
  with 14 show ?case
    using consumed_parsePrimary [of x y st ts] advance_shorter [of y] length_advance [of "advance y"]
    by (simp add: parserMeasure_def)
next
  case (15 st ts x y op)
  then have eq: "parsePrimary st ts = (x, y)" by simp
  with 15 show ?case
    using consumed_parsePrimary [of x y st ts] advance_shorter [of y]
    by (simp add: parserMeasure_def)
next
  case (16 st ts)
  then show ?case using advance_shorter [of ts] by (simp add: parserMeasure_def)
next
  case (17 st items ts)
  show ?case by (simp add: parserMeasure_def)
next
  case (18 st items ts x y)
  then have eq: "parsePrimary st ts = (x, y)" by simp
  from 18 have "ts \<noteq> []" by (auto simp: current_def)
  with 18 eq show ?case
    using consumed_parsePrimary [of x y st ts] length_advance [of y]
    by (auto simp: parserMeasure_def)
next
  case (19 st ts)
  then show ?case using advance_shorter [of ts] by (simp add: parserMeasure_def)
next
  case (20 st ts)
  show ?case by (simp add: parserMeasure_def)
qed

declare parseOr.simps [simp del] parseOrLoop.simps [simp del] parseAnd.simps [simp del]
  parseAndLoop.simps [simp del] parseNot.simps [simp del] parseComparison.simps [simp del]
  parseArray.simps [simp del] parseArrayLoop.simps [simp del] parsePrimary.simps [simp del]

lemmas parser_simps =
  parseOr.simps parseOrLoop.simps parseAnd.simps parseAndLoop.simps parseNot.simps
  parseComparison.simps parseArray.simps parseArrayLoop.simps parsePrimary.simps

text \<open>\<^verbatim>\<open>parse()\<close>: the value of \<^verbatim>\<open>parseOr\<close> as a boolean; tokens that are left are ignored.\<close>

definition parse :: "WizardState \<Rightarrow> token list \<Rightarrow> bool" where
  "parse st ts = truthy (fst (parseOr st ts))"

subsection \<open>evaluateCondition\<close>

text \<open>
  The condition is \<^verbatim>\<open>string | undefined | null\<close>: \<open>None\<close> stands for an absent one.
  \<open>evaluateCondition\<close> is the function on a call stack that suffices. The \<^verbatim>\<open>try\<close> block
  wraps \<^verbatim>\<open>tokenize\<close> and \<^verbatim>\<open>parse\<close>. Neither contains a \<^verbatim>\<open>throw\<close>, and on strings and
  scalar states none of their operations raises, so the one exception that the
  \<^verbatim>\<open>catch\<close> branch can meet is the \<^verbatim>\<open>RangeError\<close> of the engine when the recursion of the
  parser exhausts the stack. The next subsection adds the bound on the stack and the
  two branches of the \<^verbatim>\<open>try\<close> statement.
\<close>

definition evaluateCondition :: "string option \<Rightarrow> WizardState \<Rightarrow> bool" where
  "evaluateCondition condition st =
     (case condition of
        None \<Rightarrow> True
      | Some c \<Rightarrow> if c = [] \<or> trim c = [] then True else parse st (tokenize c))"


subsection \<open>The call stack\<close>

text \<open>
  The engine bounds the depth of nested calls and raises \<^verbatim>\<open>RangeError\<close> in the call that
  exceeds it. The methods of the parser call each other recursively, once round for
  every opening parenthesis, so a condition that is nested deeply enough exhausts any
  stack. The functions named \<open>\<dots>Within\<close> are the methods of the parser with the number
  of calls that may still be nested as their first argument: a method that is called
  with none left raises, and it passes one less to every method that it calls. The
  \<^verbatim>\<open>while\<close> loops run in the frame of their method. Nothing in the parser catches an
  exception, so an exception of a called method leaves the calling method too.

  The bound counts the calls of the parse methods. The helpers \<^verbatim>\<open>current\<close>, \<^verbatim>\<open>advance\<close>
  and \<^verbatim>\<open>peek\<close>, which only read the token array, the built-in functions and the sizes
  of the frames are not distinguished, and the handler of \<^verbatim>\<open>evaluateCondition\<close>, which
  runs when the stack is unwound, is taken to have room.
\<close>

datatype exception = RangeError

function parseOrWithin :: "nat \<Rightarrow> WizardState \<Rightarrow> token list \<Rightarrow> exception + pval \<times> token list"
  and parseOrLoopWithin :: "nat \<Rightarrow> WizardState \<Rightarrow> pval \<Rightarrow> token list \<Rightarrow> exception + pval \<times> token list"
  and parseAndWithin :: "nat \<Rightarrow> WizardState \<Rightarrow> token list \<Rightarrow> exception + pval \<times> token list"
  and parseAndLoopWithin :: "nat \<Rightarrow> WizardState \<Rightarrow> pval \<Rightarrow> token list \<Rightarrow> exception + pval \<times> token list"
  and parseNotWithin :: "nat \<Rightarrow> WizardState \<Rightarrow> token list \<Rightarrow> exception + pval \<times> token list"
  and parseComparisonWithin :: "nat \<Rightarrow> WizardState \<Rightarrow> token list \<Rightarrow> exception + pval \<times> token list"
  and parseArrayWithin :: "nat \<Rightarrow> WizardState \<Rightarrow> token list \<Rightarrow> exception + pval list \<times> token list"
  and parseArrayLoopWithin :: "nat \<Rightarrow> WizardState \<Rightarrow> pval list \<Rightarrow> token list \<Rightarrow> exception + pval list \<times> token list"
  and parsePrimaryWithin :: "nat \<Rightarrow> WizardState \<Rightarrow> token list \<Rightarrow> exception + pval \<times> token list"
where
  "parseOrWithin d st ts =
     (if d = 0 then Inl RangeError
      else case parseAndWithin (d - 1) st ts of
             Inl e \<Rightarrow> Inl e
           | Inr (left, ts1) \<Rightarrow> parseOrLoopWithin d st left ts1)"
| "parseOrLoopWithin d st left ts =
     (if current ts = OR then
        (case parseAndWithin (d - 1) st (advance ts) of
           Inl e \<Rightarrow> Inl e
         | Inr (right, ts1) \<Rightarrow> parseOrLoopWithin d st (jsOr left right) ts1)
      else Inr (left, ts))"
| "parseAndWithin d st ts =
     (if d = 0 then Inl RangeError
      else case parseNotWithin (d - 1) st ts of
             Inl e \<Rightarrow> Inl e
           | Inr (left, ts1) \<Rightarrow> parseAndLoopWithin d st left ts1)"
| "parseAndLoopWithin d st left ts =
     (if current ts = AND then
        (case parseNotWithin (d - 1) st (advance ts) of
           Inl e \<Rightarrow> Inl e
         | Inr (right, ts1) \<Rightarrow> parseAndLoopWithin d st (jsAnd left right) ts1)
      else Inr (left, ts))"
| "parseNotWithin d st ts =
     (if d = 0 then Inl RangeError
      else if current ts = NOT then
        (case parseNotWithin (d - 1) st (advance ts) of
           Inl e \<Rightarrow> Inl e
         | Inr (v, ts1) \<Rightarrow> Inr (Sc (Bool (\<not> truthy v)), ts1))
      else parseComparisonWithin (d - 1) st ts)"
| "parseComparisonWithin d st ts =
     (if d = 0 then Inl RangeError
      else case parsePrimaryWithin (d - 1) st ts of
             Inl e \<Rightarrow> Inl e
           | Inr (left, ts1) \<Rightarrow>
               if current ts1 = IN then
                 (case parseArrayWithin (d - 1) st (advance ts1) of
                    Inl e \<Rightarrow> Inl e
                  | Inr (right, ts2) \<Rightarrow> Inr (Sc (Bool (arrayIncludes right left)), ts2))
               else if current ts1 = NOT \<and> peek 1 ts1 = IN then
                 (case parseArrayWithin (d - 1) st (advance (advance ts1)) of
                    Inl e \<Rightarrow> Inl e
                  | Inr (right, ts2) \<Rightarrow> Inr (Sc (Bool (\<not> arrayIncludes right left)), ts2))
               else
                 (case current ts1 of
                    OPERATOR op \<Rightarrow>
                      (case parsePrimaryWithin (d - 1) st (advance ts1) of
                         Inl e \<Rightarrow> Inl e
                       | Inr (right, ts2) \<Rightarrow> Inr (Sc (Bool (compareOp op left right)), ts2))
                  | _ \<Rightarrow> Inr (left, ts1)))"
| "parseArrayWithin d st ts =
     (if d = 0 then Inl RangeError
      else if current ts \<noteq> LBRACKET then Inr ([], ts)
      else
        (case parseArrayLoopWithin d st [] (advance ts) of
           Inl e \<Rightarrow> Inl e
         | Inr (items, ts1) \<Rightarrow>
             if current ts1 = RBRACKET then Inr (items, advance ts1) else Inr (items, ts1)))"
| "parseArrayLoopWithin d st items ts =
     (if current ts \<noteq> RBRACKET \<and> current ts \<noteq> EOF then
        (case parsePrimaryWithin (d - 1) st ts of
           Inl e \<Rightarrow> Inl e
         | Inr (v, ts1) \<Rightarrow>
             parseArrayLoopWithin d st (items @ [v]) (if current ts1 = COMMA then advance ts1 else ts1))
      else Inr (items, ts))"
| "parsePrimaryWithin d st ts =
     (if d = 0 then Inl RangeError
      else case current ts of
        STRING s \<Rightarrow> Inr (Sc (Str s), advance ts)
      | NUMBER n \<Rightarrow> Inr (Sc (Num n), advance ts)
      | BOOLEAN b \<Rightarrow> Inr (Sc (Bool b), advance ts)
      | IDENTIFIER name \<Rightarrow> Inr (Sc (st name), advance ts)
      | LPAREN \<Rightarrow>
          (case parseOrWithin (d - 1) st (advance ts) of
             Inl e \<Rightarrow> Inl e
           | Inr (result, ts1) \<Rightarrow>
               Inr (result, if current ts1 = RPAREN then advance ts1 else ts1))
      | LBRACKET \<Rightarrow>
          (case parseArrayWithin (d - 1) st ts of
             Inl e \<Rightarrow> Inl e
           | Inr (items, ts1) \<Rightarrow> Inr (Arr items, ts1))
      | _ \<Rightarrow> Inr (Sc Undefined, advance ts))"
  by pat_completeness auto


abbreviation within_dom where
  "within_dom \<equiv> parseOrWithin_parseOrLoopWithin_parseAndWithin_parseAndLoopWithin_parseNotWithin_parseComparisonWithin_parseArrayWithin_parseArrayLoopWithin_parsePrimaryWithin_dom"


text \<open>
  Termination, as for the parser without the bound: a method that returns leaves no
  more tokens than it was given, and \<open>parsePrimaryWithin\<close> passes at least one.
\<close>

lemma within_consumes:
  "within_dom (Inl (Inl (Inl (d, st, ts)))) \<Longrightarrow>
     parseOrWithin d st ts = Inr (v, rest) \<Longrightarrow> length rest \<le> length ts"
  "within_dom (Inl (Inl (Inr (d, st, left, ts)))) \<Longrightarrow>
     parseOrLoopWithin d st left ts = Inr (v, rest) \<Longrightarrow> length rest \<le> length ts"
  "within_dom (Inl (Inr (Inl (d, st, ts)))) \<Longrightarrow>
     parseAndWithin d st ts = Inr (v, rest) \<Longrightarrow> length rest \<le> length ts"
  "within_dom (Inl (Inr (Inr (d, st, left, ts)))) \<Longrightarrow>
     parseAndLoopWithin d st left ts = Inr (v, rest) \<Longrightarrow> length rest \<le> length ts"
  "within_dom (Inr (Inl (Inl (d, st, ts)))) \<Longrightarrow>
     parseNotWithin d st ts = Inr (v, rest) \<Longrightarrow> length rest \<le> length ts"
  "within_dom (Inr (Inl (Inr (d, st, ts)))) \<Longrightarrow>
     parseComparisonWithin d st ts = Inr (v, rest) \<Longrightarrow> length rest \<le> length ts"
  "within_dom (Inr (Inr (Inl (d, st, ts)))) \<Longrightarrow>
     parseArrayWithin d st ts = Inr (vs, rest) \<Longrightarrow>
     length rest \<le> length ts \<and> (current ts = LBRACKET \<longrightarrow> length rest < length ts)"
  "within_dom (Inr (Inr (Inr (Inl (d, st, items, ts))))) \<Longrightarrow>
     parseArrayLoopWithin d st items ts = Inr (vs, rest) \<Longrightarrow> length rest \<le> length ts"
  "within_dom (Inr (Inr (Inr (Inr (d, st, ts))))) \<Longrightarrow>
     parsePrimaryWithin d st ts = Inr (v, rest) \<Longrightarrow>
     length rest \<le> length ts \<and> (ts \<noteq> [] \<longrightarrow> length rest < length ts)"
proof (induct arbitrary: v rest and v rest and v rest and v rest and v rest and v rest and vs rest and vs rest and v rest
    rule: parseOrWithin_parseOrLoopWithin_parseAndWithin_parseAndLoopWithin_parseNotWithin_parseComparisonWithin_parseArrayWithin_parseArrayLoopWithin_parsePrimaryWithin.pinduct)
  case (1 d st ts)
  then show ?case
    by (fastforce simp: parseOrWithin.psimps split: if_splits sum.splits prod.splits)
next
  case (2 d st left ts)
  then show ?case
    using length_advance [of ts]
    by (fastforce simp: parseOrLoopWithin.psimps split: if_splits sum.splits prod.splits)
next
  case (3 d st ts)
  then show ?case
    by (fastforce simp: parseAndWithin.psimps split: if_splits sum.splits prod.splits)
next
  case (4 d st left ts)
  then show ?case
    using length_advance [of ts]
    by (fastforce simp: parseAndLoopWithin.psimps split: if_splits sum.splits prod.splits)
next
  case (5 d st ts)
  then show ?case
    using length_advance [of ts]
    by (fastforce simp: parseNotWithin.psimps split: if_splits sum.splits prod.splits)
next
  case (6 d st ts)
  note dom = 6(1) and res = 6(6)
  from dom res have d: "d \<noteq> 0"
    by (cases "d = 0") (simp_all add: parseComparisonWithin.psimps)
  from dom res d obtain left ts1 where eq: "parsePrimaryWithin (d - 1) st ts = Inr (left, ts1)"
    by (auto simp: parseComparisonWithin.psimps split: sum.splits)
  from 6(2) [OF d eq] have a: "length ts1 \<le> length ts" by simp
  have adv: "length (advance ts1) \<le> length ts" "length (advance (advance ts1)) \<le> length ts"
    using a length_advance [of ts1] length_advance [of "advance ts1"] by simp_all
  show ?case
  proof (cases "current ts1 = IN")
    case True
    with dom res d eq obtain right where
      r: "parseArrayWithin (d - 1) st (advance ts1) = Inr (right, rest)"
      by (auto simp: parseComparisonWithin.psimps split: sum.splits)
    from 6(3) [OF d eq refl True r] adv show ?thesis by simp
  next
    case notIn: False
    show ?thesis
    proof (cases "current ts1 = NOT \<and> peek 1 ts1 = IN")
      case True
      with dom res d eq notIn obtain right where
        r: "parseArrayWithin (d - 1) st (advance (advance ts1)) = Inr (right, rest)"
        by (auto simp: parseComparisonWithin.psimps split: sum.splits)
      from 6(4) [OF d eq refl notIn True r] adv show ?thesis by simp
    next
      case notNotIn: False
      show ?thesis
      proof (cases "current ts1")
        case (OPERATOR op)
        with dom res d eq notIn notNotIn obtain right where
          r: "parsePrimaryWithin (d - 1) st (advance ts1) = Inr (right, rest)"
          by (auto simp: parseComparisonWithin.psimps split: sum.splits)
        from 6(5) [OF d eq refl notIn notNotIn OPERATOR r] adv show ?thesis by simp
      qed (use dom res d eq notIn notNotIn a in \<open>auto simp: parseComparisonWithin.psimps\<close>)
    qed
  qed
next
  case (7 d st ts)
  note dom = 7(1) and res = 7(3)
  from dom res have d: "d \<noteq> 0"
    by (cases "d = 0") (simp_all add: parseArrayWithin.psimps)
  show ?case
  proof (cases "current ts = LBRACKET")
    case True
    then have ne: "ts \<noteq> []" by (auto simp: current_def)
    from dom res d True obtain items ts1 where
      eq: "parseArrayLoopWithin d st [] (advance ts) = Inr (items, ts1)"
      and rest: "rest = (if current ts1 = RBRACKET then advance ts1 else ts1)"
      by (auto simp: parseArrayWithin.psimps split: sum.splits if_splits)
    from True have "\<not> current ts \<noteq> LBRACKET" by simp
    from 7(2) [OF d this eq] have "length ts1 \<le> length (advance ts)" .
    with rest length_advance_less [OF ne] length_advance [of ts1] True show ?thesis by auto
  next
    case False
    with dom res d show ?thesis by (auto simp: parseArrayWithin.psimps)
  qed
next
  case (8 d st items ts)
  note dom = 8(1) and res = 8(4)
  show ?case
  proof (cases "current ts \<noteq> RBRACKET \<and> current ts \<noteq> EOF")
    case True
    with dom res obtain x ts1 where eq: "parsePrimaryWithin (d - 1) st ts = Inr (x, ts1)"
      and r: "parseArrayLoopWithin d st (items @ [x]) (if current ts1 = COMMA then advance ts1 else ts1)
              = Inr (vs, rest)"
      by (auto simp: parseArrayLoopWithin.psimps split: sum.splits)
    from 8(2) [OF True eq] have a: "length ts1 \<le> length ts" by simp
    from 8(3) [OF True eq refl r]
    have "length rest \<le> length (if current ts1 = COMMA then advance ts1 else ts1)" .
    with a length_advance [of ts1] show ?thesis by (auto split: if_splits)
  next
    case False
    with dom res show ?thesis by (auto simp: parseArrayLoopWithin.psimps)
  qed
next
  case (9 d st ts)
  note dom = 9(1) and res = 9(4)
  from dom res have d: "d \<noteq> 0"
    by (cases "d = 0") (simp_all add: parsePrimaryWithin.psimps)
  show ?case
  proof (cases "current ts")
    case LPAREN
    then have ne: "ts \<noteq> []" by (auto simp: current_def)
    from dom res d LPAREN obtain ts1 where
      eq: "parseOrWithin (d - 1) st (advance ts) = Inr (v, ts1)"
      and rest: "rest = (if current ts1 = RPAREN then advance ts1 else ts1)"
      by (auto simp: parsePrimaryWithin.psimps split: sum.splits)
    from 9(2) [OF d LPAREN eq] have "length ts1 \<le> length (advance ts)" .
    with rest length_advance_less [OF ne] length_advance [of ts1] ne show ?thesis by auto
  next
    case LBRACKET
    with dom res d obtain items where
      eq: "parseArrayWithin (d - 1) st ts = Inr (items, rest)"
      by (auto simp: parsePrimaryWithin.psimps split: sum.splits)
    from 9(3) [OF d LBRACKET eq] LBRACKET show ?thesis by simp
  qed (use dom res d length_advance [of ts] length_advance_less [of ts] in
        \<open>auto simp: parsePrimaryWithin.psimps\<close>)
qed


definition withinMeasure ::
  "((nat \<times> WizardState \<times> token list + nat \<times> WizardState \<times> pval \<times> token list) +
    (nat \<times> WizardState \<times> token list + nat \<times> WizardState \<times> pval \<times> token list)) +
   ((nat \<times> WizardState \<times> token list + nat \<times> WizardState \<times> token list) +
    (nat \<times> WizardState \<times> token list +
      (nat \<times> WizardState \<times> pval list \<times> token list + nat \<times> WizardState \<times> token list)))
   \<Rightarrow> nat" where
  "withinMeasure x =
     (case x of
        Inl (Inl (Inl (d, st, ts))) \<Rightarrow> 8 * length ts + 7
      | Inl (Inl (Inr (d, st, left, ts))) \<Rightarrow> 8 * length ts
      | Inl (Inr (Inl (d, st, ts))) \<Rightarrow> 8 * length ts + 6
      | Inl (Inr (Inr (d, st, left, ts))) \<Rightarrow> 8 * length ts
      | Inr (Inl (Inl (d, st, ts))) \<Rightarrow> 8 * length ts + 5
      | Inr (Inl (Inr (d, st, ts))) \<Rightarrow> 8 * length ts + 4
      | Inr (Inr (Inl (d, st, ts))) \<Rightarrow> 8 * length ts + 1
      | Inr (Inr (Inr (Inl (d, st, items, ts)))) \<Rightarrow> 8 * length ts + 3
      | Inr (Inr (Inr (Inr (d, st, ts)))) \<Rightarrow> 8 * length ts + 2)"

lemma advance_twice_le: "length (advance (advance ts)) \<le> length ts"
  using length_advance [of ts] length_advance [of "advance ts"] by simp

lemma within_total: "All within_dom"
proof (relation "measure withinMeasure", goal_cases)
  case 1
  show ?case by simp
next
  case (2 d st ts)
  show ?case by (simp add: withinMeasure_def)
next
  case (3 d st ts b x y)
  with within_consumes(3) [of "d - 1" st ts x y] show ?case
    by (auto simp: withinMeasure_def)
next
  case (4 d st left ts)
  then show ?case using advance_shorter [of ts] by (simp add: withinMeasure_def)
next
  case (5 d st left ts b x y)
  with within_consumes(3) [of "d - 1" st "advance ts" x y] advance_shorter [of ts] show ?case
    by (auto simp: withinMeasure_def)
next
  case (6 d st ts)
  show ?case by (simp add: withinMeasure_def)
next
  case (7 d st ts b x y)
  with within_consumes(5) [of "d - 1" st ts x y] show ?case
    by (auto simp: withinMeasure_def)
next
  case (8 d st left ts)
  then show ?case using advance_shorter [of ts] by (simp add: withinMeasure_def)
next
  case (9 d st left ts b x y)
  with within_consumes(5) [of "d - 1" st "advance ts" x y] advance_shorter [of ts] show ?case
    by (auto simp: withinMeasure_def)
next
  case (10 d st ts)
  then show ?case using advance_shorter [of ts] by (simp add: withinMeasure_def)
next
  case (11 d st ts)
  show ?case by (simp add: withinMeasure_def)
next
  case (12 d st ts)
  show ?case by (simp add: withinMeasure_def)
next
  case (13 d st ts b x y)
  with within_consumes(9) [of "d - 1" st ts x y] length_advance [of y] show ?case
    by (auto simp: withinMeasure_def)
next
  case (14 d st ts b x y)
  with within_consumes(9) [of "d - 1" st ts x y] advance_twice_le [of y] show ?case
    by (auto simp: withinMeasure_def)
next
  case (15 d st ts b x y op)
  with within_consumes(9) [of "d - 1" st ts x y] length_advance [of y] show ?case
    by (auto simp: withinMeasure_def)
next
  case (16 d st ts)
  then show ?case using advance_shorter [of ts] by (simp add: withinMeasure_def)
next
  case (17 d st items ts)
  show ?case by (simp add: withinMeasure_def)
next
  case (18 d st items ts b x y)
  from 18 have "ts \<noteq> []" by (auto simp: current_def)
  with 18 within_consumes(9) [of "d - 1" st ts x y] length_advance [of y] show ?case
    by (auto simp: withinMeasure_def)
next
  case (19 d st ts)
  then show ?case using advance_shorter [of ts] by (simp add: withinMeasure_def)
next
  case (20 d st ts)
  show ?case by (simp add: withinMeasure_def)
qed


termination parseOrWithin
  by (rule within_total)


declare parseOrWithin.simps [simp del] parseOrLoopWithin.simps [simp del]
  parseAndWithin.simps [simp del] parseAndLoopWithin.simps [simp del]
  parseNotWithin.simps [simp del] parseComparisonWithin.simps [simp del]
  parseArrayWithin.simps [simp del] parseArrayLoopWithin.simps [simp del]
  parsePrimaryWithin.simps [simp del]

lemmas within_simps =
  parseOrWithin.simps parseOrLoopWithin.simps parseAndWithin.simps parseAndLoopWithin.simps
  parseNotWithin.simps parseComparisonWithin.simps parseArrayWithin.simps
  parseArrayLoopWithin.simps parsePrimaryWithin.simps

text \<open>\<^verbatim>\<open>parse()\<close> is a method of its own and takes a frame.\<close>

definition parseWithin :: "nat \<Rightarrow> WizardState \<Rightarrow> token list \<Rightarrow> exception + bool" where
  "parseWithin d st ts =
     (if d = 0 then Inl RangeError
      else case parseOrWithin (d - 1) st ts of
             Inl e \<Rightarrow> Inl e
           | Inr (result, _) \<Rightarrow> Inr (truthy result))"

text \<open>
  \<^verbatim>\<open>evaluateCondition\<close> with the bound. The result is \<open>Inr b\<close> when the function returns
  \<open>b\<close>, and it would be \<open>Inl e\<close> if the exception \<open>e\<close> left the function. The test for an
  absent or blank condition stands before the \<^verbatim>\<open>try\<close> block. An exception inside the
  block is caught, logged, and answered with false.
\<close>

definition evaluateConditionWithin :: "nat \<Rightarrow> string option \<Rightarrow> WizardState \<Rightarrow> exception + bool" where
  "evaluateConditionWithin limit condition st =
     (case condition of
        None \<Rightarrow> Inr True
      | Some c \<Rightarrow>
          if c = [] \<or> trim c = [] then Inr True
          else (case parseWithin limit st (tokenize c) of
                  Inr b \<Rightarrow> Inr b
                | Inl e \<Rightarrow> Inr False))"


section \<open>Implications\<close>

text \<open>
  An \<^verbatim>\<open>Implication\<close>. The object literal \<^verbatim>\<open>setValues\<close> is the list of its entries in the
  order \<^verbatim>\<open>Object.entries\<close> yields them. The \<^verbatim>\<open>description\<close> is documentation that no
  function reads; it is left out.
\<close>

record Implication =
  imp_id :: string
  imp_condition :: string
  setValues :: "(string \<times> scalar) list"
  allowOverride :: "bool option"
  priority :: "int option"

definition corexy_awd_enables_awd :: Implication where
  "corexy_awd_enables_awd =
     \<lparr>imp_id = ''corexy_awd_enables_awd'',
      imp_condition = ''printer.kinematics == 'corexy-awd'' @ [squote],
      setValues = [(''printer.awd_enabled'', Bool True)],
      allowOverride = None, priority = None\<rparr>"

definition hybrid_corexy_enables_awd :: Implication where
  "hybrid_corexy_enables_awd =
     \<lparr>imp_id = ''hybrid_corexy_enables_awd'',
      imp_condition = ''printer.kinematics == 'hybrid_corexy'' @ [squote],
      setValues = [(''printer.awd_enabled'', Bool True)],
      allowOverride = None, priority = None\<rparr>"

definition non_awd_disables_awd :: Implication where
  "non_awd_disables_awd =
     \<lparr>imp_id = ''non_awd_disables_awd'',
      imp_condition =
        ''printer.kinematics != 'corexy-awd' and printer.kinematics != 'hybrid_corexy'' @ [squote],
      setValues = [(''printer.awd_enabled'', Bool False)],
      allowOverride = None, priority = Some (- 1)\<rparr>"

definition tap_zero_offsets :: Implication where
  "tap_zero_offsets =
     \<lparr>imp_id = ''tap_zero_offsets'',
      imp_condition = ''probe.probe_type == 'tap'' @ [squote],
      setValues = [(''probe.x_offset'', Num (Fin 0)), (''probe.y_offset'', Num (Fin 0))],
      allowOverride = None, priority = None\<rparr>"

definition beacon_contact_homing :: Implication where
  "beacon_contact_homing =
     \<lparr>imp_id = ''beacon_contact_homing'',
      imp_condition = ''probe.probe_type == 'beacon' and probe.homing_mode == 'contact'' @ [squote],
      setValues = [(''homing.homing_method'', Str ''beacon_contact'')],
      allowOverride = None, priority = None\<rparr>"

definition cartographer_touch_homing :: Implication where
  "cartographer_touch_homing =
     \<lparr>imp_id = ''cartographer_touch_homing'',
      imp_condition =
        ''probe.probe_type == 'cartographer' and probe.homing_mode == 'touch'' @ [squote],
      setValues = [(''homing.homing_method'', Str ''cartographer_touch'')],
      allowOverride = None, priority = None\<rparr>"

definition bltouch_homing :: Implication where
  "bltouch_homing =
     \<lparr>imp_id = ''bltouch_homing'',
      imp_condition = ''probe.probe_type == 'bltouch'' @ [squote],
      setValues = [(''homing.homing_method'', Str ''probe'')],
      allowOverride = None, priority = None\<rparr>"

definition tap_homing :: Implication where
  "tap_homing =
     \<lparr>imp_id = ''tap_homing'',
      imp_condition = ''probe.probe_type == 'tap'' @ [squote],
      setValues = [(''homing.homing_method'', Str ''probe'')],
      allowOverride = None, priority = None\<rparr>"

definition z_motor_count_2_enables_z_tilt :: Implication where
  "z_motor_count_2_enables_z_tilt =
     \<lparr>imp_id = ''z_motor_count_2_enables_z_tilt'',
      imp_condition = ''z_config.motor_count == 2'',
      setValues = [(''leveling.type'', Str ''z_tilt'')],
      allowOverride = Some True, priority = None\<rparr>"

definition z_motor_count_3_enables_z_tilt :: Implication where
  "z_motor_count_3_enables_z_tilt =
     \<lparr>imp_id = ''z_motor_count_3_enables_z_tilt'',
      imp_condition = ''z_config.motor_count == 3'',
      setValues = [(''leveling.type'', Str ''z_tilt'')],
      allowOverride = Some True, priority = None\<rparr>"

definition z_motor_count_4_enables_qgl :: Implication where
  "z_motor_count_4_enables_qgl =
     \<lparr>imp_id = ''z_motor_count_4_enables_qgl'',
      imp_condition = ''z_config.motor_count == 4'',
      setValues = [(''leveling.type'', Str ''quad_gantry_level'')],
      allowOverride = Some True, priority = None\<rparr>"

definition toolboard_default_extruder_location :: Implication where
  "toolboard_default_extruder_location =
     \<lparr>imp_id = ''toolboard_default_extruder_location'',
      imp_condition = ''mcu.toolboard.enabled == true'',
      setValues =
        [(''extruder.motor_location'', Str ''toolboard''),
         (''fans.part_cooling.location'', Str ''toolboard''),
         (''fans.hotend.location'', Str ''toolboard'')],
      allowOverride = Some True, priority = Some (- 1)\<rparr>"

definition sensorless_x_uses_diag :: Implication where
  "sensorless_x_uses_diag =
     \<lparr>imp_id = ''sensorless_x_uses_diag'',
      imp_condition = ''homing.x_endstop_type == 'sensorless'' @ [squote],
      setValues = [(''stepper_x.endstop_pin'', Str ''virtual_endstop'')],
      allowOverride = None, priority = None\<rparr>"

definition sensorless_y_uses_diag :: Implication where
  "sensorless_y_uses_diag =
     \<lparr>imp_id = ''sensorless_y_uses_diag'',
      imp_condition = ''homing.y_endstop_type == 'sensorless'' @ [squote],
      setValues = [(''stepper_y.endstop_pin'', Str ''virtual_endstop'')],
      allowOverride = None, priority = None\<rparr>"

definition safe_z_home_center :: Implication where
  "safe_z_home_center =
     \<lparr>imp_id = ''safe_z_home_center'',
      imp_condition = ''printer.bed_size_x and printer.bed_size_y'',
      setValues = [],
      allowOverride = Some True, priority = None\<rparr>"

definition IMPLICATIONS :: "Implication list" where
  "IMPLICATIONS =
     [corexy_awd_enables_awd, hybrid_corexy_enables_awd, non_awd_disables_awd,
      tap_zero_offsets, beacon_contact_homing, cartographer_touch_homing,
      bltouch_homing, tap_homing,
      z_motor_count_2_enables_z_tilt, z_motor_count_3_enables_z_tilt,
      z_motor_count_4_enables_qgl,
      toolboard_default_extruder_location,
      sensorless_x_uses_diag, sensorless_y_uses_diag,
      safe_z_home_center]"

record ImplicationResult =
  changedValues :: "string \<rightharpoonup> scalar"
  appliedImplications :: "string list"
  skippedImplications :: "string list"

text \<open>\<^verbatim>\<open>a.priority ?? 0\<close>\<close>

definition priorityOf :: "Implication \<Rightarrow> int" where
  "priorityOf imp = (case priority imp of None \<Rightarrow> 0 | Some p \<Rightarrow> p)"

text \<open>
  \<^verbatim>\<open>[...IMPLICATIONS].sort((a, b) => pa - pb)\<close>: \<^verbatim>\<open>Array.prototype.sort\<close> is stable, as is
  the insertion sort \<^const>\<open>sort_key\<close>.
\<close>

definition sortByPriority :: "Implication list \<Rightarrow> Implication list" where
  "sortByPriority rules = sort_key priorityOf rules"

text \<open>The body of the inner loop, for one entry of \<^verbatim>\<open>setValues\<close>.\<close>

definition applyEntry ::
  "Implication \<Rightarrow> WizardState \<Rightarrow> string set \<Rightarrow> ImplicationResult \<Rightarrow> string \<times> scalar
   \<Rightarrow> ImplicationResult" where
  "applyEntry imp st userOverrides result entry =
     (case entry of (k, v) \<Rightarrow>
        if allowOverride imp = Some True \<and> k \<in> userOverrides then
          result\<lparr>skippedImplications := skippedImplications result @ [imp_id imp @ '':'' @ k]\<rparr>
        else if strictEq (st k) v then result
        else
          result\<lparr>changedValues := (changedValues result)(k \<mapsto> v),
                 appliedImplications := appliedImplications result @ [imp_id imp]\<rparr>)"

text \<open>The body of the outer loop, for one implication.\<close>

definition applyImplication ::
  "WizardState \<Rightarrow> string set \<Rightarrow> ImplicationResult \<Rightarrow> Implication \<Rightarrow> ImplicationResult" where
  "applyImplication st userOverrides result imp =
     (if \<not> evaluateCondition (Some (imp_condition imp)) st then result
      else foldl (applyEntry imp st userOverrides) result (setValues imp))"

text \<open>
  \<^verbatim>\<open>applyImplications\<close> reads the module constant \<^verbatim>\<open>IMPLICATIONS\<close>; the rule table is a
  parameter of \<open>applyImplicationsWith\<close>, so that the resolver can be stated for any table.
\<close>

definition applyImplicationsWith ::
  "Implication list \<Rightarrow> WizardState \<Rightarrow> string set \<Rightarrow> ImplicationResult" where
  "applyImplicationsWith rules st userOverrides =
     foldl (applyImplication st userOverrides)
       \<lparr>changedValues = Map.empty, appliedImplications = [], skippedImplications = []\<rparr>
       (sortByPriority rules)"

definition applyImplications :: "WizardState \<Rightarrow> string set \<Rightarrow> ImplicationResult" where
  "applyImplications st userOverrides = applyImplicationsWith IMPLICATIONS st userOverrides"

text \<open>
  A state overridden by a diff: every key of the diff takes the diff's value. The
  store's \<^verbatim>\<open>setFields\<close> merges a returned diff this way for every value that is not
  empty.
\<close>

definition mergeState :: "WizardState \<Rightarrow> (string \<rightharpoonup> scalar) \<Rightarrow> WizardState" where
  "mergeState st diff = (\<lambda>k. case diff k of None \<Rightarrow> st k | Some v \<Rightarrow> v)"


section \<open>Conflicts\<close>

datatype ConflictSeverity = error | warning | info

datatype ConflictCategory = hardware | motion | heating | probing | leveling | homing | general

text \<open>
  A \<^verbatim>\<open>ConflictRule\<close>. The texts \<^verbatim>\<open>details\<close> and \<^verbatim>\<open>suggestion\<close> are documentation that no
  function reads; they are left out.
\<close>

record ConflictRule =
  rule_id :: string
  message :: string
  rule_condition :: string
  severity :: ConflictSeverity
  category :: ConflictCategory
  relatedFields :: "string list option"

record Conflict =
  rule :: ConflictRule
  conflict_context :: "string \<rightharpoonup> scalar"

definition qgl_requires_4_motors :: ConflictRule where
  "qgl_requires_4_motors =
     \<lparr>rule_id = ''qgl_requires_4_motors'',
      message = ''Quad Gantry Level requires exactly 4 Z motors'',
      rule_condition =
        ''leveling.type == 'quad_gantry_level' and z_config.motor_count != 4'',
      severity = error, category = leveling,
      relatedFields = Some [''leveling.type'', ''z_config.motor_count'']\<rparr>"

definition z_tilt_requires_2_or_3_motors :: ConflictRule where
  "z_tilt_requires_2_or_3_motors =
     \<lparr>rule_id = ''z_tilt_requires_2_or_3_motors'',
      message = ''Z Tilt requires 2 or 3 Z motors'',
      rule_condition =
        ''leveling.type == 'z_tilt' and (z_config.motor_count < 2 or z_config.motor_count > 3)'',
      severity = error, category = leveling,
      relatedFields = Some [''leveling.type'', ''z_config.motor_count'']\<rparr>"

definition sensorless_needs_stallguard_x :: ConflictRule where
  "sensorless_needs_stallguard_x =
     \<lparr>rule_id = ''sensorless_needs_stallguard_x'',
      message = ''Sensorless X homing requires a TMC driver with StallGuard'',
      rule_condition =
        ''homing.x_endstop_type == 'sensorless' and stepper_x.driver_type not in ['tmc2209', 'tmc2226', 'tmc2240', 'tmc5160', 'tmc2130']'',
      severity = error, category = homing,
      relatedFields = Some [''homing.x_endstop_type'', ''stepper_x.driver_type'']\<rparr>"

definition sensorless_needs_stallguard_y :: ConflictRule where
  "sensorless_needs_stallguard_y =
     \<lparr>rule_id = ''sensorless_needs_stallguard_y'',
      message = ''Sensorless Y homing requires a TMC driver with StallGuard'',
      rule_condition =
        ''homing.y_endstop_type == 'sensorless' and stepper_y.driver_type not in ['tmc2209', 'tmc2226', 'tmc2240', 'tmc5160', 'tmc2130']'',
      severity = error, category = homing,
      relatedFields = Some [''homing.y_endstop_type'', ''stepper_y.driver_type'']\<rparr>"

definition toolboard_extruder_needs_toolboard :: ConflictRule where
  "toolboard_extruder_needs_toolboard =
     \<lparr>rule_id = ''toolboard_extruder_needs_toolboard'',
      message = ''Extruder set to toolboard but toolboard is not enabled'',
      rule_condition =
        ''extruder.motor_location == 'toolboard' and mcu.toolboard.enabled != true'',
      severity = error, category = hardware,
      relatedFields = Some [''extruder.motor_location'', ''mcu.toolboard.enabled'']\<rparr>"

definition toolboard_fan_needs_toolboard :: ConflictRule where
  "toolboard_fan_needs_toolboard =
     \<lparr>rule_id = ''toolboard_fan_needs_toolboard'',
      message = ''Fan set to toolboard but toolboard is not enabled'',
      rule_condition =
        ''(fans.part_cooling.location == 'toolboard' or fans.hotend.location == 'toolboard') and mcu.toolboard.enabled != true'',
      severity = error, category = hardware,
      relatedFields = Some [''fans.part_cooling.location'', ''fans.hotend.location'', ''mcu.toolboard.enabled'']\<rparr>"

definition toolboard_probe_needs_toolboard :: ConflictRule where
  "toolboard_probe_needs_toolboard =
     \<lparr>rule_id = ''toolboard_probe_needs_toolboard'',
      message = ''Probe set to toolboard but toolboard is not enabled'',
      rule_condition =
        ''probe.location == 'toolboard' and mcu.toolboard.enabled != true'',
      severity = error, category = probing,
      relatedFields = Some [''probe.location'', ''mcu.toolboard.enabled'']\<rparr>"

definition awd_needs_corexy :: ConflictRule where
  "awd_needs_corexy =
     \<lparr>rule_id = ''awd_needs_corexy'',
      message = ''AWD mode requires CoreXY-based kinematics'',
      rule_condition =
        ''printer.awd_enabled == true and printer.kinematics not in ['corexy', 'corexy-awd', 'hybrid_corexy']'',
      severity = error, category = motion,
      relatedFields = Some [''printer.awd_enabled'', ''printer.kinematics'']\<rparr>"

definition beacon_needs_i2c_or_can :: ConflictRule where
  "beacon_needs_i2c_or_can =
     \<lparr>rule_id = ''beacon_needs_i2c_or_can'',
      message = ''Beacon probe requires I2C or CAN connection'',
      rule_condition =
        ''probe.probe_type == 'beacon' and probe.connection_type not in ['i2c', 'can']'',
      severity = warning, category = probing,
      relatedFields = Some [''probe.probe_type'', ''probe.connection_type'']\<rparr>"

definition cartographer_needs_can :: ConflictRule where
  "cartographer_needs_can =
     \<lparr>rule_id = ''cartographer_needs_can'',
      message = ''Cartographer probe typically uses CAN connection'',
      rule_condition =
        ''probe.probe_type == 'cartographer' and probe.connection_type != 'can'' @ [squote],
      severity = warning, category = probing,
      relatedFields = Some [''probe.probe_type'', ''probe.connection_type'']\<rparr>"

definition high_bed_temp_warning :: ConflictRule where
  "high_bed_temp_warning =
     \<lparr>rule_id = ''high_bed_temp_warning'',
      message = ''Bed max temperature is set very high'',
      rule_condition =
        ''heater_bed.max_temp > 120'',
      severity = warning, category = heating,
      relatedFields = Some [''heater_bed.max_temp'']\<rparr>"

definition high_hotend_temp_warning :: ConflictRule where
  "high_hotend_temp_warning =
     \<lparr>rule_id = ''high_hotend_temp_warning'',
      message = ''Hotend max temperature is set very high'',
      rule_condition =
        ''extruder.max_temp > 300'',
      severity = warning, category = heating,
      relatedFields = Some [''extruder.max_temp'']\<rparr>"

definition high_xy_current_warning :: ConflictRule where
  "high_xy_current_warning =
     \<lparr>rule_id = ''high_xy_current_warning'',
      message = ''XY motor current is set high'',
      rule_condition =
        ''stepper_x.run_current > 1.2 or stepper_y.run_current > 1.2'',
      severity = warning, category = motion,
      relatedFields = Some [''stepper_x.run_current'', ''stepper_y.run_current'']\<rparr>"

definition no_kinematics_selected :: ConflictRule where
  "no_kinematics_selected =
     \<lparr>rule_id = ''no_kinematics_selected'',
      message = ''No kinematics type selected'',
      rule_condition =
        ''not printer.kinematics'',
      severity = error, category = general,
      relatedFields = Some [''printer.kinematics'']\<rparr>"

definition no_mainboard_selected :: ConflictRule where
  "no_mainboard_selected =
     \<lparr>rule_id = ''no_mainboard_selected'',
      message = ''No mainboard selected'',
      rule_condition =
        ''not mcu.main.board_type'',
      severity = error, category = hardware,
      relatedFields = Some [''mcu.main.board_type'']\<rparr>"

definition mesh_exceeds_bed :: ConflictRule where
  "mesh_exceeds_bed =
     \<lparr>rule_id = ''mesh_exceeds_bed'',
      message = ''Bed mesh area may exceed printable area'',
      rule_condition =
        ''bed_mesh.mesh_max_x > printer.bed_size_x or bed_mesh.mesh_max_y > printer.bed_size_y'',
      severity = warning, category = probing,
      relatedFields = Some [''bed_mesh.mesh_max_x'', ''bed_mesh.mesh_max_y'', ''printer.bed_size_x'', ''printer.bed_size_y'']\<rparr>"

definition CONFLICT_RULES :: "ConflictRule list" where
  "CONFLICT_RULES =
     [qgl_requires_4_motors,
      z_tilt_requires_2_or_3_motors,
      sensorless_needs_stallguard_x,
      sensorless_needs_stallguard_y,
      toolboard_extruder_needs_toolboard,
      toolboard_fan_needs_toolboard,
      toolboard_probe_needs_toolboard,
      awd_needs_corexy,
      beacon_needs_i2c_or_can,
      cartographer_needs_can,
      high_bed_temp_warning,
      high_hotend_temp_warning,
      high_xy_current_warning,
      no_kinematics_selected,
      no_mainboard_selected,
      mesh_exceeds_bed]"

text \<open>The snapshot of the related fields of a rule that has fired.\<close>

definition buildContext :: "ConflictRule \<Rightarrow> WizardState \<Rightarrow> (string \<rightharpoonup> scalar)" where
  "buildContext r st =
     (case relatedFields r of
        None \<Rightarrow> Map.empty
      | Some fs \<Rightarrow> foldl (\<lambda>ctx f. ctx(f \<mapsto> st f)) Map.empty fs)"

text \<open>The loop of \<^verbatim>\<open>detectConflicts\<close> over a rule table.\<close>

fun detectConflictsIn :: "ConflictRule list \<Rightarrow> WizardState \<Rightarrow> Conflict list" where
  "detectConflictsIn [] st = []"
| "detectConflictsIn (r # rs) st =
     (if evaluateCondition (Some (rule_condition r)) st
      then \<lparr>rule = r, conflict_context = buildContext r st\<rparr> # detectConflictsIn rs st
      else detectConflictsIn rs st)"

definition detectConflicts :: "WizardState \<Rightarrow> Conflict list" where
  "detectConflicts st = detectConflictsIn CONFLICT_RULES st"

definition getConflictsBySeverity :: "WizardState \<Rightarrow> ConflictSeverity \<Rightarrow> Conflict list" where
  "getConflictsBySeverity st sev = filter (\<lambda>c. severity (rule c) = sev) (detectConflicts st)"


section \<open>Exclusive groups\<close>

text \<open>
  An \<^verbatim>\<open>ExclusiveOption\<close> and an \<^verbatim>\<open>ExclusiveGroup\<close>. The object literal \<^verbatim>\<open>impliedValues\<close>
  is the list of its entries. Labels and descriptions are documentation that no
  function reads; they are left out.
\<close>

record ExclusiveOption =
  opt_value :: string
  impliedValues :: "(string \<times> scalar) list option"
  clearValues :: "string list option"
  opt_condition :: "string option"

record ExclusiveGroup =
  group_id :: string
  group_name :: string
  stateKey :: string
  options :: "ExclusiveOption list"
  group_condition :: "string option"
  group_required :: "bool option"

definition kinematics_group :: ExclusiveGroup where
  "kinematics_group =
     \<lparr>group_id = ''kinematics'', group_name = ''Kinematics Type'',
      stateKey = ''printer.kinematics'',
      options =
        [\<lparr>opt_value = ''cartesian'', impliedValues = None,
          clearValues = None,
          opt_condition = None\<rparr>,
         \<lparr>opt_value = ''corexy'', impliedValues = None,
          clearValues = None,
          opt_condition = None\<rparr>,
         \<lparr>opt_value = ''corexy-awd'', impliedValues = Some [(''printer.awd_enabled'', Bool True)],
          clearValues = None,
          opt_condition = None\<rparr>,
         \<lparr>opt_value = ''hybrid_corexy'', impliedValues = Some [(''printer.awd_enabled'', Bool True)],
          clearValues = None,
          opt_condition = None\<rparr>,
         \<lparr>opt_value = ''corexz'', impliedValues = None,
          clearValues = None,
          opt_condition = None\<rparr>,
         \<lparr>opt_value = ''delta'', impliedValues = None,
          clearValues = None,
          opt_condition = None\<rparr>],
      group_condition = None, group_required = Some True\<rparr>"

definition probe_type_group :: ExclusiveGroup where
  "probe_type_group =
     \<lparr>group_id = ''probe_type'', group_name = ''Probe Type'',
      stateKey = ''probe.probe_type'',
      options =
        [\<lparr>opt_value = ''none'', impliedValues = None,
          clearValues = Some [''probe.x_offset'', ''probe.y_offset'', ''probe.z_offset''],
          opt_condition = None\<rparr>,
         \<lparr>opt_value = ''bltouch'', impliedValues = Some [(''probe.needs_deploy'', Bool True)],
          clearValues = None,
          opt_condition = None\<rparr>,
         \<lparr>opt_value = ''inductive'', impliedValues = None,
          clearValues = None,
          opt_condition = None\<rparr>,
         \<lparr>opt_value = ''tap'', impliedValues = Some [(''probe.x_offset'', Num (Fin 0)), (''probe.y_offset'', Num (Fin 0))],
          clearValues = None,
          opt_condition = None\<rparr>,
         \<lparr>opt_value = ''beacon'', impliedValues = None,
          clearValues = None,
          opt_condition = None\<rparr>,
         \<lparr>opt_value = ''cartographer'', impliedValues = None,
          clearValues = None,
          opt_condition = None\<rparr>,
         \<lparr>opt_value = ''klicky'', impliedValues = Some [(''probe.needs_deploy'', Bool True)],
          clearValues = None,
          opt_condition = None\<rparr>],
      group_condition = None, group_required = None\<rparr>"

definition leveling_type_group :: ExclusiveGroup where
  "leveling_type_group =
     \<lparr>group_id = ''leveling_type'', group_name = ''Leveling Type'',
      stateKey = ''leveling.type'',
      options =
        [\<lparr>opt_value = ''none'', impliedValues = None,
          clearValues = None,
          opt_condition = None\<rparr>,
         \<lparr>opt_value = ''bed_mesh'', impliedValues = None,
          clearValues = None,
          opt_condition = Some (''probe.probe_type != \"none'' @ [dquote])\<rparr>,
         \<lparr>opt_value = ''z_tilt'', impliedValues = None,
          clearValues = None,
          opt_condition = Some (''z_config.motor_count >= 2 and z_config.motor_count <= 3'')\<rparr>,
         \<lparr>opt_value = ''quad_gantry_level'', impliedValues = None,
          clearValues = None,
          opt_condition = Some (''z_config.motor_count == 4'')\<rparr>],
      group_condition = None, group_required = None\<rparr>"

definition x_endstop_type_group :: ExclusiveGroup where
  "x_endstop_type_group =
     \<lparr>group_id = ''x_endstop_type'', group_name = ''X Endstop Type'',
      stateKey = ''homing.x_endstop_type'',
      options =
        [\<lparr>opt_value = ''physical'', impliedValues = None,
          clearValues = None,
          opt_condition = None\<rparr>,
         \<lparr>opt_value = ''sensorless'', impliedValues = None,
          clearValues = None,
          opt_condition = Some (''stepper_x.driver_type in ['tmc2209', 'tmc2226', 'tmc2240', 'tmc5160', 'tmc2130']'')\<rparr>],
      group_condition = None, group_required = None\<rparr>"

definition y_endstop_type_group :: ExclusiveGroup where
  "y_endstop_type_group =
     \<lparr>group_id = ''y_endstop_type'', group_name = ''Y Endstop Type'',
      stateKey = ''homing.y_endstop_type'',
      options =
        [\<lparr>opt_value = ''physical'', impliedValues = None,
          clearValues = None,
          opt_condition = None\<rparr>,
         \<lparr>opt_value = ''sensorless'', impliedValues = None,
          clearValues = None,
          opt_condition = Some (''stepper_y.driver_type in ['tmc2209', 'tmc2226', 'tmc2240', 'tmc5160', 'tmc2130']'')\<rparr>],
      group_condition = None, group_required = None\<rparr>"

definition z_endstop_type_group :: ExclusiveGroup where
  "z_endstop_type_group =
     \<lparr>group_id = ''z_endstop_type'', group_name = ''Z Endstop Type'',
      stateKey = ''homing.z_endstop_type'',
      options =
        [\<lparr>opt_value = ''physical'', impliedValues = None,
          clearValues = None,
          opt_condition = None\<rparr>,
         \<lparr>opt_value = ''probe'', impliedValues = None,
          clearValues = None,
          opt_condition = Some (''probe.probe_type != 'none'' @ [squote])\<rparr>],
      group_condition = None, group_required = None\<rparr>"

definition tooling_type_group :: ExclusiveGroup where
  "tooling_type_group =
     \<lparr>group_id = ''tooling_type'', group_name = ''Tooling Configuration'',
      stateKey = ''tooling.type'',
      options =
        [\<lparr>opt_value = ''single'', impliedValues = None,
          clearValues = None,
          opt_condition = None\<rparr>,
         \<lparr>opt_value = ''multi_extruder'', impliedValues = None,
          clearValues = None,
          opt_condition = None\<rparr>,
         \<lparr>opt_value = ''mmu'', impliedValues = None,
          clearValues = None,
          opt_condition = None\<rparr>,
         \<lparr>opt_value = ''toolchanger'', impliedValues = None,
          clearValues = None,
          opt_condition = None\<rparr>],
      group_condition = None, group_required = None\<rparr>"

definition mcu_connection_group :: ExclusiveGroup where
  "mcu_connection_group =
     \<lparr>group_id = ''mcu_connection'', group_name = ''MCU Connection'',
      stateKey = ''mcu.main.connection_type'',
      options =
        [\<lparr>opt_value = ''usb'', impliedValues = None,
          clearValues = None,
          opt_condition = None\<rparr>,
         \<lparr>opt_value = ''can'', impliedValues = None,
          clearValues = None,
          opt_condition = None\<rparr>],
      group_condition = None, group_required = None\<rparr>"

definition EXCLUSIVE_GROUPS :: "ExclusiveGroup list" where
  "EXCLUSIVE_GROUPS =
     [kinematics_group,
      probe_type_group,
      leveling_type_group,
      x_endstop_type_group,
      y_endstop_type_group,
      z_endstop_type_group,
      tooling_type_group,
      mcu_connection_group]"

text \<open>
  The object \<^verbatim>\<open>changes\<close> that \<^verbatim>\<open>selectOption\<close> builds and returns. An object literal
  creates it, so it inherits the properties of \<^verbatim>\<open>Object.prototype\<close>, until an assignment
  of \<^verbatim>\<open>null\<close> to \<^verbatim>\<open>__proto__\<close> takes the prototype away. The model keeps the own
  properties and whether the prototype is still there. An own property may hold
  \<^verbatim>\<open>undefined\<close>: in a diff that entry is the marker for "delete this key".
\<close>

record jsObject =
  own :: "string \<rightharpoonup> scalar"
  inherits :: bool

text \<open>\<^verbatim>\<open>{ [k]: v }\<close>: a computed key defines an own property, whatever its name.\<close>

definition objectLiteral :: "string \<Rightarrow> scalar \<Rightarrow> jsObject" where
  "objectLiteral k v = \<lparr>own = [k \<mapsto> v], inherits = True\<rparr>"

text \<open>\<^verbatim>\<open>k in obj\<close>: an own property, or a property of the prototype.\<close>

definition hasProperty :: "string \<Rightarrow> jsObject \<Rightarrow> bool" where
  "hasProperty k obj \<longleftrightarrow> k \<in> dom (own obj) \<or> (inherits obj \<and> k \<in> set inheritedNames)"

text \<open>
  \<^verbatim>\<open>obj[k] = v\<close>. The inherited \<^verbatim>\<open>__proto__\<close> is an accessor: its setter replaces the
  prototype when the value is \<^verbatim>\<open>null\<close> (or an object, which the values of the model are
  not) and ignores every other value. The other inherited properties are writable
  data properties, so assigning to them defines an own property, as for any other key.
\<close>

definition setProperty :: "jsObject \<Rightarrow> string \<Rightarrow> scalar \<Rightarrow> jsObject" where
  "setProperty obj k v =
     (if k = ''__proto__'' \<and> inherits obj \<and> k \<notin> dom (own obj) then
        (if v = Null then obj\<lparr>inherits := False\<rparr> else obj)
      else obj\<lparr>own := (own obj)(k \<mapsto> v)\<rparr>)"

text \<open>\<^verbatim>\<open>Object.assign(changes, entries)\<close>: the entries are assigned in their order.\<close>

definition assignEntries :: "jsObject \<Rightarrow> (string \<times> scalar) list \<Rightarrow> jsObject" where
  "assignEntries changes entries = foldl (\<lambda>ch (k, v). setProperty ch k v) changes entries"

text \<open>The inner loop over the keys of another option's implied values.\<close>

definition clearMissing :: "jsObject \<Rightarrow> string list \<Rightarrow> jsObject" where
  "clearMissing changes ks =
     foldl (\<lambda>ch k. if hasProperty k ch then ch else setProperty ch k Undefined) changes ks"

text \<open>The loop over all options of the group.\<close>

definition clearOthers :: "string \<Rightarrow> jsObject \<Rightarrow> ExclusiveOption list \<Rightarrow> jsObject" where
  "clearOthers optionValue changes opts =
     foldl (\<lambda>ch other.
              case impliedValues other of
                None \<Rightarrow> ch
              | Some iv \<Rightarrow> if opt_value other \<noteq> optionValue then clearMissing ch (map fst iv) else ch)
       changes opts"

definition selectOption :: "ExclusiveGroup \<Rightarrow> string \<Rightarrow> jsObject" where
  "selectOption grp optionValue =
     (case find (\<lambda>x. opt_value x = optionValue) (options grp) of
        None \<Rightarrow> objectLiteral (stateKey grp) Undefined
      | Some chosen \<Rightarrow>
          (let changes0 = objectLiteral (stateKey grp) (Str optionValue);
               changes1 = (case impliedValues chosen of
                             None \<Rightarrow> changes0
                           | Some iv \<Rightarrow> assignEntries changes0 iv);
               changes2 = clearOthers optionValue changes1 (options grp)
           in case clearValues chosen of
                None \<Rightarrow> changes2
              | Some ks \<Rightarrow> foldl (\<lambda>ch k. setProperty ch k Undefined) changes2 ks))"


section \<open>Inheritance\<close>

definition COPYABLE_STEPPER_FIELDS :: "string list" where
  "COPYABLE_STEPPER_FIELDS =
     [''driver_type'', ''microsteps'', ''rotation_distance'', ''run_current'',
      ''hold_current'', ''stealthchop_threshold'', ''interpolate'']"

text \<open>An \<^verbatim>\<open>InheritanceRelation\<close>, without its \<^verbatim>\<open>description\<close>.\<close>

record InheritanceRelation =
  child :: string
  parent :: string
  inh_fields :: "string list"
  inh_condition :: "string option"

definition INHERITANCE_RELATIONS :: "InheritanceRelation list" where
  "INHERITANCE_RELATIONS =
     [\<lparr>child = ''stepper_y'', parent = ''stepper_x'', inh_fields = COPYABLE_STEPPER_FIELDS,
       inh_condition = None\<rparr>,
      \<lparr>child = ''stepper_x1'', parent = ''stepper_x'', inh_fields = COPYABLE_STEPPER_FIELDS,
       inh_condition = Some ''printer.awd_enabled''\<rparr>,
      \<lparr>child = ''stepper_y1'', parent = ''stepper_y'', inh_fields = COPYABLE_STEPPER_FIELDS,
       inh_condition = Some ''printer.awd_enabled''\<rparr>,
      \<lparr>child = ''stepper_z1'', parent = ''stepper_z'', inh_fields = COPYABLE_STEPPER_FIELDS,
       inh_condition = Some ''z_config.motor_count >= 2''\<rparr>,
      \<lparr>child = ''stepper_z2'', parent = ''stepper_z'', inh_fields = COPYABLE_STEPPER_FIELDS,
       inh_condition = Some ''z_config.motor_count >= 3''\<rparr>,
      \<lparr>child = ''stepper_z3'', parent = ''stepper_z'', inh_fields = COPYABLE_STEPPER_FIELDS,
       inh_condition = Some ''z_config.motor_count >= 4''\<rparr>]"

definition getInheritanceRelation :: "string \<Rightarrow> InheritanceRelation option" where
  "getInheritanceRelation stepperName = find (\<lambda>r. child r = stepperName) INHERITANCE_RELATIONS"

text \<open>\<^verbatim>\<open>`${entity}.${field}`\<close>\<close>

definition fieldKey :: "string \<Rightarrow> string \<Rightarrow> string" where
  "fieldKey entity field = entity @ ''.'' @ field"

text \<open>
  \<^verbatim>\<open>relation.condition && !evaluateCondition(relation.condition, state)\<close>, with the
  evaluator that the caller passes in.
\<close>

definition conditionFails ::
  "InheritanceRelation \<Rightarrow> WizardState \<Rightarrow> (string \<Rightarrow> WizardState \<Rightarrow> bool) \<Rightarrow> bool" where
  "conditionFails relation st evaluate =
     (case inh_condition relation of
        None \<Rightarrow> False
      | Some c \<Rightarrow> c \<noteq> [] \<and> \<not> evaluate c st)"

definition getInheritedValues ::
  "string \<Rightarrow> WizardState \<Rightarrow> (string \<Rightarrow> WizardState \<Rightarrow> bool) \<Rightarrow> (string \<rightharpoonup> scalar)" where
  "getInheritedValues stepperName st evaluate =
     (case getInheritanceRelation stepperName of
        None \<Rightarrow> Map.empty
      | Some relation \<Rightarrow>
          if conditionFails relation st evaluate then Map.empty
          else
            foldl (\<lambda>inherited field.
                     let parentValue = st (fieldKey (parent relation) field)
                     in if parentValue \<noteq> Undefined
                        then inherited(fieldKey stepperName field \<mapsto> parentValue)
                        else inherited)
              Map.empty (inh_fields relation))"

text \<open>The body of the loop of \<^verbatim>\<open>applyInheritance\<close>, for one field.\<close>

definition inheritField ::
  "string \<Rightarrow> string \<Rightarrow> WizardState \<Rightarrow> (string \<rightharpoonup> scalar) \<Rightarrow> string \<Rightarrow> (string \<rightharpoonup> scalar)" where
  "inheritField stepperName parentName st changes field =
     (let childKey = fieldKey stepperName field;
          parentKey = fieldKey parentName field;
          childValue = st childKey;
          parentValue = st parentKey
      in if childValue = Undefined \<and> parentValue \<noteq> Undefined
         then changes(childKey \<mapsto> parentValue)
         else changes)"

definition applyInheritance ::
  "string \<Rightarrow> WizardState \<Rightarrow> (string \<Rightarrow> WizardState \<Rightarrow> bool) \<Rightarrow> (string \<rightharpoonup> scalar)" where
  "applyInheritance stepperName st evaluate =
     (case getInheritanceRelation stepperName of
        None \<Rightarrow> Map.empty
      | Some relation \<Rightarrow>
          if conditionFails relation st evaluate then Map.empty
          else foldl (inheritField stepperName (parent relation) st) Map.empty
                 (inh_fields relation))"

section \<open>Validation\<close>

subsection \<open>Field definitions\<close>

text \<open>
  A \<^verbatim>\<open>FieldDefinition\<close>. The bounds are numbers; the custom check returns an error
  message or \<^verbatim>\<open>null\<close>.
\<close>

record FieldDefinition =
  key :: string
  label :: string
  required :: "bool option"
  requiredWhen :: "string option"
  min_value :: "rat option"
  max_value :: "rat option"
  validValues :: "string list option"
  validate :: "(scalar \<Rightarrow> WizardState \<Rightarrow> string option) option"

text \<open>The custom check of \<^verbatim>\<open>stepper_x.microsteps\<close>: \<^verbatim>\<open>![16, 32, 64, 128, 256].includes(Number(value))\<close>.\<close>

definition validateMicrosteps :: "scalar \<Rightarrow> WizardState \<Rightarrow> string option" where
  "validateMicrosteps v st =
     (if \<not> arrayIncludes (map (\<lambda>n. Sc (Num (Fin n))) [16, 32, 64, 128, 256]) (Sc (Num (toNumber v)))
      then Some ''Microsteps must be 16, 32, 64, 128, or 256''
      else None)"

definition FIELD_DEFINITIONS :: "FieldDefinition list" where
  "FIELD_DEFINITIONS =
     [\<lparr>key = ''printer.kinematics'', label = ''Kinematics Type'',
       required = Some True, requiredWhen = None,
       min_value = None, max_value = None,
       validValues = Some [''cartesian'', ''corexy'', ''corexy-awd'', ''hybrid_corexy'', ''corexz'', ''delta''],
       validate = None\<rparr>,
      \<lparr>key = ''mcu.main.board_type'', label = ''Mainboard Type'',
       required = Some True, requiredWhen = None,
       min_value = None, max_value = None,
       validValues = None,
       validate = None\<rparr>,
      \<lparr>key = ''stepper_x.motor_port'', label = ''Stepper X Motor Port'',
       required = None, requiredWhen = Some (''printer.kinematics''),
       min_value = None, max_value = None,
       validValues = None,
       validate = None\<rparr>,
      \<lparr>key = ''stepper_x.step_pin'', label = ''Stepper X Step Pin'',
       required = None, requiredWhen = Some (''stepper_x.motor_port''),
       min_value = None, max_value = None,
       validValues = None,
       validate = None\<rparr>,
      \<lparr>key = ''stepper_x.dir_pin'', label = ''Stepper X Direction Pin'',
       required = None, requiredWhen = Some (''stepper_x.motor_port''),
       min_value = None, max_value = None,
       validValues = None,
       validate = None\<rparr>,
      \<lparr>key = ''stepper_x.enable_pin'', label = ''Stepper X Enable Pin'',
       required = None, requiredWhen = Some (''stepper_x.motor_port''),
       min_value = None, max_value = None,
       validValues = None,
       validate = None\<rparr>,
      \<lparr>key = ''stepper_x.rotation_distance'', label = ''Stepper X Rotation Distance'',
       required = None, requiredWhen = Some (''stepper_x.motor_port''),
       min_value = Some (1 / 10), max_value = Some 500,
       validValues = None,
       validate = None\<rparr>,
      \<lparr>key = ''stepper_x.microsteps'', label = ''Stepper X Microsteps'',
       required = None, requiredWhen = Some (''stepper_x.motor_port''),
       min_value = None, max_value = None,
       validValues = Some [''16'', ''32'', ''64'', ''128'', ''256''],
       validate = Some validateMicrosteps\<rparr>,
      \<lparr>key = ''stepper_x.run_current'', label = ''Stepper X Run Current'',
       required = None, requiredWhen = None,
       min_value = Some (1 / 10), max_value = Some 3,
       validValues = None,
       validate = None\<rparr>,
      \<lparr>key = ''stepper_y.motor_port'', label = ''Stepper Y Motor Port'',
       required = None, requiredWhen = Some (''printer.kinematics''),
       min_value = None, max_value = None,
       validValues = None,
       validate = None\<rparr>,
      \<lparr>key = ''stepper_y.step_pin'', label = ''Stepper Y Step Pin'',
       required = None, requiredWhen = Some (''stepper_y.motor_port''),
       min_value = None, max_value = None,
       validValues = None,
       validate = None\<rparr>,
      \<lparr>key = ''stepper_y.dir_pin'', label = ''Stepper Y Direction Pin'',
       required = None, requiredWhen = Some (''stepper_y.motor_port''),
       min_value = None, max_value = None,
       validValues = None,
       validate = None\<rparr>,
      \<lparr>key = ''stepper_y.enable_pin'', label = ''Stepper Y Enable Pin'',
       required = None, requiredWhen = Some (''stepper_y.motor_port''),
       min_value = None, max_value = None,
       validValues = None,
       validate = None\<rparr>,
      \<lparr>key = ''stepper_y.rotation_distance'', label = ''Stepper Y Rotation Distance'',
       required = None, requiredWhen = Some (''stepper_y.motor_port''),
       min_value = Some (1 / 10), max_value = Some 500,
       validValues = None,
       validate = None\<rparr>,
      \<lparr>key = ''stepper_y.microsteps'', label = ''Stepper Y Microsteps'',
       required = None, requiredWhen = Some (''stepper_y.motor_port''),
       min_value = None, max_value = None,
       validValues = None,
       validate = None\<rparr>,
      \<lparr>key = ''stepper_z.motor_port'', label = ''Stepper Z Motor Port'',
       required = None, requiredWhen = Some (''printer.kinematics''),
       min_value = None, max_value = None,
       validValues = None,
       validate = None\<rparr>,
      \<lparr>key = ''stepper_z.rotation_distance'', label = ''Stepper Z Rotation Distance'',
       required = None, requiredWhen = Some (''stepper_z.motor_port''),
       min_value = Some (1 / 10), max_value = Some 100,
       validValues = None,
       validate = None\<rparr>,
      \<lparr>key = ''stepper_x1.motor_port'', label = ''Stepper X1 Motor Port'',
       required = None, requiredWhen = Some (''printer.awd_enabled''),
       min_value = None, max_value = None,
       validValues = None,
       validate = None\<rparr>,
      \<lparr>key = ''stepper_y1.motor_port'', label = ''Stepper Y1 Motor Port'',
       required = None, requiredWhen = Some (''printer.awd_enabled''),
       min_value = None, max_value = None,
       validValues = None,
       validate = None\<rparr>,
      \<lparr>key = ''stepper_z1.motor_port'', label = ''Stepper Z1 Motor Port'',
       required = None, requiredWhen = Some (''z_config.motor_count >= 2''),
       min_value = None, max_value = None,
       validValues = None,
       validate = None\<rparr>,
      \<lparr>key = ''stepper_z2.motor_port'', label = ''Stepper Z2 Motor Port'',
       required = None, requiredWhen = Some (''z_config.motor_count >= 3''),
       min_value = None, max_value = None,
       validValues = None,
       validate = None\<rparr>,
      \<lparr>key = ''stepper_z3.motor_port'', label = ''Stepper Z3 Motor Port'',
       required = None, requiredWhen = Some (''z_config.motor_count >= 4''),
       min_value = None, max_value = None,
       validValues = None,
       validate = None\<rparr>,
      \<lparr>key = ''extruder.motor_port'', label = ''Extruder Motor Port'',
       required = None, requiredWhen = Some (''printer.kinematics''),
       min_value = None, max_value = None,
       validValues = None,
       validate = None\<rparr>,
      \<lparr>key = ''extruder.rotation_distance'', label = ''Extruder Rotation Distance'',
       required = None, requiredWhen = Some (''extruder.motor_port''),
       min_value = Some 1, max_value = Some 100,
       validValues = None,
       validate = None\<rparr>,
      \<lparr>key = ''heater_bed.heater_port'', label = ''Heater Bed Port'',
       required = None, requiredWhen = None,
       min_value = None, max_value = None,
       validValues = None,
       validate = None\<rparr>,
      \<lparr>key = ''heater_bed.thermistor_port'', label = ''Heater Bed Thermistor Port'',
       required = None, requiredWhen = Some (''heater_bed.heater_port''),
       min_value = None, max_value = None,
       validValues = None,
       validate = None\<rparr>,
      \<lparr>key = ''heater_bed.sensor_type'', label = ''Heater Bed Sensor Type'',
       required = None, requiredWhen = Some (''heater_bed.heater_port''),
       min_value = None, max_value = None,
       validValues = None,
       validate = None\<rparr>,
      \<lparr>key = ''heater_bed.max_temp'', label = ''Heater Bed Max Temperature'',
       required = None, requiredWhen = None,
       min_value = Some 50, max_value = Some 150,
       validValues = None,
       validate = None\<rparr>,
      \<lparr>key = ''extruder.heater_port'', label = ''Hotend Heater Port'',
       required = None, requiredWhen = Some (''extruder.motor_port''),
       min_value = None, max_value = None,
       validValues = None,
       validate = None\<rparr>,
      \<lparr>key = ''extruder.thermistor_port'', label = ''Hotend Thermistor Port'',
       required = None, requiredWhen = Some (''extruder.heater_port''),
       min_value = None, max_value = None,
       validValues = None,
       validate = None\<rparr>,
      \<lparr>key = ''extruder.sensor_type'', label = ''Hotend Sensor Type'',
       required = None, requiredWhen = Some (''extruder.heater_port''),
       min_value = None, max_value = None,
       validValues = None,
       validate = None\<rparr>,
      \<lparr>key = ''extruder.max_temp'', label = ''Hotend Max Temperature'',
       required = None, requiredWhen = None,
       min_value = Some 150, max_value = Some 500,
       validValues = None,
       validate = None\<rparr>,
      \<lparr>key = ''mcu.toolboard.board_type'', label = ''Toolboard Type'',
       required = None, requiredWhen = Some (''mcu.toolboard.enabled''),
       min_value = None, max_value = None,
       validValues = None,
       validate = None\<rparr>,
      \<lparr>key = ''mcu.toolboard.canbus_uuid'', label = ''Toolboard CAN UUID'',
       required = None, requiredWhen = Some (''mcu.toolboard.enabled and mcu.toolboard.connection_type == 'can'' @ [squote]),
       min_value = None, max_value = None,
       validValues = None,
       validate = None\<rparr>]"

definition isEmpty :: "scalar \<Rightarrow> bool" where
  "isEmpty v \<longleftrightarrow> v = Undefined \<or> v = Null \<or> v = Str []"

subsection \<open>The regular expressions of the simple evaluator\<close>

text \<open>
  \<^verbatim>\<open>evaluateSimpleCondition\<close> matches its condition against two regular expressions.
  Both are anchored sequences of character classes, each taken once or under a
  quantifier, with some of them captured. The matcher below is the backtracking
  search of the language for such sequences: for each item it tries the possible
  numbers of characters in the order of preference of its quantifier (the longest
  first when greedy, the shortest first when lazy) and takes the first for which the
  rest of the sequence matches the rest of the input up to its end.
\<close>

datatype quantifier = Once | Optional | StarGreedy | PlusGreedy | PlusLazy

type_synonym regexItem = "(char \<Rightarrow> bool) \<times> quantifier \<times> bool"

definition candidateLengths :: "quantifier \<Rightarrow> nat \<Rightarrow> nat list" where
  "candidateLengths q m =
     (case q of
        Once \<Rightarrow> if 1 \<le> m then [1] else []
      | Optional \<Rightarrow> if 1 \<le> m then [1, 0] else [0]
      | StarGreedy \<Rightarrow> rev [0..<Suc m]
      | PlusGreedy \<Rightarrow> rev [1..<Suc m]
      | PlusLazy \<Rightarrow> [1..<Suc m])"

fun firstSome :: "('a \<Rightarrow> 'b option) \<Rightarrow> 'a list \<Rightarrow> 'b option" where
  "firstSome f [] = None"
| "firstSome f (x # xs) = (case f x of Some y \<Rightarrow> Some y | None \<Rightarrow> firstSome f xs)"

primrec matchItems :: "regexItem list \<Rightarrow> string \<Rightarrow> string list option" where
  "matchItems [] s = (if s = [] then Some [] else None)"
| "matchItems (item # items) s =
     (case item of (cls, q, captured) \<Rightarrow>
        firstSome
          (\<lambda>n. case matchItems items (drop n s) of
                 None \<Rightarrow> None
               | Some caps \<Rightarrow> Some (if captured then take n s # caps else caps))
          (candidateLengths q (length (takeWhile cls s))))"

definition lit :: "char \<Rightarrow> regexItem" where
  "lit c = ((\<lambda>x. x = c), Once, False)"

text \<open>\<^verbatim>\<open>/^(.+?)\s*>=\s*(\d+)$/\<close>\<close>

definition geRegex :: "regexItem list" where
  "geRegex =
     [(isDot, PlusLazy, True), (isSpace, StarGreedy, False), lit (CHR ''>''), lit (CHR ''=''),
      (isSpace, StarGreedy, False), (isDigit, PlusGreedy, True)]"

text \<open>\<^verbatim>\<open>/^(.+?)\s*==\s*['"]?(.+?)['"]?$/\<close>\<close>

definition eqRegex :: "regexItem list" where
  "eqRegex =
     [(isDot, PlusLazy, True), (isSpace, StarGreedy, False), lit (CHR ''=''), lit (CHR ''=''),
      (isSpace, StarGreedy, False), (isQuote, Optional, False), (isDot, PlusLazy, True),
      (isQuote, Optional, False)]"

subsection \<open>Splitting a string\<close>

text \<open>\<^verbatim>\<open>s.split(sep)\<close> for a separator that is not empty.\<close>

fun splitAcc :: "string \<Rightarrow> string \<Rightarrow> string \<Rightarrow> string list" where
  "splitAcc sep acc [] = [rev acc]"
| "splitAcc sep acc (c # cs) =
     (if sep \<noteq> [] \<and> take (length sep) (c # cs) = sep
      then rev acc # splitAcc sep [] (drop (length sep) (c # cs))
      else splitAcc sep (c # acc) cs)"

definition splitStr :: "string \<Rightarrow> string \<Rightarrow> string list" where
  "splitStr sep s = splitAcc sep [] s"


text \<open>Every part of a string that contains the separator is shorter than the string.\<close>

lemma splitAcc_part_le:
  "p \<in> set (splitAcc sep acc s) \<Longrightarrow> length p \<le> length acc + length s"
  by (induction sep acc s rule: splitAcc.induct) (auto split: if_splits)

lemma splitAcc_part_less:
  "p \<in> set (splitAcc sep acc s) \<Longrightarrow> includesStr s sep \<Longrightarrow> sep \<noteq> [] \<Longrightarrow>
   length p < length acc + length s"
proof (induction sep acc s rule: splitAcc.induct)
  case (1 sep acc)
  then show ?case by simp
next
  case (2 sep acc c cs)
  show ?case
  proof (cases "take (length sep) (c # cs) = sep")
    case True
    with 2(3,5) have "p = rev acc \<or> p \<in> set (splitAcc sep [] (drop (length sep) (c # cs)))"
      by simp
    then show ?thesis
    proof
      assume "p = rev acc" then show ?thesis by simp
    next
      assume "p \<in> set (splitAcc sep [] (drop (length sep) (c # cs)))"
      from splitAcc_part_le [OF this] 2(5) show ?thesis
        by (cases sep) auto
    qed
  next
    case False
    with 2(3,4,5) have "p \<in> set (splitAcc sep (c # acc) cs)" "includesStr cs sep" by auto
    with 2(2) False 2(5) show ?thesis by auto
  qed
qed

lemma length_trim_le: "length (trim s) \<le> length s"
proof -
  have "length (trim s) = length (dropWhile isSpace (rev (dropWhile isSpace s)))"
    by (simp add: trim_def)
  also have "\<dots> \<le> length (rev (dropWhile isSpace s))"
    by (rule length_dropWhile_le)
  also have "\<dots> \<le> length s"
    by (simp add: length_dropWhile_le)
  finally show ?thesis .
qed

lemma split_part_shorter:
  "includesStr s sep \<Longrightarrow> sep \<noteq> [] \<Longrightarrow> p \<in> set (splitStr sep s) \<Longrightarrow> length (trim p) < length s"
  using splitAcc_part_less [of p sep "[]" s] length_trim_le [of p]
  by (simp add: splitStr_def)

subsection \<open>The simple evaluator of the validator\<close>

text \<open>
  \<^verbatim>\<open>evaluateSimpleCondition\<close>, with its branches in the order of the source: the
  \<^verbatim>\<open>>=\<close> pattern, the \<^verbatim>\<open>==\<close> pattern, the split at \<^verbatim>\<open>' and '\<close>, the truthiness of the
  key. A match of either pattern has two groups. \<^verbatim>\<open>Number(a) >= Number(b)\<close> holds when
  \<open>a < b\<close> is false and neither is NaN.
\<close>

function evaluateSimpleCondition :: "string \<Rightarrow> WizardState \<Rightarrow> bool" where
  "evaluateSimpleCondition condition st =
     (if condition = [] then True
      else
        (case matchItems geRegex condition of
           Some geMatch \<Rightarrow>
             (case geMatch of
                [field, valueStr] \<Rightarrow>
                  numLess (toNumber (st (trim field))) (toNumber (Str valueStr)) = Some False
              | _ \<Rightarrow> False)
         | None \<Rightarrow>
             (case matchItems eqRegex condition of
                Some eqMatch \<Rightarrow>
                  (case eqMatch of
                     [field, v] \<Rightarrow> strictEq (st (trim field)) (Str (trim v))
                   | _ \<Rightarrow> False)
              | None \<Rightarrow>
                  if includesStr condition '' and '' then
                    list_all (\<lambda>part. evaluateSimpleCondition (trim part) st)
                      (splitStr '' and '' condition)
                  else toBoolean (st (trim condition)))))"
  by pat_completeness auto

termination
  by (relation "measure (\<lambda>(condition, st). length condition)")
     (auto intro: split_part_shorter)


declare evaluateSimpleCondition.simps [simp del]

subsection \<open>The validator\<close>

text \<open>
  A \<^verbatim>\<open>FieldValidation\<close>; its severity is \<^verbatim>\<open>'error' | 'warning'\<close>, two of the
  severities of a conflict.
\<close>

record FieldValidation =
  field :: string
  valid :: bool
  fv_message :: "string option"
  fv_severity :: ConflictSeverity

record ValidationResult =
  vr_valid :: bool
  errors :: "FieldValidation list"
  warnings :: "FieldValidation list"
  conflicts :: "Conflict list"
  missingRequired :: "string list"
  invalidValues :: "FieldValidation list"

text \<open>\<^verbatim>\<open>xs.join(sep)\<close> on strings.\<close>

fun joinWith :: "string \<Rightarrow> string list \<Rightarrow> string" where
  "joinWith sep [] = []"
| "joinWith sep [s] = s"
| "joinWith sep (s # t # ss) = s @ sep @ joinWith sep (t # ss)"

definition fieldError :: "FieldDefinition \<Rightarrow> string \<Rightarrow> FieldValidation" where
  "fieldError fd msg = \<lparr>field = key fd, valid = False, fv_message = Some msg, fv_severity = error\<rparr>"

definition isRequired :: "FieldDefinition \<Rightarrow> WizardState \<Rightarrow> bool" where
  "isRequired fd st \<longleftrightarrow>
     required fd = Some True \<or>
     (case requiredWhen fd of
        None \<Rightarrow> False
      | Some c \<Rightarrow> c \<noteq> [] \<and> evaluateSimpleCondition c st)"

text \<open>
  The four checks on a value that is present, each with the message of its error:
  the lower bound, the upper bound (both only for a value of type number), the list
  of valid values, and the custom check.
\<close>

definition minError :: "FieldDefinition \<Rightarrow> scalar \<Rightarrow> string option" where
  "minError fd v =
     (case min_value fd of
        None \<Rightarrow> None
      | Some m \<Rightarrow>
          if isNumber v \<and> numLess (toNumber v) (Fin m) = Some True
          then Some (label fd @ '' must be at least '' @ ratToString m)
          else None)"

definition maxError :: "FieldDefinition \<Rightarrow> scalar \<Rightarrow> string option" where
  "maxError fd v =
     (case max_value fd of
        None \<Rightarrow> None
      | Some m \<Rightarrow>
          if isNumber v \<and> numLess (Fin m) (toNumber v) = Some True
          then Some (label fd @ '' must be at most '' @ ratToString m)
          else None)"

definition valuesError :: "FieldDefinition \<Rightarrow> scalar \<Rightarrow> string option" where
  "valuesError fd v =
     (case validValues fd of
        None \<Rightarrow> None
      | Some vs \<Rightarrow>
          if toString v \<notin> set vs
          then Some (label fd @ '' must be one of: '' @ joinWith '', '' vs)
          else None)"

definition customError :: "FieldDefinition \<Rightarrow> scalar \<Rightarrow> WizardState \<Rightarrow> string option" where
  "customError fd v st =
     (case validate fd of
        None \<Rightarrow> None
      | Some f \<Rightarrow>
          (case f v st of
             None \<Rightarrow> None
           | Some err \<Rightarrow> if err \<noteq> [] then Some err else None))"

definition validateField :: "FieldDefinition \<Rightarrow> WizardState \<Rightarrow> FieldValidation option" where
  "validateField fd st =
     (let v = st (key fd) in
      if isRequired fd st \<and> isEmpty v then Some (fieldError fd (label fd @ '' is required''))
      else if isEmpty v then None
      else
        (case minError fd v of
           Some msg \<Rightarrow> Some (fieldError fd msg)
         | None \<Rightarrow>
             (case maxError fd v of
                Some msg \<Rightarrow> Some (fieldError fd msg)
              | None \<Rightarrow>
                  (case valuesError fd v of
                     Some msg \<Rightarrow> Some (fieldError fd msg)
                   | None \<Rightarrow>
                       (case customError fd v st of
                          Some msg \<Rightarrow> Some (fieldError fd msg)
                        | None \<Rightarrow> None)))))"

definition validateExclusiveGroupsIn :: "ExclusiveGroup list \<Rightarrow> WizardState \<Rightarrow> FieldValidation list" where
  "validateExclusiveGroupsIn groups st =
     foldl (\<lambda>errs g.
              if group_required g = Some True \<and> isEmpty (st (stateKey g))
              then errs @ [\<lparr>field = stateKey g, valid = False,
                             fv_message = Some (group_name g @ '' must be selected''),
                             fv_severity = error\<rparr>]
              else errs)
       [] groups"

definition validateExclusiveGroups :: "WizardState \<Rightarrow> FieldValidation list" where
  "validateExclusiveGroups st = validateExclusiveGroupsIn EXCLUSIVE_GROUPS st"

text \<open>The body of the first loop of \<^verbatim>\<open>validateState\<close>, for one field definition.\<close>

definition addFieldResult :: "WizardState \<Rightarrow> ValidationResult \<Rightarrow> FieldDefinition \<Rightarrow> ValidationResult" where
  "addFieldResult st acc fd =
     (case validateField fd st of
        None \<Rightarrow> acc
      | Some result \<Rightarrow>
          if fv_severity result = error then
            (if (case fv_message result of None \<Rightarrow> False | Some m \<Rightarrow> includesStr m ''required'')
             then acc\<lparr>errors := errors acc @ [result],
                      missingRequired := missingRequired acc @ [key fd]\<rparr>
             else acc\<lparr>errors := errors acc @ [result],
                      invalidValues := invalidValues acc @ [result]\<rparr>)
          else acc\<lparr>warnings := warnings acc @ [result]\<rparr>)"

text \<open>\<^verbatim>\<open>conflict.rule.relatedFields?.[0] || conflict.rule.id\<close>\<close>

definition conflictField :: "Conflict \<Rightarrow> string" where
  "conflictField c =
     (case relatedFields (rule c) of
        Some (f # fs) \<Rightarrow> if f \<noteq> [] then f else rule_id (rule c)
      | _ \<Rightarrow> rule_id (rule c))"

text \<open>The body of the loop over the conflicts.\<close>

definition addConflict :: "ValidationResult \<Rightarrow> Conflict \<Rightarrow> ValidationResult" where
  "addConflict acc c =
     (if severity (rule c) = error then
        acc\<lparr>errors := errors acc @
            [\<lparr>field = conflictField c, valid = False,
              fv_message = Some (message (rule c)), fv_severity = error\<rparr>]\<rparr>
      else if severity (rule c) = warning then
        acc\<lparr>warnings := warnings acc @
            [\<lparr>field = conflictField c, valid = True,
              fv_message = Some (message (rule c)), fv_severity = warning\<rparr>]\<rparr>
      else acc)"

definition validateState :: "WizardState \<Rightarrow> ValidationResult" where
  "validateState st =
     (let acc0 = \<lparr>vr_valid = True, errors = [], warnings = [], conflicts = [],
                   missingRequired = [], invalidValues = []\<rparr>;
          acc1 = foldl (addFieldResult st) acc0 FIELD_DEFINITIONS;
          groupErrors = validateExclusiveGroups st;
          acc2 = acc1\<lparr>errors := errors acc1 @ groupErrors,
                      missingRequired := missingRequired acc1 @ map field groupErrors\<rparr>;
          found = detectConflicts st;
          acc3 = foldl addConflict acc2 found
      in acc3\<lparr>vr_valid := (errors acc3 = []), conflicts := found\<rparr>)"

text \<open>\<^verbatim>\<open>Math.round\<close>: the nearest integer, a half rounded up.\<close>

definition mathRound :: "rat \<Rightarrow> int" where
  "mathRound q = \<lfloor>q + 1 / 2\<rfloor>"

record ValidationSummary =
  canGenerate :: bool
  errorCount :: nat
  warningCount :: nat
  completionPercent :: int

definition getValidationSummary :: "WizardState \<Rightarrow> ValidationSummary" where
  "getValidationSummary st =
     (let result = validateState st;
          requiredFields = filter (\<lambda>f. required f = Some True) FIELD_DEFINITIONS;
          filledRequired = length (filter (\<lambda>f. \<not> isEmpty (st (key f))) requiredFields)
      in \<lparr>canGenerate = vr_valid result,
          errorCount = length (errors result),
          warningCount = length (warnings result),
          completionPercent =
            (if length requiredFields > 0
             then mathRound (of_nat filledRequired / of_nat (length requiredFields) * 100)
             else 100)\<rparr>)"


section \<open>Notions of the specification\<close>

text \<open>
  A bare identifier condition: a word that \<^verbatim>\<open>tokenize\<close> reads as one \<^verbatim>\<open>IDENTIFIER\<close> token,
  that is, a letter or underscore followed by letters, digits, underscores and dots,
  which is neither a keyword nor the name of an inherited property.
\<close>

definition isIdentifierName :: "string \<Rightarrow> bool" where
  "isIdentifierName k \<longleftrightarrow>
     k \<noteq> [] \<and> isIdStart (hd k) \<and> (\<forall>c \<in> set k. isIdChar c) \<and> wordToken k = IDENTIFIER k"

text \<open>
  A character that the tokenizer knows in no context: no white space, quote, digit,
  letter or underscore, and none of \<^verbatim>\<open>- = ! < > ( ) [ ] ,\<close>.
\<close>

definition unknownChar :: "char \<Rightarrow> bool" where
  "unknownChar c \<longleftrightarrow>
     \<not> isSpace c \<and> \<not> isQuote c \<and> \<not> isDigit c \<and> \<not> isIdStart c \<and> c \<notin> set ''-=!<>()[],''"


text \<open>The state \<^verbatim>\<open>{ "leveling.type": "z_tilt", "z_config.motor_count": 4 }\<close>.\<close>

definition zTiltFourMotors :: WizardState where
  "zTiltFourMotors =
     emptyState(''leveling.type'' := Str ''z_tilt'', ''z_config.motor_count'' := Num (Fin 4))"


text \<open>The record that an object literal denotes: of two entries with one key the later stands.\<close>

definition objectOf :: "(string \<times> scalar) list \<Rightarrow> (string \<rightharpoonup> scalar)" where
  "objectOf entries = map_of (rev entries)"

definition impliedOf :: "ExclusiveOption \<Rightarrow> (string \<rightharpoonup> scalar)" where
  "impliedOf opt = (case impliedValues opt of None \<Rightarrow> Map.empty | Some iv \<Rightarrow> objectOf iv)"

text \<open>
  The diff that the specification describes, given the keys that the other options
  imply: the target key mapped to the option value, then the implied values of the
  chosen option merged in, then the delete marker for every implied key of the other
  options that is not yet a key of the diff, then the delete marker for every key the
  chosen option clears.
\<close>

definition diffWith ::
  "string set \<Rightarrow> ExclusiveGroup \<Rightarrow> ExclusiveOption \<Rightarrow> string \<Rightarrow> (string \<rightharpoonup> scalar)" where
  "diffWith others grp chosen optionValue =
     (let diff1 = [stateKey grp \<mapsto> Str optionValue] ++ impliedOf chosen;
          diff2 = (\<lambda>k. if k \<in> others \<and> k \<notin> dom diff1 then Some Undefined else diff1 k);
          cleared = (case clearValues chosen of None \<Rightarrow> {} | Some ks \<Rightarrow> set ks)
      in (\<lambda>k. if k \<in> cleared then Some Undefined else diff2 k))"

text \<open>The implied keys of every option of the group but the chosen one.\<close>

definition otherKeys :: "ExclusiveOption \<Rightarrow> ExclusiveOption list \<Rightarrow> string set" where
  "otherKeys chosen opts = (\<Union>other \<in> set (remove1 chosen opts). dom (impliedOf other))"

text \<open>
  The diff of \<^verbatim>\<open>selectOption\<close> in the words of the specification: the other options are
  all the options of the group but the chosen one.
\<close>

definition selectOptionSpec ::
  "ExclusiveGroup \<Rightarrow> ExclusiveOption \<Rightarrow> string \<Rightarrow> (string \<rightharpoonup> scalar)" where
  "selectOptionSpec grp chosen optionValue =
     diffWith (otherKeys chosen (options grp)) grp chosen optionValue"

text \<open>The implied keys of the options whose value is not the option value.\<close>

definition differingKeys :: "string \<Rightarrow> ExclusiveOption list \<Rightarrow> string set" where
  "differingKeys v opts = (\<Union>other \<in> {x \<in> set opts. opt_value x \<noteq> v}. dom (impliedOf other))"

text \<open>
  The keys that the options of a group imply or clear, and the groups in which none
  of them is the name of a property that objects inherit.
\<close>

definition optionKeys :: "ExclusiveOption \<Rightarrow> string list" where
  "optionKeys opt =
     (case impliedValues opt of None \<Rightarrow> [] | Some iv \<Rightarrow> map fst iv) @
     (case clearValues opt of None \<Rightarrow> [] | Some ks \<Rightarrow> ks)"

definition plainKeys :: "ExclusiveGroup \<Rightarrow> bool" where
  "plainKeys grp \<longleftrightarrow>
     (\<forall>opt \<in> set (options grp). \<forall>k \<in> set (optionKeys opt). k \<notin> set inheritedNames)"

text \<open>A group with an option \<^verbatim>\<open>A\<close> that implies \<^verbatim>\<open>{x: 1}\<close> and an option \<^verbatim>\<open>B\<close> that implies nothing.\<close>

definition optionA :: ExclusiveOption where
  "optionA = \<lparr>opt_value = ''A'', impliedValues = Some [(''x'', Num (Fin 1))],
              clearValues = None, opt_condition = None\<rparr>"

definition optionB :: ExclusiveOption where
  "optionB = \<lparr>opt_value = ''B'', impliedValues = None, clearValues = None,
              opt_condition = None\<rparr>"

definition groupAB :: ExclusiveGroup where
  "groupAB = \<lparr>group_id = ''g'', group_name = ''G'', stateKey = ''choice'',
              options = [optionA, optionB], group_condition = None, group_required = None\<rparr>"

text \<open>A second option of the value \<^verbatim>\<open>A\<close>, which implies \<^verbatim>\<open>{y: 2}\<close>, and a group of the two.\<close>

definition optionA2 :: ExclusiveOption where
  "optionA2 = \<lparr>opt_value = ''A'', impliedValues = Some [(''y'', Num (Fin 2))],
               clearValues = None, opt_condition = None\<rparr>"

definition groupAA :: ExclusiveGroup where
  "groupAA = \<lparr>group_id = ''g'', group_name = ''G'', stateKey = ''choice'',
              options = [optionA, optionA2], group_condition = None, group_required = None\<rparr>"

text \<open>An option that implies a value for \<^verbatim>\<open>toString\<close>, in a group with \<^verbatim>\<open>B\<close>.\<close>

definition optionT :: ExclusiveOption where
  "optionT = \<lparr>opt_value = ''T'', impliedValues = Some [(''toString'', Num (Fin 1))],
              clearValues = None, opt_condition = None\<rparr>"

definition groupTB :: ExclusiveGroup where
  "groupTB = \<lparr>group_id = ''g'', group_name = ''G'', stateKey = ''choice'',
              options = [optionT, optionB], group_condition = None, group_required = None\<rparr>"

text \<open>Marking the keys of a set that a diff does not have yet.\<close>

definition markMissing :: "string set \<Rightarrow> (string \<rightharpoonup> scalar) \<Rightarrow> (string \<rightharpoonup> scalar)" where
  "markMissing S m = (\<lambda>k. if k \<in> S \<and> k \<notin> dom m then Some Undefined else m k)"


text \<open>The field definition of \<^verbatim>\<open>mcu.toolboard.canbus_uuid\<close>, the last of the table.\<close>

definition canbusUuidField :: FieldDefinition where
  "canbusUuidField = last FIELD_DEFINITIONS"

definition canbusCondition :: string where
  "canbusCondition = ''mcu.toolboard.enabled and mcu.toolboard.connection_type == 'can'' @ [squote]"

text \<open>A state with the toolboard enabled and connected by CAN, and no UUID.\<close>

definition toolboardOnCan :: WizardState where
  "toolboardOnCan =
     emptyState(''mcu.toolboard.enabled'' := Bool True,
                ''mcu.toolboard.connection_type'' := Str ''can'')"

text \<open>
  The counts of the completion ratio in the words of the specification: the field
  rules that carry the unconditional flag, and those of them whose value is filled,
  that is, not absent, not \<^verbatim>\<open>null\<close> and not the empty string.
\<close>

definition totalCount :: nat where
  "totalCount =
     card {i. i < length FIELD_DEFINITIONS \<and> required (FIELD_DEFINITIONS ! i) = Some True}"

definition filledCount :: "WizardState \<Rightarrow> nat" where
  "filledCount st =
     card {i. i < length FIELD_DEFINITIONS \<and> required (FIELD_DEFINITIONS ! i) = Some True \<and>
              st (key (FIELD_DEFINITIONS ! i)) \<notin> {Undefined, Null, Str []}}"

text \<open>The messages of the range errors of a field: below its minimum and above its maximum.\<close>

definition rangeMessages :: "FieldDefinition \<Rightarrow> string set" where
  "rangeMessages fd =
     (case min_value fd of
        None \<Rightarrow> {}
      | Some m \<Rightarrow> {label fd @ '' must be at least '' @ ratToString m}) \<union>
     (case max_value fd of
        None \<Rightarrow> {}
      | Some m \<Rightarrow> {label fd @ '' must be at most '' @ ratToString m})"

text \<open>The field definition of \<^verbatim>\<open>stepper_x.run_current\<close>, with the bounds 0.1 and 3.\<close>

definition runCurrentField :: FieldDefinition where
  "runCurrentField =
     \<lparr>key = ''stepper_x.run_current'', label = ''Stepper X Run Current'',
       required = None, requiredWhen = None,
       min_value = Some (1 / 10), max_value = Some 3,
       validValues = None, validate = None\<rparr>"

text \<open>A rule fires when its condition is true over the input state.\<close>

definition fires :: "Implication \<Rightarrow> WizardState \<Rightarrow> bool" where
  "fires imp st \<longleftrightarrow> evaluateCondition (Some (imp_condition imp)) st"

text \<open>
  An entry of a rule is written when it is not skipped for a user override and the
  state does not hold its value already.
\<close>

definition written :: "Implication \<Rightarrow> WizardState \<Rightarrow> string set \<Rightarrow> string \<times> scalar \<Rightarrow> bool" where
  "written imp st ov entry \<longleftrightarrow>
     \<not> (allowOverride imp = Some True \<and> fst entry \<in> ov) \<and> \<not> strictEq (st (fst entry)) (snd entry)"

text \<open>The entries that one rule writes, and all that a list of rules writes, in order.\<close>

definition writesOf :: "Implication \<Rightarrow> WizardState \<Rightarrow> string set \<Rightarrow> (string \<times> scalar) list" where
  "writesOf imp st ov = (if fires imp st then filter (written imp st ov) (setValues imp) else [])"

definition allWrites :: "Implication list \<Rightarrow> WizardState \<Rightarrow> string set \<Rightarrow> (string \<times> scalar) list" where
  "allWrites rs st ov = concat (map (\<lambda>imp. writesOf imp st ov) rs)"

text \<open>The keys that the conditions of the table read.\<close>

definition conditionKeys :: "string set" where
  "conditionKeys =
     {''printer.kinematics'', ''probe.probe_type'', ''probe.homing_mode'',
      ''z_config.motor_count'', ''mcu.toolboard.enabled'', ''homing.x_endstop_type'',
      ''homing.y_endstop_type'', ''printer.bed_size_x'', ''printer.bed_size_y''}"



section \<open>Verification\<close>

subsection \<open>Evaluating the engine on given input\<close>

lemmas char_defs = isSpace_def isQuote_def isDigit_def code_def squote_def dquote_def
  isIdStart_def isIdChar_def isLower_def isUpper_def isNumChar_def toLowerChar_def isDot_def

lemmas tok_defs = tokenize_def nextIsDigit_def matchOperator_def operators_def
  wordToken_def toLowerCase_def lookupKeyword_def keywordTable_def inheritedNames_def
  parseFloat_def decimalVal_def
  digitsVal_def digitVal_def

lemmas parse_defs = parse_def parser_simps current_def advance_def peek_def compareOp_def
  jsOr_def jsAnd_def arrayIncludes_def

lemmas eval_defs = evaluateCondition_def trim_def char_defs tok_defs parse_defs

lemmas compare_defs = strictEq_def jsLt_def jsGt_def jsLe_def jsGe_def relLess_def

subsection \<open>Absent, blank and malformed conditions\<close>

lemma trim_empty_iff: "trim s = [] \<longleftrightarrow> (\<forall>c \<in> set s. isSpace c)"
proof -
  have "trim s = [] \<longleftrightarrow> dropWhile isSpace (rev (dropWhile isSpace s)) = []"
    by (simp add: trim_def)
  also have "\<dots> \<longleftrightarrow> (\<forall>c \<in> set (dropWhile isSpace s). isSpace c)"
    by (simp add: dropWhile_eq_Nil_conv)
  also have "\<dots> \<longleftrightarrow> (\<forall>c \<in> set s. isSpace c)"
  proof
    assume a: "\<forall>c \<in> set (dropWhile isSpace s). isSpace c"
    show "\<forall>c \<in> set s. isSpace c"
    proof
      fix c assume "c \<in> set s"
      then have "c \<in> set (takeWhile isSpace s) \<or> c \<in> set (dropWhile isSpace s)"
        by (metis Un_iff set_append takeWhile_dropWhile_id)
      then show "isSpace c" using a by (auto dest: set_takeWhileD)
    qed
  next
    assume "\<forall>c \<in> set s. isSpace c"
    then show "\<forall>c \<in> set (dropWhile isSpace s). isSpace c"
      by (auto dest: set_dropWhileD)
  qed
  finally show ?thesis .
qed

lemma open_paren_false: "\<not> evaluateCondition (Some ''('') st"
  by (simp add: eval_defs)

lemma not_open_paren_true: "evaluateCondition (Some ''not ('') st"
  by (simp add: eval_defs)

lemma missing_operand: "evaluateCondition (Some ''x =='') st = (st ''x'' = Undefined)"
  by (auto simp: eval_defs compare_defs)

lemma unclosed_list: "evaluateCondition (Some ''x in ['a' '') st = (st ''x'' = Str ''a'')"
  by (auto simp: eval_defs compare_defs)

text \<open>
  The parser within a bound and the parser without one. Every method that returns
  within the bound leaves no more tokens than it was given; and when the bound exceeds
  eight times the number of tokens by eight, no call exceeds it and the two parsers
  return the same.
\<close>

lemma within_dom_all: "within_dom x"
  using within_total by simp

lemmas within_shorter = within_consumes [OF within_dom_all]

lemma within_agrees:
  "8 * length ts + 7 < d \<Longrightarrow> parseOrWithin d st ts = Inr (parseOr st ts)"
  "8 * length ts < d \<Longrightarrow> parseOrLoopWithin d st left ts = Inr (parseOrLoop st left ts)"
  "8 * length ts + 6 < d \<Longrightarrow> parseAndWithin d st ts = Inr (parseAnd st ts)"
  "8 * length ts < d \<Longrightarrow> parseAndLoopWithin d st left ts = Inr (parseAndLoop st left ts)"
  "8 * length ts + 5 < d \<Longrightarrow> parseNotWithin d st ts = Inr (parseNot st ts)"
  "8 * length ts + 4 < d \<Longrightarrow> parseComparisonWithin d st ts = Inr (parseComparison st ts)"
  "8 * length ts + 1 < d \<Longrightarrow> parseArrayWithin d st ts = Inr (parseArray st ts)"
  "8 * length ts + 3 < d \<Longrightarrow> parseArrayLoopWithin d st items ts = Inr (parseArrayLoop st items ts)"
  "8 * length ts + 2 < d \<Longrightarrow> parsePrimaryWithin d st ts = Inr (parsePrimary st ts)"
proof (induct d st ts and d st left ts and d st ts and d st left ts and d st ts and d st ts
    and d st ts and d st items ts and d st ts
    rule: parseOrWithin_parseOrLoopWithin_parseAndWithin_parseAndLoopWithin_parseNotWithin_parseComparisonWithin_parseArrayWithin_parseArrayLoopWithin_parsePrimaryWithin.induct)
  case (1 d st ts)
  then have d: "d \<noteq> 0" by simp
  obtain left ts1 where eq: "parseAnd st ts = (left, ts1)" by (cases "parseAnd st ts")
  from 1(1) [OF d] 1(3) eq have w: "parseAndWithin (d - 1) st ts = Inr (left, ts1)" by simp
  from within_shorter(3) [OF w] 1(3) have "8 * length ts1 < d" by simp
  from 1(2) [OF d w refl this] show ?case
    by (simp del: One_nat_def add: parseOrWithin.simps [of d st ts] parseOr.simps [of st ts] w eq d)
next
  case (2 d st left ts)
  show ?case
  proof (cases "current ts = OR")
    case True
    then have sh: "length (advance ts) < length ts" by (simp add: advance_shorter)
    obtain right ts1 where eq: "parseAnd st (advance ts) = (right, ts1)"
      by (cases "parseAnd st (advance ts)")
    from 2(1) [OF True] 2(3) sh eq
    have w: "parseAndWithin (d - 1) st (advance ts) = Inr (right, ts1)" by simp
    from within_shorter(3) [OF w] 2(3) sh have "8 * length ts1 < d" by simp
    from 2(2) [OF True w refl this] show ?thesis
      by (simp del: One_nat_def add: parseOrLoopWithin.simps [of d st left ts] parseOrLoop.simps [of st left ts]
          w eq True)
  next
    case False
    then show ?thesis
      by (simp del: One_nat_def add: parseOrLoopWithin.simps [of d st left ts] parseOrLoop.simps [of st left ts])
  qed
next
  case (3 d st ts)
  then have d: "d \<noteq> 0" by simp
  obtain left ts1 where eq: "parseNot st ts = (left, ts1)" by (cases "parseNot st ts")
  from 3(1) [OF d] 3(3) eq have w: "parseNotWithin (d - 1) st ts = Inr (left, ts1)" by simp
  from within_shorter(5) [OF w] 3(3) have "8 * length ts1 < d" by simp
  from 3(2) [OF d w refl this] show ?case
    by (simp del: One_nat_def add: parseAndWithin.simps [of d st ts] parseAnd.simps [of st ts] w eq d)
next
  case (4 d st left ts)
  show ?case
  proof (cases "current ts = AND")
    case True
    then have sh: "length (advance ts) < length ts" by (simp add: advance_shorter)
    obtain right ts1 where eq: "parseNot st (advance ts) = (right, ts1)"
      by (cases "parseNot st (advance ts)")
    from 4(1) [OF True] 4(3) sh eq
    have w: "parseNotWithin (d - 1) st (advance ts) = Inr (right, ts1)" by simp
    from within_shorter(5) [OF w] 4(3) sh have "8 * length ts1 < d" by simp
    from 4(2) [OF True w refl this] show ?thesis
      by (simp del: One_nat_def add: parseAndLoopWithin.simps [of d st left ts] parseAndLoop.simps [of st left ts]
          w eq True)
  next
    case False
    then show ?thesis
      by (simp del: One_nat_def add: parseAndLoopWithin.simps [of d st left ts] parseAndLoop.simps [of st left ts])
  qed
next
  case (5 d st ts)
  then have d: "d \<noteq> 0" by simp
  show ?case
  proof (cases "current ts = NOT")
    case True
    then have sh: "length (advance ts) < length ts" by (simp add: advance_shorter)
    from 5(1) [OF d True] 5(3) sh
    have "parseNotWithin (d - 1) st (advance ts) = Inr (parseNot st (advance ts))" by simp
    then show ?thesis
      by (simp del: One_nat_def add: parseNotWithin.simps [of d st ts] parseNot.simps [of st ts] True d
          split: prod.splits)
  next
    case False
    from 5(2) [OF d False] 5(3)
    have "parseComparisonWithin (d - 1) st ts = Inr (parseComparison st ts)" by simp
    then show ?thesis
      by (simp del: One_nat_def add: parseNotWithin.simps [of d st ts] parseNot.simps [of st ts] False d)
  qed
next
  case (6 d st ts)
  then have d: "d \<noteq> 0" by simp
  obtain left ts1 where eq: "parsePrimary st ts = (left, ts1)" by (cases "parsePrimary st ts")
  from 6(1) [OF d] 6(5) eq have w: "parsePrimaryWithin (d - 1) st ts = Inr (left, ts1)" by simp
  from within_shorter(9) [OF w] have a: "length ts1 \<le> length ts" by simp
  have adv: "length (advance ts1) \<le> length ts" "length (advance (advance ts1)) \<le> length ts"
    using a length_advance [of ts1] length_advance [of "advance ts1"] by simp_all
  show ?case
  proof (cases "current ts1 = IN")
    case True
    from 6(2) [OF d w refl True] 6(5) adv
    have "parseArrayWithin (d - 1) st (advance ts1) = Inr (parseArray st (advance ts1))" by simp
    then show ?thesis
      by (simp del: One_nat_def add: parseComparisonWithin.simps [of d st ts] parseComparison.simps [of st ts]
          w eq d True split: prod.splits)
  next
    case notIn: False
    show ?thesis
    proof (cases "current ts1 = NOT \<and> peek 1 ts1 = IN")
      case True
      from 6(3) [OF d w refl notIn True] 6(5) adv
      have "parseArrayWithin (d - 1) st (advance (advance ts1))
              = Inr (parseArray st (advance (advance ts1)))" by simp
      then show ?thesis
        using True notIn
        by (simp del: One_nat_def add: parseComparisonWithin.simps [of d st ts] parseComparison.simps [of st ts]
            w eq d split: prod.splits)
    next
      case notNotIn: False
      show ?thesis
      proof (cases "current ts1")
        case (OPERATOR op)
        from 6(4) [OF d w refl notIn notNotIn OPERATOR] 6(5) adv
        have "parsePrimaryWithin (d - 1) st (advance ts1) = Inr (parsePrimary st (advance ts1))"
          by simp
        then show ?thesis
          using notIn notNotIn OPERATOR
          by (simp del: One_nat_def add: parseComparisonWithin.simps [of d st ts] parseComparison.simps [of st ts]
              w eq d split: prod.splits)
      qed (use notIn notNotIn in
            \<open>simp_all del: One_nat_def add: parseComparisonWithin.simps [of d st ts]
               parseComparison.simps [of st ts] w eq d\<close>)
    qed
  qed
next
  case (7 d st ts)
  then have d: "d \<noteq> 0" by simp
  show ?case
  proof (cases "current ts = LBRACKET")
    case True
    then have sh: "length (advance ts) < length ts" by (simp add: advance_shorter)
    from True have "\<not> current ts \<noteq> LBRACKET" by simp
    from 7(1) [OF d this] 7(2) sh
    have "parseArrayLoopWithin d st [] (advance ts) = Inr (parseArrayLoop st [] (advance ts))"
      by simp
    then show ?thesis
      by (simp del: One_nat_def add: parseArrayWithin.simps [of d st ts] parseArray.simps [of st ts] True d
          split: prod.splits)
  next
    case False
    then show ?thesis
      by (simp del: One_nat_def add: parseArrayWithin.simps [of d st ts] parseArray.simps [of st ts] d)
  qed
next
  case (8 d st items ts)
  show ?case
  proof (cases "current ts \<noteq> RBRACKET \<and> current ts \<noteq> EOF")
    case True
    obtain v ts1 where eq: "parsePrimary st ts = (v, ts1)" by (cases "parsePrimary st ts")
    from 8(1) [OF True] 8(3) eq have w: "parsePrimaryWithin (d - 1) st ts = Inr (v, ts1)" by simp
    from within_shorter(9) [OF w] have a: "length ts1 \<le> length ts" by simp
    let ?ts2 = "if current ts1 = COMMA then advance ts1 else ts1"
    have "length ?ts2 \<le> length ts" using a length_advance [of ts1] by simp
    with 8(3) have "8 * length ?ts2 + 3 < d" by simp
    from 8(2) [OF True w refl this] show ?thesis
      using True
      by (simp del: One_nat_def add: parseArrayLoopWithin.simps [of d st items ts]
          parseArrayLoop.simps [of st items ts] w eq)
  next
    case False
    then show ?thesis
      by (auto simp del: One_nat_def simp add: parseArrayLoopWithin.simps [of d st items ts]
          parseArrayLoop.simps [of st items ts])
  qed
next
  case (9 d st ts)
  then have d: "d \<noteq> 0" by simp
  show ?case
  proof (cases "current ts")
    case LPAREN
    then have sh: "length (advance ts) < length ts" by (simp add: advance_shorter)
    from 9(1) [OF d LPAREN] 9(3) sh
    have "parseOrWithin (d - 1) st (advance ts) = Inr (parseOr st (advance ts))" by simp
    then show ?thesis
      by (simp del: One_nat_def add: parsePrimaryWithin.simps [of d st ts] parsePrimary.simps [of st ts] LPAREN d
          split: prod.splits)
  next
    case LBRACKET
    from 9(2) [OF d LBRACKET] 9(3)
    have "parseArrayWithin (d - 1) st ts = Inr (parseArray st ts)" by simp
    then show ?thesis
      by (simp del: One_nat_def add: parsePrimaryWithin.simps [of d st ts] parsePrimary.simps [of st ts] LBRACKET d
          split: prod.splits)
  qed (simp_all del: One_nat_def add: parsePrimaryWithin.simps [of d st ts] parsePrimary.simps [of st ts] d)
qed


text \<open>With enough stack the bounded evaluation is the evaluation.\<close>

lemma evaluate_within_enough:
  assumes "8 * length (tokenize c) + 8 < limit"
  shows "evaluateConditionWithin limit (Some c) st = Inr (evaluateCondition (Some c) st)"
proof -
  from assms have d: "limit \<noteq> 0" and "8 * length (tokenize c) + 7 < limit - 1" by simp_all
  from within_agrees(1) [OF this(2)]
  have "parseWithin limit st (tokenize c) = Inr (parse st (tokenize c))"
    by (simp add: parseWithin_def parse_def d split: prod.splits)
  then show ?thesis
    by (simp add: evaluateConditionWithin_def evaluateCondition_def)
qed

text \<open>Whatever the bound, the function returns a boolean.\<close>

lemma evaluate_within_returns: "\<exists>b. evaluateConditionWithin limit condition st = Inr b"
  by (auto simp: evaluateConditionWithin_def split: option.splits sum.splits)

text \<open>Nesting beyond the bound raises \<^verbatim>\<open>RangeError\<close> inside the parser.\<close>

lemma raised_in_parsePrimary:
  assumes "d \<noteq> 0 \<Longrightarrow> parseOrWithin (d - 1) st (advance ts) = Inl RangeError"
    and "current ts = LPAREN"
  shows "parsePrimaryWithin d st ts = Inl RangeError"
  by (subst parsePrimaryWithin.simps) (use assms in \<open>auto simp del: One_nat_def\<close>)

lemma raised_in_parseComparison:
  assumes "d \<noteq> 0 \<Longrightarrow> parsePrimaryWithin (d - 1) st ts = Inl RangeError"
  shows "parseComparisonWithin d st ts = Inl RangeError"
  by (subst parseComparisonWithin.simps) (use assms in \<open>auto simp del: One_nat_def\<close>)

lemma raised_in_parseNot:
  assumes "d \<noteq> 0 \<Longrightarrow> parseComparisonWithin (d - 1) st ts = Inl RangeError"
    and "current ts \<noteq> NOT"
  shows "parseNotWithin d st ts = Inl RangeError"
  by (subst parseNotWithin.simps) (use assms in \<open>auto simp del: One_nat_def\<close>)

lemma raised_in_parseAnd:
  assumes "d \<noteq> 0 \<Longrightarrow> parseNotWithin (d - 1) st ts = Inl RangeError"
  shows "parseAndWithin d st ts = Inl RangeError"
  by (subst parseAndWithin.simps) (use assms in \<open>auto simp del: One_nat_def\<close>)

lemma raised_in_parseOr:
  assumes "d \<noteq> 0 \<Longrightarrow> parseAndWithin (d - 1) st ts = Inl RangeError"
  shows "parseOrWithin d st ts = Inl RangeError"
  by (subst parseOrWithin.simps) (use assms in \<open>auto simp del: One_nat_def\<close>)

lemma nested_overflows:
  "d \<le> 5 * n \<Longrightarrow> parseOrWithin d st (replicate n LPAREN @ rest) = Inl RangeError"
proof (induction n arbitrary: d)
  case 0
  then show ?case by (simp add: parseOrWithin.simps)
next
  case (Suc n)
  let ?ts = "replicate (Suc n) LPAREN @ rest"
  have cur: "current ?ts = LPAREN" and adv: "advance ?ts = replicate n LPAREN @ rest"
    by (simp_all add: current_def advance_def)
  from Suc.prems have "d - 1 - 1 - 1 - 1 - 1 \<le> 5 * n" by simp
  from Suc.IH [OF this]
  have "parseOrWithin (d - 1 - 1 - 1 - 1 - 1) st (advance ?ts) = Inl RangeError"
    by (simp only: adv)
  then have "parsePrimaryWithin (d - 1 - 1 - 1 - 1) st ?ts = Inl RangeError"
    using cur by (intro raised_in_parsePrimary)
  then have "parseComparisonWithin (d - 1 - 1 - 1) st ?ts = Inl RangeError"
    by (intro raised_in_parseComparison)
  then have "parseNotWithin (d - 1 - 1) st ?ts = Inl RangeError"
    using cur by (intro raised_in_parseNot) simp_all
  then have "parseAndWithin (d - 1) st ?ts = Inl RangeError"
    by (intro raised_in_parseAnd)
  then show ?case
    by (intro raised_in_parseOr)
qed

lemma tokenize_parens:
  "tokenize (replicate n (CHR ''('') @ c) = replicate n LPAREN @ tokenize c"
  by (induction n) (simp_all add: tokenize_def char_defs matchOperator_def operators_def)

lemma parens_not_blank: "trim (replicate (Suc n) (CHR ''('') @ c) \<noteq> []"
  by (simp add: trim_def isSpace_def code_def)

lemma nested_beyond_bound:
  "evaluateConditionWithin limit (Some (replicate (Suc limit) (CHR ''('') @ c)) st = Inr False"
proof -
  have "parseWithin limit st (tokenize (replicate (Suc limit) (CHR ''('') @ c)) = Inl RangeError"
  proof (cases "limit = 0")
    case True
    then show ?thesis by (simp add: parseWithin_def)
  next
    case False
    have "limit - 1 \<le> 5 * Suc limit" by simp
    from nested_overflows [OF this]
    have "parseOrWithin (limit - 1) st (replicate (Suc limit) LPAREN @ tokenize c) = Inl RangeError" .
    with False show ?thesis
      by (simp del: One_nat_def replicate_Suc add: parseWithin_def tokenize_parens)
  qed
  moreover have "replicate (Suc limit) (CHR ''('') @ c \<noteq> []" by simp
  ultimately show ?thesis
    using parens_not_blank [of limit c]
    by (simp del: replicate_Suc add: evaluateConditionWithin_def)
qed

lemma unknown_skipped: "unknownChar x \<Longrightarrow> tokenize (x # cs) = tokenize cs"
  by (auto simp: unknownChar_def tokenize_def matchOperator_def operators_def)

lemma token_counts:
  "length (tokenize ''('') = 2" "length (tokenize ''not ('') = 3"
  "length (tokenize ''x =='') = 3" "length (tokenize ''x in ['a' '') = 5"
  by (simp_all add: tok_defs char_defs)

text \<open>
  Claim C1, as amended. For every bound on the stack, every condition and every state,
  \<^verbatim>\<open>evaluateCondition\<close> returns a boolean: no exception leaves it. An absent condition and
  a condition that is empty or only white space evaluate to true. When the parser
  exhausts the stack, as it does on a condition that opens more parentheses than the
  bound, the \<^verbatim>\<open>RangeError\<close> is caught and the result is false. A malformed expression
  raises nothing. When the stack suffices, the result is that of the evaluation
  without a bound, in which the tokenizer skips a character that it does not know, the
  parser reads a missing operand as \<^verbatim>\<open>undefined\<close> and ends an unclosed bracket at the end
  of the input, and the result is the truthiness of what was read. That is false for
  \<^verbatim>\<open>(\<close>, true for \<^verbatim>\<open>not (\<close>, true for \<^verbatim>\<open>x ==\<close> exactly when \<^verbatim>\<open>x\<close> is absent, and true for
  \<^verbatim>\<open>x in ['a'\<close> exactly when \<^verbatim>\<open>x\<close> is \<^verbatim>\<open>'a'\<close>.
\<close>

theorem evaluate_lenient:
  "(\<exists>b. evaluateConditionWithin limit condition st = Inr b) \<and>
   evaluateConditionWithin limit None st = Inr True \<and>
   (trim c = [] \<longrightarrow> evaluateConditionWithin limit (Some c) st = Inr True) \<and>
   evaluateConditionWithin limit (Some (replicate (Suc limit) (CHR ''('') @ e)) st = Inr False \<and>
   (8 * length (tokenize e) + 8 < limit \<longrightarrow>
      evaluateConditionWithin limit (Some e) st = Inr (evaluateCondition (Some e) st)) \<and>
   (unknownChar x \<longrightarrow> tokenize (x # cs) = tokenize cs) \<and>
   (48 < limit \<longrightarrow>
      evaluateConditionWithin limit (Some ''('') st = Inr False \<and>
      evaluateConditionWithin limit (Some ''not ('') st = Inr True \<and>
      evaluateConditionWithin limit (Some ''x =='') st = Inr (st ''x'' = Undefined) \<and>
      evaluateConditionWithin limit (Some ''x in ['a' '') st = Inr (st ''x'' = Str ''a''))"
proof -
  have blank: "trim c = [] \<longrightarrow> evaluateConditionWithin limit (Some c) st = Inr True"
    by (simp add: evaluateConditionWithin_def)
  have examples: "evaluateConditionWithin limit (Some ''('') st = Inr False \<and>
      evaluateConditionWithin limit (Some ''not ('') st = Inr True \<and>
      evaluateConditionWithin limit (Some ''x =='') st = Inr (st ''x'' = Undefined) \<and>
      evaluateConditionWithin limit (Some ''x in ['a' '') st = Inr (st ''x'' = Str ''a'')"
    if "48 < limit"
    using that open_paren_false [of st] not_open_paren_true [of st] missing_operand [of st]
      unclosed_list [of st]
    by (simp add: evaluate_within_enough token_counts)
  show ?thesis
    using evaluate_within_returns [of limit condition st] blank nested_beyond_bound [of limit e st]
      evaluate_within_enough [of e limit st] unknown_skipped [of x cs] examples
    by (simp add: evaluateConditionWithin_def)
qed

text \<open>
  The theorem with a stack of a hundred calls and a state in which \<^verbatim>\<open>x\<close> is 1: at a
  blank condition, at \<^verbatim>\<open>$x\<close> with its unknown character, at \<^verbatim>\<open>x ==\<close>, and at \<^verbatim>\<open>(((x\<close>,
  which is true with a stack of a hundred calls and false with a stack of two.
\<close>

theorem evaluate_lenient_witness:
  "trim ''  '' = [] \<and>
   evaluateConditionWithin 100 (Some ''  '') (emptyState(''x'' := Num (Fin 1))) = Inr True \<and>
   8 * length (tokenize ''$x'') + 8 < 100 \<and>
   evaluateConditionWithin 100 (Some ''$x'') (emptyState(''x'' := Num (Fin 1))) = Inr True \<and>
   unknownChar (CHR ''$'') \<and> tokenize ''$x'' = tokenize ''x'' \<and>
   (48::nat) < 100 \<and>
   evaluateConditionWithin 100 (Some ''x =='') (emptyState(''x'' := Num (Fin 1))) = Inr False \<and>
   evaluateConditionWithin 100 (Some ''(((x'') (emptyState(''x'' := Num (Fin 1))) = Inr True \<and>
   evaluateConditionWithin 2 (Some ''(((x'') (emptyState(''x'' := Num (Fin 1))) = Inr False"
proof -
  let ?st = "emptyState(''x'' := Num (Fin 1))"
  have t: "trim ''  '' = []" by (simp add: trim_def isSpace_def code_def)
  have n: "8 * length (tokenize ''$x'') + 8 < 100" by (simp add: tok_defs char_defs)
  have u: "unknownChar (CHR ''$'')" by (simp add: unknownChar_def char_defs)
  have v: "evaluateCondition (Some ''$x'') ?st" by (simp add: eval_defs)
  have n3: "8 * length (tokenize ''(((x'') + 8 < 100" by (simp add: tok_defs char_defs)
  have v3: "evaluateCondition (Some ''(((x'') ?st" by (simp add: eval_defs)
  have deep: "replicate (Suc 2) (CHR ''('') @ ''x'' = ''(((x''" by (simp add: numeral_2_eq_2)
  show ?thesis
    using evaluate_lenient [of 100 None ?st "''  ''" "''$x''" "CHR ''$''" "''x''"]
      evaluate_lenient [of 100 None ?st "''  ''" "''(((x''" "CHR ''$''" "''x''"]
      evaluate_lenient [of 2 None ?st "''  ''" "''x''" "CHR ''$''" "''x''"]
      t n u v n3 v3 deep
    by simp
qed

text \<open>
  Claim C1 as stated fails: the malformed expression \<^verbatim>\<open>not (\<close>, with its unmatched
  parenthesis, evaluates to true on the empty state.
\<close>

theorem malformed_evaluates_true:
  "evaluateConditionWithin 100 (Some ''not ('') emptyState = Inr True"
  using evaluate_within_enough [of "''not (''" 100 emptyState] not_open_paren_true [of emptyState]
  by (simp add: token_counts)


subsection \<open>Truthiness of a bare identifier\<close>

lemma idStart_code:
  "isIdStart c \<Longrightarrow>
   (65 \<le> code c \<and> code c \<le> 90) \<or> (97 \<le> code c \<and> code c \<le> 122) \<or> code c = 95"
  by (auto simp: isIdStart_def isLower_def isUpper_def code_def)

lemma idStart_branches:
  assumes "isIdStart c"
  shows "\<not> isSpace c" "\<not> isQuote c" "\<not> isDigit c" "c \<noteq> CHR ''-''"
    "matchOperator (c # cs) = None"
    "c \<noteq> CHR ''(''" "c \<noteq> CHR '')''" "c \<noteq> CHR ''[''" "c \<noteq> CHR '']''" "c \<noteq> CHR '',''"
  using idStart_code [OF assms]
  by (auto simp: isSpace_def isQuote_def isDigit_def squote_def dquote_def code_def
      matchOperator_def operators_def)

lemma tokenize_identifier:
  assumes "isIdentifierName k"
  shows "tokenize k = [IDENTIFIER k, EOF]"
proof -
  from assms obtain c cs where k: "k = c # cs" and st: "isIdStart c"
    and all: "\<forall>x \<in> set (c # cs). isIdChar x" and w: "wordToken k = IDENTIFIER k"
    by (cases k) (auto simp: isIdentifierName_def)
  from all have tw: "takeWhile isIdChar (c # cs) = c # cs"
    and dw: "dropWhile isIdChar (c # cs) = []"
    by (simp_all only: takeWhile_eq_all_conv dropWhile_eq_Nil_conv)
  have "tokenizeFrom (c # cs) =
      wordToken (takeWhile isIdChar (c # cs)) # tokenizeFrom (dropWhile isIdChar (c # cs))"
    using idStart_branches [OF st] st
    by (simp del: takeWhile.simps dropWhile.simps)
  then show ?thesis using tw dw w k by (simp add: tokenize_def)
qed

lemma parse_identifier: "parse st [IDENTIFIER k, EOF] = toBoolean (st k)"
  by (simp add: parse_defs)

lemma evaluate_identifier:
  assumes "isIdentifierName k"
  shows "evaluateCondition (Some k) st = toBoolean (st k)"
proof -
  from assms have ne: "k \<noteq> []" and "isIdStart (hd k)" by (simp_all add: isIdentifierName_def)
  then have "\<not> isSpace (hd k)" using idStart_branches(1) by blast
  with ne have "trim k \<noteq> []" by (auto simp: trim_empty_iff)
  with ne show ?thesis
    by (simp add: evaluateCondition_def tokenize_identifier [OF assms] parse_identifier)
qed

lemma isIdentifierName_x: "isIdentifierName ''x''"
  by (simp add: isIdentifierName_def char_defs tok_defs)

text \<open>
  Claim C2, as amended. A bare identifier condition evaluates to false exactly when
  the key is absent, \<^verbatim>\<open>null\<close>, the empty string, the number 0, \<^verbatim>\<open>NaN\<close> or \<^verbatim>\<open>false\<close>, and to
  true for every other value. In particular \<^verbatim>\<open>x\<close> is false on the empty state,
  \<^verbatim>\<open>not x\<close> is true on it, \<^verbatim>\<open>x\<close> is false when \<^verbatim>\<open>x\<close> is 0 and true when \<^verbatim>\<open>x\<close> is \<^verbatim>\<open>"0"\<close>.
\<close>

theorem bare_identifier_truthiness:
  "(isIdentifierName k \<longrightarrow>
      evaluateCondition (Some k) st
        = (st k \<notin> {Undefined, Null, Str [], Num (Fin 0), Num NaN, Bool False})) \<and>
   \<not> evaluateCondition (Some ''x'') emptyState \<and>
   evaluateCondition (Some ''not x'') emptyState \<and>
   \<not> evaluateCondition (Some ''x'') (emptyState(''x'' := Num (Fin 0))) \<and>
   evaluateCondition (Some ''x'') (emptyState(''x'' := Str ''0''))"
proof -
  have "toBoolean (st k) = (st k \<notin> {Undefined, Null, Str [], Num (Fin 0), Num NaN, Bool False})"
    by (cases "st k") auto
  moreover have "evaluateCondition (Some ''not x'') emptyState"
    by (simp add: eval_defs emptyState_def)
  ultimately show ?thesis
    by (simp add: evaluate_identifier isIdentifierName_x emptyState_def)
qed

text \<open>The theorem at the key \<^verbatim>\<open>printer.kinematics\<close>, set to a string and to \<^verbatim>\<open>null\<close>.\<close>

theorem bare_identifier_truthiness_witness:
  "isIdentifierName ''printer.kinematics'' \<and>
   evaluateCondition (Some ''printer.kinematics'')
     (emptyState(''printer.kinematics'' := Str ''corexy'')) \<and>
   \<not> evaluateCondition (Some ''printer.kinematics'')
     (emptyState(''printer.kinematics'' := Null))"
proof -
  have h: "isIdentifierName ''printer.kinematics''"
    by (simp add: isIdentifierName_def char_defs tok_defs)
  show ?thesis
    using h
      bare_identifier_truthiness
        [of "''printer.kinematics''" "emptyState(''printer.kinematics'' := Str ''corexy'')"]
      bare_identifier_truthiness
        [of "''printer.kinematics''" "emptyState(''printer.kinematics'' := Null)"]
    by simp
qed

text \<open>
  Claim C2 as stated fails: \<^verbatim>\<open>NaN\<close> is a value other than absent, the empty string,
  0 and \<^verbatim>\<open>false\<close>, and the condition \<^verbatim>\<open>x\<close> is false when \<^verbatim>\<open>x\<close> is \<^verbatim>\<open>NaN\<close>.
\<close>

theorem nan_is_falsy:
  "\<not> evaluateCondition (Some ''x'') (emptyState(''x'' := Num NaN)) \<and>
   Num NaN \<notin> {Undefined, Str [], Num (Fin 0), Bool False}"
  by (simp add: eval_defs)

subsection \<open>The Z-tilt scenario\<close>

lemmas scenario_defs = zTiltFourMotors_def emptyState_def eval_defs compare_defs

lemma scenario_qgl_requires_4_motors:
  "\<not> evaluateCondition (Some (rule_condition qgl_requires_4_motors)) zTiltFourMotors"
  by (simp add: qgl_requires_4_motors_def scenario_defs)

lemma scenario_z_tilt_requires_2_or_3_motors:
  "evaluateCondition (Some (rule_condition z_tilt_requires_2_or_3_motors)) zTiltFourMotors"
  by (simp add: z_tilt_requires_2_or_3_motors_def scenario_defs)

lemma scenario_sensorless_needs_stallguard_x:
  "\<not> evaluateCondition (Some (rule_condition sensorless_needs_stallguard_x)) zTiltFourMotors"
  by (simp add: sensorless_needs_stallguard_x_def scenario_defs)

lemma scenario_sensorless_needs_stallguard_y:
  "\<not> evaluateCondition (Some (rule_condition sensorless_needs_stallguard_y)) zTiltFourMotors"
  by (simp add: sensorless_needs_stallguard_y_def scenario_defs)

lemma scenario_toolboard_extruder_needs_toolboard:
  "\<not> evaluateCondition (Some (rule_condition toolboard_extruder_needs_toolboard)) zTiltFourMotors"
  by (simp add: toolboard_extruder_needs_toolboard_def scenario_defs)

lemma scenario_toolboard_fan_needs_toolboard:
  "\<not> evaluateCondition (Some (rule_condition toolboard_fan_needs_toolboard)) zTiltFourMotors"
  by (simp add: toolboard_fan_needs_toolboard_def scenario_defs)

lemma scenario_toolboard_probe_needs_toolboard:
  "\<not> evaluateCondition (Some (rule_condition toolboard_probe_needs_toolboard)) zTiltFourMotors"
  by (simp add: toolboard_probe_needs_toolboard_def scenario_defs)

lemma scenario_awd_needs_corexy:
  "\<not> evaluateCondition (Some (rule_condition awd_needs_corexy)) zTiltFourMotors"
  by (simp add: awd_needs_corexy_def scenario_defs)

lemma scenario_beacon_needs_i2c_or_can:
  "\<not> evaluateCondition (Some (rule_condition beacon_needs_i2c_or_can)) zTiltFourMotors"
  by (simp add: beacon_needs_i2c_or_can_def scenario_defs)

lemma scenario_cartographer_needs_can:
  "\<not> evaluateCondition (Some (rule_condition cartographer_needs_can)) zTiltFourMotors"
  by (simp add: cartographer_needs_can_def scenario_defs)

lemma scenario_high_bed_temp_warning:
  "\<not> evaluateCondition (Some (rule_condition high_bed_temp_warning)) zTiltFourMotors"
  by (simp add: high_bed_temp_warning_def scenario_defs)

lemma scenario_high_hotend_temp_warning:
  "\<not> evaluateCondition (Some (rule_condition high_hotend_temp_warning)) zTiltFourMotors"
  by (simp add: high_hotend_temp_warning_def scenario_defs)

lemma scenario_high_xy_current_warning:
  "\<not> evaluateCondition (Some (rule_condition high_xy_current_warning)) zTiltFourMotors"
  by (simp add: high_xy_current_warning_def scenario_defs)

lemma scenario_no_kinematics_selected:
  "evaluateCondition (Some (rule_condition no_kinematics_selected)) zTiltFourMotors"
  by (simp add: no_kinematics_selected_def scenario_defs)

lemma scenario_no_mainboard_selected:
  "evaluateCondition (Some (rule_condition no_mainboard_selected)) zTiltFourMotors"
  by (simp add: no_mainboard_selected_def scenario_defs)

lemma scenario_mesh_exceeds_bed:
  "\<not> evaluateCondition (Some (rule_condition mesh_exceeds_bed)) zTiltFourMotors"
  by (simp add: mesh_exceeds_bed_def scenario_defs)

lemmas scenario_conditions =
  scenario_qgl_requires_4_motors
  scenario_z_tilt_requires_2_or_3_motors
  scenario_sensorless_needs_stallguard_x
  scenario_sensorless_needs_stallguard_y
  scenario_toolboard_extruder_needs_toolboard
  scenario_toolboard_fan_needs_toolboard
  scenario_toolboard_probe_needs_toolboard
  scenario_awd_needs_corexy
  scenario_beacon_needs_i2c_or_can
  scenario_cartographer_needs_can
  scenario_high_bed_temp_warning
  scenario_high_hotend_temp_warning
  scenario_high_xy_current_warning
  scenario_no_kinematics_selected
  scenario_no_mainboard_selected
  scenario_mesh_exceeds_bed

text \<open>
  Claim C6, as amended. On the state
  \<^verbatim>\<open>{ "leveling.type": "z_tilt", "z_config.motor_count": 4 }\<close> the built-in rules yield
  exactly three conflicts, all of severity error: "Z Tilt requires 2 or 3 Z motors",
  whose context is \<^verbatim>\<open>{"leveling.type": "z_tilt", "z_config.motor_count": 4}\<close>, and the two
  rules for a missing kinematics type and a missing mainboard, whose keys the state
  does not set.
\<close>

theorem z_tilt_scenario_conflicts:
  "detectConflicts zTiltFourMotors =
     [\<lparr>rule = z_tilt_requires_2_or_3_motors,
       conflict_context =
         [''leveling.type'' \<mapsto> Str ''z_tilt'', ''z_config.motor_count'' \<mapsto> Num (Fin 4)]\<rparr>,
      \<lparr>rule = no_kinematics_selected,
       conflict_context = [''printer.kinematics'' \<mapsto> Undefined]\<rparr>,
      \<lparr>rule = no_mainboard_selected,
       conflict_context = [''mcu.main.board_type'' \<mapsto> Undefined]\<rparr>] \<and>
   map (\<lambda>c. severity (rule c)) (detectConflicts zTiltFourMotors) = [error, error, error]"
proof -
  have ctx:
    "buildContext z_tilt_requires_2_or_3_motors zTiltFourMotors =
       [''leveling.type'' \<mapsto> Str ''z_tilt'', ''z_config.motor_count'' \<mapsto> Num (Fin 4)]"
    "buildContext no_kinematics_selected zTiltFourMotors = [''printer.kinematics'' \<mapsto> Undefined]"
    "buildContext no_mainboard_selected zTiltFourMotors = [''mcu.main.board_type'' \<mapsto> Undefined]"
    by (simp_all add: buildContext_def z_tilt_requires_2_or_3_motors_def
        no_kinematics_selected_def no_mainboard_selected_def zTiltFourMotors_def emptyState_def)
  have sev: "severity z_tilt_requires_2_or_3_motors = error"
    "severity no_kinematics_selected = error" "severity no_mainboard_selected = error"
    by (simp_all add: z_tilt_requires_2_or_3_motors_def no_kinematics_selected_def
        no_mainboard_selected_def)
  show ?thesis
    by (simp add: detectConflicts_def CONFLICT_RULES_def scenario_conditions ctx sev)
qed

text \<open>
  Claim C6 as stated fails: the state yields three conflicts of severity error, not
  one.
\<close>

theorem z_tilt_scenario_three_errors:
  "length (getConflictsBySeverity zTiltFourMotors error) = 3 \<and>
   length (getConflictsBySeverity zTiltFourMotors error) \<noteq> 1"
proof -
  have sev: "severity z_tilt_requires_2_or_3_motors = error"
    "severity no_kinematics_selected = error" "severity no_mainboard_selected = error"
    by (simp_all add: z_tilt_requires_2_or_3_motors_def no_kinematics_selected_def
        no_mainboard_selected_def)
  show ?thesis
    by (simp add: getConflictsBySeverity_def detectConflicts_def CONFLICT_RULES_def
        scenario_conditions sev)
qed


subsection \<open>Inheritance fills only what is absent\<close>

lemma fieldKey_inject: "fieldKey e f = fieldKey e g \<longleftrightarrow> f = g"
  by (simp add: fieldKey_def)

text \<open>The loop of \<^verbatim>\<open>applyInheritance\<close>, read at the key of one field.\<close>

lemma inherit_loop_at:
  "foldl (inheritField c p st) m fs (fieldKey c f)
   = (if f \<in> set fs \<and> st (fieldKey c f) = Undefined \<and> st (fieldKey p f) \<noteq> Undefined
      then Some (st (fieldKey p f))
      else m (fieldKey c f))"
  by (induction fs arbitrary: m) (auto simp: inheritField_def Let_def fieldKey_inject)

lemma applyInheritance_at:
  "applyInheritance c st evaluate (fieldKey c f) =
     (case getInheritanceRelation c of
        None \<Rightarrow> None
      | Some rel \<Rightarrow>
          if \<not> conditionFails rel st evaluate \<and> f \<in> set (inh_fields rel) \<and>
             st (fieldKey c f) = Undefined \<and> st (fieldKey (parent rel) f) \<noteq> Undefined
          then Some (st (fieldKey (parent rel) f))
          else None)"
  unfolding applyInheritance_def
  by (simp add: inherit_loop_at split: option.splits)

text \<open>
  Claim C8. For every state, every child entity and every field, with any condition
  evaluator: if the child's own key for the field is present in the state, the map
  that \<^verbatim>\<open>applyInheritance\<close> returns has no entry for that key, whatever the parent holds;
  and an entry for the key means that the child's key is absent, that the child has a
  relation with the field among its fields, and that the entry is the value of the
  parent's key, which is present.
\<close>

theorem applyInheritance_non_destructive:
  "(st (fieldKey c f) \<noteq> Undefined \<longrightarrow> applyInheritance c st evaluate (fieldKey c f) = None) \<and>
   (applyInheritance c st evaluate (fieldKey c f) = Some v \<longrightarrow>
      st (fieldKey c f) = Undefined \<and>
      (\<exists>rel. getInheritanceRelation c = Some rel \<and> f \<in> set (inh_fields rel) \<and>
             st (fieldKey (parent rel) f) = v \<and> v \<noteq> Undefined))"
  by (auto simp: applyInheritance_at split: option.splits if_splits)

lemma relation_stepper_y:
  "getInheritanceRelation ''stepper_y'' =
     Some \<lparr>child = ''stepper_y'', parent = ''stepper_x'', inh_fields = COPYABLE_STEPPER_FIELDS,
           inh_condition = None\<rparr>"
  by (simp add: getInheritanceRelation_def INHERITANCE_RELATIONS_def)

text \<open>
  The theorem at \<^verbatim>\<open>stepper_y.driver_type\<close>, once set by the user and once absent, with
  \<^verbatim>\<open>stepper_x.driver_type\<close> set.
\<close>

theorem applyInheritance_non_destructive_witness:
  "(emptyState(''stepper_x.driver_type'' := Str ''tmc2209'', ''stepper_y.driver_type'' := Str ''a4988''))
     (fieldKey ''stepper_y'' ''driver_type'') \<noteq> Undefined \<and>
   applyInheritance ''stepper_y''
     (emptyState(''stepper_x.driver_type'' := Str ''tmc2209'', ''stepper_y.driver_type'' := Str ''a4988''))
     (\<lambda>c s. evaluateCondition (Some c) s) (fieldKey ''stepper_y'' ''driver_type'') = None \<and>
   applyInheritance ''stepper_y'' (emptyState(''stepper_x.driver_type'' := Str ''tmc2209''))
     (\<lambda>c s. evaluateCondition (Some c) s) (fieldKey ''stepper_y'' ''driver_type'')
     = Some (Str ''tmc2209'') \<and>
   (emptyState(''stepper_x.driver_type'' := Str ''tmc2209''))
     (fieldKey ''stepper_y'' ''driver_type'') = Undefined"
proof -
  have a: "applyInheritance ''stepper_y'' (emptyState(''stepper_x.driver_type'' := Str ''tmc2209''))
     (\<lambda>c s. evaluateCondition (Some c) s) (fieldKey ''stepper_y'' ''driver_type'')
     = Some (Str ''tmc2209'')"
    by (simp only: applyInheritance_at relation_stepper_y)
       (simp add: conditionFails_def COPYABLE_STEPPER_FIELDS_def fieldKey_def emptyState_def)
  have b: "(emptyState(''stepper_x.driver_type'' := Str ''tmc2209'', ''stepper_y.driver_type'' := Str ''a4988''))
     (fieldKey ''stepper_y'' ''driver_type'') \<noteq> Undefined"
    by (simp add: fieldKey_def)
  show ?thesis
    using a b
      applyInheritance_non_destructive
        [of "emptyState(''stepper_x.driver_type'' := Str ''tmc2209'', ''stepper_y.driver_type'' := Str ''a4988'')"
          "''stepper_y''" "''driver_type''" "\<lambda>c s. evaluateCondition (Some c) s"]
      applyInheritance_non_destructive
        [of "emptyState(''stepper_x.driver_type'' := Str ''tmc2209'')"
          "''stepper_y''" "''driver_type''" "\<lambda>c s. evaluateCondition (Some c) s" "Str ''tmc2209''"]
    by simp
qed

subsection \<open>Selecting an option of an exclusive group\<close>

lemma setProperty_plain:
  "k \<notin> set inheritedNames \<Longrightarrow> setProperty obj k v = obj\<lparr>own := (own obj)(k \<mapsto> v)\<rparr>"
  by (auto simp: setProperty_def inheritedNames_def)

lemma hasProperty_plain:
  "k \<notin> set inheritedNames \<Longrightarrow> hasProperty k obj \<longleftrightarrow> k \<in> dom (own obj)"
  by (simp add: hasProperty_def)

lemma own_assignEntries:
  "\<forall>k \<in> fst ` set es. k \<notin> set inheritedNames \<Longrightarrow>
   own (assignEntries obj es) = own obj ++ objectOf es"
proof (induction es arbitrary: obj)
  case Nil
  show ?case by (simp add: assignEntries_def objectOf_def)
next
  case (Cons e es)
  obtain k v where e: "e = (k, v)" by (cases e)
  with Cons.prems have k: "k \<notin> set inheritedNames" by simp
  let ?obj = "obj\<lparr>own := (own obj)(k \<mapsto> v)\<rparr>"
  have "assignEntries obj (e # es) = assignEntries ?obj es"
    by (simp add: assignEntries_def e setProperty_plain [OF k])
  moreover have "own (assignEntries ?obj es) = own ?obj ++ objectOf es"
    using Cons.prems by (intro Cons.IH) simp
  moreover have "own ?obj ++ objectOf es = own obj ++ objectOf (e # es)"
    by (simp add: objectOf_def e map_add_upd_left [symmetric] map_add_assoc [symmetric] ext)
  ultimately show ?case by simp
qed

lemma markMissing_empty: "markMissing {} m = m"
  by (simp add: markMissing_def)

lemma dom_markMissing: "dom (markMissing S m) = dom m \<union> S"
  by (auto simp: markMissing_def dom_def)

lemma markMissing_twice: "markMissing S (markMissing T m) = markMissing (T \<union> S) m"
proof (rule ext)
  fix k
  show "markMissing S (markMissing T m) k = markMissing (T \<union> S) m k"
    unfolding markMissing_def [of S] dom_markMissing
    by (simp add: markMissing_def)
qed

lemma own_clearMissing:
  "\<forall>k \<in> set ks. k \<notin> set inheritedNames \<Longrightarrow>
   own (clearMissing obj ks) = markMissing (set ks) (own obj)"
proof (induction ks arbitrary: obj)
  case Nil
  show ?case by (simp add: clearMissing_def markMissing_empty)
next
  case (Cons a ks)
  then have a: "a \<notin> set inheritedNames" by simp
  let ?obj = "if hasProperty a obj then obj else setProperty obj a Undefined"
  have one: "own ?obj = markMissing {a} (own obj)"
    by (rule ext) (auto simp: markMissing_def hasProperty_plain [OF a] setProperty_plain [OF a])
  have "clearMissing obj (a # ks) = clearMissing ?obj ks"
    by (simp add: clearMissing_def)
  also have "own \<dots> = markMissing (set ks) (own ?obj)"
    using Cons.prems by (simp add: Cons.IH)
  finally show ?case
    unfolding one markMissing_twice by simp
qed

lemma dom_impliedOf:
  "dom (impliedOf x) = (case impliedValues x of None \<Rightarrow> {} | Some iv \<Rightarrow> set (map fst iv))"
  by (cases "impliedValues x")
     (simp_all add: impliedOf_def objectOf_def dom_map_of_conv_image_fst)

lemma differingKeys_Nil: "differingKeys v [] = {}"
  by (simp add: differingKeys_def)

lemma differingKeys_Cons:
  "differingKeys v (a # opts) =
     (if opt_value a \<noteq> v then dom (impliedOf a) else {}) \<union> differingKeys v opts"
  by (auto simp: differingKeys_def)

lemma implied_keys_plain:
  "\<forall>k \<in> set (optionKeys a). k \<notin> set inheritedNames \<Longrightarrow>
   impliedValues a = Some iv \<Longrightarrow> \<forall>k \<in> set (map fst iv). k \<notin> set inheritedNames"
  by (simp add: optionKeys_def)

lemma clear_keys_plain:
  "\<forall>k \<in> set (optionKeys a). k \<notin> set inheritedNames \<Longrightarrow>
   clearValues a = Some ks \<Longrightarrow> \<forall>k \<in> set ks. k \<notin> set inheritedNames"
  by (auto simp: optionKeys_def)

lemma own_clearOthers:
  "\<forall>opt \<in> set opts. \<forall>k \<in> set (optionKeys opt). k \<notin> set inheritedNames \<Longrightarrow>
   own (clearOthers v obj opts) = markMissing (differingKeys v opts) (own obj)"
proof (induction opts arbitrary: obj)
  case Nil
  show ?case by (simp add: clearOthers_def differingKeys_Nil markMissing_empty)
next
  case (Cons a opts)
  then have a: "\<forall>k \<in> set (optionKeys a). k \<notin> set inheritedNames" by simp
  let ?obj = "case impliedValues a of
                None \<Rightarrow> obj
              | Some iv \<Rightarrow> if opt_value a \<noteq> v then clearMissing obj (map fst iv) else obj"
  have one: "own ?obj = markMissing (if opt_value a \<noteq> v then dom (impliedOf a) else {}) (own obj)"
  proof (cases "impliedValues a")
    case None
    then show ?thesis by (simp add: dom_impliedOf markMissing_empty)
  next
    case (Some iv)
    with implied_keys_plain [OF a Some] show ?thesis
      by (simp add: dom_impliedOf own_clearMissing markMissing_empty)
  qed
  have "clearOthers v obj (a # opts) = clearOthers v ?obj opts"
    by (simp add: clearOthers_def)
  also have "own \<dots> = markMissing (differingKeys v opts) (own ?obj)"
    using Cons.prems by (simp add: Cons.IH)
  finally show ?case
    unfolding one markMissing_twice differingKeys_Cons .
qed

lemma own_clear_loop:
  "\<forall>k \<in> set ks. k \<notin> set inheritedNames \<Longrightarrow>
   own (foldl (\<lambda>ch k. setProperty ch k Undefined) obj ks)
     = (\<lambda>k. if k \<in> set ks then Some Undefined else own obj k)"
proof (induction ks arbitrary: obj)
  case Nil
  show ?case by simp
next
  case (Cons a ks)
  then have a: "a \<notin> set inheritedNames" by simp
  from Cons.prems have "own (foldl (\<lambda>ch k. setProperty ch k Undefined) (setProperty obj a Undefined) ks)
      = (\<lambda>k. if k \<in> set ks then Some Undefined else own (setProperty obj a Undefined) k)"
    by (simp add: Cons.IH)
  then show ?case
    by (auto simp: setProperty_plain [OF a] intro!: ext)
qed

lemma found_option:
  "find (\<lambda>x. opt_value x = v) opts = Some c \<Longrightarrow> c \<in> set opts \<and> opt_value c = v"
  by (auto simp: find_Some_iff)

text \<open>
  With option values that are pairwise distinct, the options of another value are
  the options other than the chosen one.
\<close>

lemma differing_are_others:
  assumes "distinct (map opt_value opts)" and "c \<in> set opts" and "opt_value c = v"
  shows "differingKeys v opts = otherKeys c opts"
proof -
  from assms(1) have d: "distinct opts" and inj: "inj_on opt_value (set opts)"
    by (simp_all add: distinct_map)
  have "{x \<in> set opts. opt_value x \<noteq> v} = set opts - {c}"
    using inj assms(2,3) by (auto dest: inj_onD)
  also have "\<dots> = set (remove1 c opts)" using d by simp
  finally show ?thesis by (simp add: differingKeys_def otherKeys_def)
qed

lemma selectOption_by_value:
  assumes found: "find (\<lambda>x. opt_value x = v) (options g) = Some c"
    and plain: "plainKeys g"
  shows "own (selectOption g v) = diffWith (differingKeys v (options g)) g c v"
proof -
  from found_option [OF found] have c: "c \<in> set (options g)" by simp
  with plain have ck: "\<forall>k \<in> set (optionKeys c). k \<notin> set inheritedNames"
    by (simp add: plainKeys_def)
  from plain have all: "\<forall>opt \<in> set (options g). \<forall>k \<in> set (optionKeys opt). k \<notin> set inheritedNames"
    by (simp add: plainKeys_def)
  let ?c1 = "case impliedValues c of
               None \<Rightarrow> objectLiteral (stateKey g) (Str v)
             | Some iv \<Rightarrow> assignEntries (objectLiteral (stateKey g) (Str v)) iv"
  have one: "own ?c1 = [stateKey g \<mapsto> Str v] ++ impliedOf c"
  proof (cases "impliedValues c")
    case None
    then show ?thesis by (simp add: impliedOf_def objectLiteral_def)
  next
    case (Some iv)
    with implied_keys_plain [OF ck Some] show ?thesis
      by (simp add: own_assignEntries impliedOf_def objectLiteral_def)
  qed
  have two: "own (clearOthers v ?c1 (options g))
      = markMissing (differingKeys v (options g)) ([stateKey g \<mapsto> Str v] ++ impliedOf c)"
    by (simp only: own_clearOthers [OF all] one)
  have sel: "selectOption g v =
      (case clearValues c of
         None \<Rightarrow> clearOthers v ?c1 (options g)
       | Some ks \<Rightarrow> foldl (\<lambda>ch k. setProperty ch k Undefined) (clearOthers v ?c1 (options g)) ks)"
    unfolding selectOption_def found by (simp only: option.case Let_def)
  show ?thesis
  proof (cases "clearValues c")
    case None
    with sel two show ?thesis
      by (auto simp: diffWith_def Let_def markMissing_def intro!: ext)
  next
    case (Some ks)
    from clear_keys_plain [OF ck Some] Some sel two show ?thesis
      by (auto simp: diffWith_def Let_def markMissing_def own_clear_loop intro!: ext)
  qed
qed

lemma groupAB_plain: "plainKeys groupAB"
  by (simp add: plainKeys_def groupAB_def optionA_def optionB_def optionKeys_def inheritedNames_def)

lemma groupAB_found: "find (\<lambda>x. opt_value x = ''B'') (options groupAB) = Some optionB"
  by (simp add: groupAB_def optionA_def optionB_def)

lemma groupAB_diff:
  "diffWith (differingKeys ''B'' (options groupAB)) groupAB optionB ''B''
     = [''choice'' \<mapsto> Str ''B'', ''x'' \<mapsto> Undefined]"
  by (rule ext)
     (simp add: diffWith_def groupAB_def optionA_def optionB_def differingKeys_Cons
        differingKeys_Nil impliedOf_def objectOf_def dom_map_of_conv_image_fst)

text \<open>
  Claim C5, as amended. For every exclusive group in which no implied or cleared key
  is the name of an inherited property, and every option value that names one of its
  options, \<^verbatim>\<open>selectOption\<close> returns exactly this diff: the target key mapped to the option
  value, the implied values of the chosen option merged in, the delete marker for
  every implied key, not yet in the diff, of the options whose value is not the option
  value, and the delete marker for every key the chosen option clears. When the values
  of the options are pairwise distinct, those options are all the other options, and
  the diff is the one of the specification. So in a group with option \<^verbatim>\<open>A\<close> implying
  \<^verbatim>\<open>{x: 1}\<close> and option \<^verbatim>\<open>B\<close> implying nothing, selecting \<^verbatim>\<open>B\<close> yields a diff with \<^verbatim>\<open>x\<close>
  marked for deletion.
\<close>

theorem selectOption_refines_spec:
  "(find (\<lambda>x. opt_value x = optionValue) (options grp) = Some chosen \<and> plainKeys grp \<longrightarrow>
      own (selectOption grp optionValue)
        = diffWith (differingKeys optionValue (options grp)) grp chosen optionValue \<and>
      (distinct (map opt_value (options grp)) \<longrightarrow>
         own (selectOption grp optionValue) = selectOptionSpec grp chosen optionValue)) \<and>
   own (selectOption groupAB ''B'') ''x'' = Some Undefined"
proof -
  have "own (selectOption grp optionValue) = selectOptionSpec grp chosen optionValue"
    if "find (\<lambda>x. opt_value x = optionValue) (options grp) = Some chosen" and "plainKeys grp"
      and "distinct (map opt_value (options grp))"
  proof -
    from found_option [OF that(1)]
    have "chosen \<in> set (options grp)" "opt_value chosen = optionValue" by simp_all
    from differing_are_others [OF that(3) this] selectOption_by_value [OF that(1,2)]
    show ?thesis by (simp add: selectOptionSpec_def)
  qed
  moreover have "own (selectOption groupAB ''B'') ''x'' = Some Undefined"
    using selectOption_by_value [OF groupAB_found groupAB_plain] by (simp add: groupAB_diff)
  ultimately show ?thesis
    using selectOption_by_value [of optionValue grp chosen] by blast
qed

text \<open>The theorem at the group of \<^verbatim>\<open>A\<close> and \<^verbatim>\<open>B\<close>, selecting \<^verbatim>\<open>B\<close>.\<close>

theorem selectOption_refines_spec_witness:
  "find (\<lambda>x. opt_value x = ''B'') (options groupAB) = Some optionB \<and>
   plainKeys groupAB \<and> distinct (map opt_value (options groupAB)) \<and>
   own (selectOption groupAB ''B'') = selectOptionSpec groupAB optionB ''B'' \<and>
   own (selectOption groupAB ''B'') = [''choice'' \<mapsto> Str ''B'', ''x'' \<mapsto> Undefined]"
proof -
  have d: "distinct (map opt_value (options groupAB))"
    by (simp add: groupAB_def optionA_def optionB_def)
  have "own (selectOption groupAB ''B'') = selectOptionSpec groupAB optionB ''B''"
    using selectOption_refines_spec [of "''B''" groupAB optionB] groupAB_found groupAB_plain d
    by blast
  moreover have "own (selectOption groupAB ''B'') = [''choice'' \<mapsto> Str ''B'', ''x'' \<mapsto> Undefined]"
    using selectOption_refines_spec [of "''B''" groupAB optionB] groupAB_found groupAB_plain
      groupAB_diff
    by simp
  ultimately show ?thesis
    using groupAB_found groupAB_plain d by simp
qed

text \<open>
  Claim C5 as stated fails where two options have one value. Selecting \<^verbatim>\<open>A\<close> in the
  group of the two options of value \<^verbatim>\<open>A\<close> yields the target key and \<^verbatim>\<open>x\<close> only: whichever
  of the two is taken as the chosen one, the implied key of the other is not marked
  for deletion, as the diff of the specification has it.
\<close>

theorem same_value_not_retracted:
  "own (selectOption groupAA ''A'') = [''choice'' \<mapsto> Str ''A'', ''x'' \<mapsto> Num (Fin 1)] \<and>
   selectOptionSpec groupAA optionA ''A'' ''y'' = Some Undefined \<and>
   selectOptionSpec groupAA optionA2 ''A'' ''x'' = Some Undefined"
proof -
  have "own (selectOption groupAA ''A'') = [''choice'' \<mapsto> Str ''A'', ''x'' \<mapsto> Num (Fin 1)]"
    by (rule ext)
       (simp add: selectOption_def groupAA_def optionA_def optionA2_def objectLiteral_def
          assignEntries_def setProperty_def clearOthers_def)
  moreover have "selectOptionSpec groupAA optionA ''A'' ''y'' = Some Undefined"
    by (simp add: selectOptionSpec_def diffWith_def otherKeys_def groupAA_def optionA_def
        optionA2_def impliedOf_def objectOf_def)
  moreover have "selectOptionSpec groupAA optionA2 ''A'' ''x'' = Some Undefined"
    by (simp add: selectOptionSpec_def diffWith_def otherKeys_def groupAA_def optionA_def
        optionA2_def impliedOf_def objectOf_def)
  ultimately show ?thesis by simp
qed

text \<open>
  Outside the amended claim: a key that is the name of an inherited property. The
  test \<^verbatim>\<open>key in changes\<close> finds \<^verbatim>\<open>toString\<close> in the prototype of \<^verbatim>\<open>changes\<close>, so selecting
  \<^verbatim>\<open>B\<close> leaves the implied \<^verbatim>\<open>toString\<close> of the other option without its delete marker.
\<close>

lemma inherited_key_not_retracted:
  "own (selectOption groupTB ''B'') = [''choice'' \<mapsto> Str ''B''] \<and>
   selectOptionSpec groupTB optionB ''B'' ''toString'' = Some Undefined"
proof -
  have "own (selectOption groupTB ''B'') = [''choice'' \<mapsto> Str ''B'']"
    by (rule ext)
       (simp add: selectOption_def groupTB_def optionT_def optionB_def objectLiteral_def
          clearOthers_def clearMissing_def hasProperty_def inheritedNames_def)
  moreover have "selectOptionSpec groupTB optionB ''B'' ''toString'' = Some Undefined"
    by (simp add: selectOptionSpec_def diffWith_def otherKeys_def groupTB_def optionT_def
        optionB_def impliedOf_def objectOf_def)
  ultimately show ?thesis by simp
qed


subsection \<open>The two evaluators on the conditions of the field table\<close>

lemma canbusUuidField_eq:
  "canbusUuidField =
     \<lparr>key = ''mcu.toolboard.canbus_uuid'', label = ''Toolboard CAN UUID'',
       required = None, requiredWhen = Some canbusCondition,
       min_value = None, max_value = None, validValues = None, validate = None\<rparr>"
  by (simp add: canbusUuidField_def FIELD_DEFINITIONS_def canbusCondition_def)

lemma canbus_ge_no_match: "matchItems geRegex canbusCondition = None"
  by code_simp

lemma canbus_eq_match:
  "matchItems eqRegex canbusCondition
   = Some [''mcu.toolboard.enabled and mcu.toolboard.connection_type'', ''can'']"
  by code_simp

lemma canbus_nonempty: "canbusCondition \<noteq> []"
  by (simp add: canbusCondition_def)

text \<open>
  Claim C7 fails on the code. The condition of \<^verbatim>\<open>mcu.toolboard.canbus_uuid\<close> is
  \<^verbatim>\<open>mcu.toolboard.enabled and mcu.toolboard.connection_type == 'can'\<close>. With the toolboard
  enabled and connected by CAN the condition engine evaluates it to true. The simple
  evaluator of the validator tries its \<^verbatim>\<open>==\<close> pattern before it splits at \<^verbatim>\<open>and\<close>, reads
  everything left of \<^verbatim>\<open>==\<close> as one key, and returns false; the field is then not
  required and its absence is no error.
\<close>

theorem simple_evaluator_misreads_and:
  "requiredWhen canbusUuidField = Some canbusCondition \<and>
   evaluateCondition (Some canbusCondition) toolboardOnCan \<and>
   \<not> evaluateSimpleCondition canbusCondition toolboardOnCan \<and>
   \<not> isRequired canbusUuidField toolboardOnCan \<and>
   validateField canbusUuidField toolboardOnCan = None"
proof -
  have full: "evaluateCondition (Some canbusCondition) toolboardOnCan"
    by (simp add: canbusCondition_def toolboardOnCan_def emptyState_def eval_defs compare_defs)
  have "trim ''mcu.toolboard.enabled and mcu.toolboard.connection_type''
          = ''mcu.toolboard.enabled and mcu.toolboard.connection_type''"
    by (simp add: trim_def char_defs)
  then have simple: "\<not> evaluateSimpleCondition canbusCondition toolboardOnCan"
    by (subst evaluateSimpleCondition.simps)
       (simp add: canbus_ge_no_match canbus_eq_match canbus_nonempty toolboardOnCan_def
          emptyState_def strictEq_def)
  have req: "\<not> isRequired canbusUuidField toolboardOnCan"
    using simple by (simp add: isRequired_def canbusUuidField_eq)
  have "validateField canbusUuidField toolboardOnCan = None"
    using req
    by (simp add: validateField_def canbusUuidField_eq isEmpty_def toolboardOnCan_def
        emptyState_def)
  with full simple req show ?thesis by (simp add: canbusUuidField_eq)
qed

subsection \<open>Where the two evaluators agree\<close>

lemma firstSome_Some: "firstSome f xs = Some y \<Longrightarrow> \<exists>x \<in> set xs. f x = Some y"
  by (induction xs) (auto split: option.splits)

lemma match_once_head:
  "matchItems (lit c # items) s \<noteq> None \<Longrightarrow> c \<in> set s"
proof -
  assume "matchItems (lit c # items) s \<noteq> None"
  then have "candidateLengths Once (length (takeWhile (\<lambda>x. x = c) s)) \<noteq> []"
    by (auto simp: lit_def)
  then have "takeWhile (\<lambda>x. x = c) s \<noteq> []"
    by (auto simp: candidateLengths_def split: if_splits)
  then show ?thesis by (cases s) (auto split: if_splits)
qed

lemma match_skip_item:
  "matchItems ((cls, q, cap) # items) s \<noteq> None \<Longrightarrow> \<exists>n. matchItems items (drop n s) \<noteq> None"
proof -
  assume "matchItems ((cls, q, cap) # items) s \<noteq> None"
  then obtain caps where "matchItems ((cls, q, cap) # items) s = Some caps" by auto
  then obtain n where
    "(case matchItems items (drop n s) of None \<Rightarrow> None
      | Some caps \<Rightarrow> Some (if cap then take n s # caps else caps)) = Some caps"
    by (auto dest!: firstSome_Some)
  then have "matchItems items (drop n s) \<noteq> None" by (auto split: option.splits)
  then show ?thesis by blast
qed

lemma geRegex_needs_gt:
  assumes "matchItems geRegex s \<noteq> None"
  shows "CHR ''>'' \<in> set s"
proof -
  from match_skip_item [OF assms [unfolded geRegex_def]] obtain n where
    a: "matchItems [(isSpace, StarGreedy, False), lit CHR ''>'', lit CHR ''='',
       (isSpace, StarGreedy, False), (isDigit, PlusGreedy, True)] (drop n s) \<noteq> None" ..
  from match_skip_item [OF a] obtain m where
    b: "matchItems [lit CHR ''>'', lit CHR ''='',
       (isSpace, StarGreedy, False), (isDigit, PlusGreedy, True)] (drop m (drop n s)) \<noteq> None" ..
  from b have "CHR ''>'' \<in> set (drop m (drop n s))" by (rule match_once_head)
  then show ?thesis by (meson in_set_dropD)
qed

lemma eqRegex_needs_eq:
  assumes "matchItems eqRegex s \<noteq> None"
  shows "CHR ''='' \<in> set s"
proof -
  from match_skip_item [OF assms [unfolded eqRegex_def]] obtain n where
    a: "matchItems [(isSpace, StarGreedy, False), lit CHR ''='', lit CHR ''='',
       (isSpace, StarGreedy, False), (isQuote, Optional, False), (isDot, PlusLazy, True),
       (isQuote, Optional, False)] (drop n s) \<noteq> None" ..
  from match_skip_item [OF a] obtain m where
    b: "matchItems [lit CHR ''='', lit CHR ''='',
       (isSpace, StarGreedy, False), (isQuote, Optional, False), (isDot, PlusLazy, True),
       (isQuote, Optional, False)] (drop m (drop n s)) \<noteq> None" ..
  from b have "CHR ''='' \<in> set (drop m (drop n s))" by (rule match_once_head)
  then show ?thesis by (meson in_set_dropD)
qed

lemma includesStr_subset: "includesStr s t \<Longrightarrow> set t \<subseteq> set s"
proof (induction s)
  case Nil
  then show ?case by simp
next
  case (Cons c cs)
  then show ?case
  proof (cases "take (length t) (c # cs) = t")
    case True
    then have "set t \<subseteq> set (c # cs)" by (metis set_take_subset)
    then show ?thesis .
  next
    case False
    with Cons show ?thesis by auto
  qed
qed

lemma idChar_plain:
  "isIdChar c \<Longrightarrow> c \<noteq> CHR ''>'' \<and> c \<noteq> CHR ''='' \<and> c \<noteq> CHR '' '' \<and> \<not> isSpace c"
  by (auto simp: isIdChar_def isLower_def isUpper_def isDigit_def isSpace_def code_def)

lemma trim_id: "s \<noteq> [] \<Longrightarrow> \<not> isSpace (hd s) \<Longrightarrow> \<not> isSpace (last s) \<Longrightarrow> trim s = s"
proof -
  assume ne: "s \<noteq> []" and h: "\<not> isSpace (hd s)" and l: "\<not> isSpace (last s)"
  from ne h have a: "dropWhile isSpace s = s" by (cases s) auto
  from ne l have "dropWhile isSpace (rev s) = rev s"
    by (cases "rev s") (auto simp: last_rev [symmetric] hd_rev)
  with a show ?thesis by (simp add: trim_def)
qed

text \<open>On a bare identifier both evaluators return the truthiness of the key.\<close>

lemma simple_identifier:
  assumes "isIdentifierName k"
  shows "evaluateSimpleCondition k st = toBoolean (st k)"
proof -
  from assms have ne: "k \<noteq> []" and all: "\<forall>c \<in> set k. isIdChar c"
    by (simp_all add: isIdentifierName_def)
  have plain: "CHR ''>'' \<notin> set k" "CHR ''='' \<notin> set k" "CHR '' '' \<notin> set k"
    using all idChar_plain by blast+
  from plain(1) have ge: "matchItems geRegex k = None" using geRegex_needs_gt by blast
  from plain(2) have eq: "matchItems eqRegex k = None" using eqRegex_needs_eq by blast
  from plain(3) have nand: "\<not> includesStr k '' and ''"
    using includesStr_subset [of k "'' and ''"] by auto
  from ne all have "\<not> isSpace (hd k)" "\<not> isSpace (last k)"
    using idChar_plain by auto
  with ne have tr: "trim k = k" by (rule trim_id)
  show ?thesis
    by (subst evaluateSimpleCondition.simps) (simp add: ne ge eq nand tr)
qed

lemma evaluators_agree_on_identifiers:
  "isIdentifierName k \<Longrightarrow> evaluateSimpleCondition k st = evaluateCondition (Some k) st"
  by (simp add: simple_identifier evaluate_identifier)

text \<open>On the three \<^verbatim>\<open>>=\<close> conditions of the table both compare the key as a number.\<close>

lemma ge_as_numbers: "jsGe (Sc v) (Sc (Num n)) \<longleftrightarrow> numLess (toNumber v) n = Some False"
  by (cases v) (simp_all add: jsGe_def relLess_def)

lemma motor_count_matches:
  "matchItems geRegex ''z_config.motor_count >= 2'' = Some [''z_config.motor_count'', ''2'']"
  "matchItems geRegex ''z_config.motor_count >= 3'' = Some [''z_config.motor_count'', ''3'']"
  "matchItems geRegex ''z_config.motor_count >= 4'' = Some [''z_config.motor_count'', ''4'']"
  by code_simp+

lemma small_numbers:
  "stringToNumber ''2'' = Fin 2" "stringToNumber ''3'' = Fin 3" "stringToNumber ''4'' = Fin 4"
  by code_simp+

lemma motor_count_trim: "trim ''z_config.motor_count'' = ''z_config.motor_count''"
  by (simp add: trim_def char_defs)

lemma evaluators_agree_on_motor_count:
  "evaluateSimpleCondition ''z_config.motor_count >= 2'' st
     = evaluateCondition (Some ''z_config.motor_count >= 2'') st"
  "evaluateSimpleCondition ''z_config.motor_count >= 3'' st
     = evaluateCondition (Some ''z_config.motor_count >= 3'') st"
  "evaluateSimpleCondition ''z_config.motor_count >= 4'' st
     = evaluateCondition (Some ''z_config.motor_count >= 4'') st"
proof -
  have full:
    "evaluateCondition (Some ''z_config.motor_count >= 2'') st
       = jsGe (Sc (st ''z_config.motor_count'')) (Sc (Num (Fin 2)))"
    "evaluateCondition (Some ''z_config.motor_count >= 3'') st
       = jsGe (Sc (st ''z_config.motor_count'')) (Sc (Num (Fin 3)))"
    "evaluateCondition (Some ''z_config.motor_count >= 4'') st
       = jsGe (Sc (st ''z_config.motor_count'')) (Sc (Num (Fin 4)))"
    by (simp_all add: eval_defs)
  show "evaluateSimpleCondition ''z_config.motor_count >= 2'' st
     = evaluateCondition (Some ''z_config.motor_count >= 2'') st"
    by (subst evaluateSimpleCondition.simps)
       (simp add: motor_count_matches small_numbers motor_count_trim full ge_as_numbers)
  show "evaluateSimpleCondition ''z_config.motor_count >= 3'' st
     = evaluateCondition (Some ''z_config.motor_count >= 3'') st"
    by (subst evaluateSimpleCondition.simps)
       (simp add: motor_count_matches small_numbers motor_count_trim full ge_as_numbers)
  show "evaluateSimpleCondition ''z_config.motor_count >= 4'' st
     = evaluateCondition (Some ''z_config.motor_count >= 4'') st"
    by (subst evaluateSimpleCondition.simps)
       (simp add: motor_count_matches small_numbers motor_count_trim full ge_as_numbers)
qed

lemma table_identifiers:
  "isIdentifierName ''printer.kinematics''" "isIdentifierName ''stepper_x.motor_port''"
  "isIdentifierName ''stepper_y.motor_port''" "isIdentifierName ''stepper_z.motor_port''"
  "isIdentifierName ''printer.awd_enabled''" "isIdentifierName ''extruder.motor_port''"
  "isIdentifierName ''heater_bed.heater_port''" "isIdentifierName ''extruder.heater_port''"
  "isIdentifierName ''mcu.toolboard.enabled''"
  by (simp_all add: isIdentifierName_def char_defs tok_defs)

text \<open>
  Every conditional rule of the field table but the last one: the simple evaluator
  decides its condition as the condition engine does, on every state.
\<close>

theorem evaluators_agree_elsewhere:
  "\<forall>fd \<in> set (butlast FIELD_DEFINITIONS). \<forall>c. requiredWhen fd = Some c \<longrightarrow>
     evaluateSimpleCondition c st = evaluateCondition (Some c) st"
  by (simp add: FIELD_DEFINITIONS_def evaluators_agree_on_identifiers table_identifiers
      evaluators_agree_on_motor_count)

subsection \<open>The completion percentage\<close>

lemma required_fields:
  "filter (\<lambda>f. required f = Some True) FIELD_DEFINITIONS =
     [\<lparr>key = ''printer.kinematics'', label = ''Kinematics Type'',
        required = Some True, requiredWhen = None, min_value = None, max_value = None,
        validValues = Some [''cartesian'', ''corexy'', ''corexy-awd'', ''hybrid_corexy'', ''corexz'', ''delta''],
        validate = None\<rparr>,
      \<lparr>key = ''mcu.main.board_type'', label = ''Mainboard Type'',
        required = Some True, requiredWhen = None, min_value = None, max_value = None,
        validValues = None, validate = None\<rparr>]"
  by (simp add: FIELD_DEFINITIONS_def)

lemma totalCount_eq: "totalCount = length (filter (\<lambda>f. required f = Some True) FIELD_DEFINITIONS)"
  by (simp only: totalCount_def length_filter_conv_card)

lemma filledCount_eq:
  "filledCount st =
     length (filter (\<lambda>f. \<not> isEmpty (st (key f)))
               (filter (\<lambda>f. required f = Some True) FIELD_DEFINITIONS))"
proof -
  have "filledCount st =
      card {i. i < length FIELD_DEFINITIONS \<and>
               (required (FIELD_DEFINITIONS ! i) = Some True \<and>
                \<not> isEmpty (st (key (FIELD_DEFINITIONS ! i))))}"
    by (simp add: filledCount_def isEmpty_def)
  also have "\<dots> = length (filter (\<lambda>f. required f = Some True \<and> \<not> isEmpty (st (key f)))
                           FIELD_DEFINITIONS)"
    by (simp only: length_filter_conv_card)
  finally show ?thesis by (simp only: filter_filter conj_commute)
qed

text \<open>
  Claim C9. For every state the completion percentage is
  \<open>round (100 * filledCount / totalCount)\<close>, both counts over the field rules with the
  unconditional flag only, a value being filled when it is not absent, \<^verbatim>\<open>null\<close> or the
  empty string. In the built-in table these are the two rules for
  \<^verbatim>\<open>printer.kinematics\<close> and \<^verbatim>\<open>mcu.main.board_type\<close>; no conditionally required field
  enters either count.
\<close>

theorem completionPercent_counts_required_only:
  "completionPercent (getValidationSummary st)
     = round (100 * (of_nat (filledCount st) :: rat) / of_nat totalCount) \<and>
   totalCount = 2 \<and>
   filledCount st = (if isEmpty (st ''printer.kinematics'') then 0 else 1) +
                    (if isEmpty (st ''mcu.main.board_type'') then 0 else 1)"
proof -
  have total: "totalCount = 2"
    by (simp add: totalCount_eq required_fields)
  have filled: "filledCount st = (if isEmpty (st ''printer.kinematics'') then 0 else 1) +
                    (if isEmpty (st ''mcu.main.board_type'') then 0 else 1)"
    by (simp add: filledCount_eq required_fields)
  have "completionPercent (getValidationSummary st)
      = mathRound (of_nat (filledCount st) / of_nat totalCount * 100)"
    unfolding getValidationSummary_def Let_def filledCount_eq totalCount_eq
    by (simp add: required_fields)
  also have "\<dots> = round (100 * (of_nat (filledCount st) :: rat) / of_nat totalCount)"
    by (simp add: mathRound_def round_def mult.commute)
  finally show ?thesis using total filled by simp
qed

subsection \<open>Range checks apply to numbers only\<close>

text \<open>Where the errors of \<^verbatim>\<open>validateState\<close> come from.\<close>

lemma field_loop_errors:
  "e \<in> set (errors (foldl (addFieldResult st) acc fds)) \<Longrightarrow>
   e \<in> set (errors acc) \<or> (\<exists>d \<in> set fds. validateField d st = Some e)"
proof (induction fds arbitrary: acc)
  case Nil
  then show ?case by simp
next
  case (Cons d fds)
  from Cons.IH [of "addFieldResult st acc d"] Cons.prems
  have "e \<in> set (errors (addFieldResult st acc d)) \<or> (\<exists>d \<in> set fds. validateField d st = Some e)"
    by simp
  moreover have "e \<in> set (errors (addFieldResult st acc d)) \<Longrightarrow>
      e \<in> set (errors acc) \<or> validateField d st = Some e"
    by (auto simp: addFieldResult_def split: option.splits if_splits)
  ultimately show ?case by auto
qed

lemma group_loop_fields:
  "e \<in> set (foldl (\<lambda>errs g.
              if group_required g = Some True \<and> isEmpty (st (stateKey g))
              then errs @ [\<lparr>field = stateKey g, valid = False,
                             fv_message = Some (group_name g @ '' must be selected''),
                             fv_severity = error\<rparr>]
              else errs) acc groups) \<Longrightarrow>
   e \<in> set acc \<or> (\<exists>g \<in> set groups. field e = stateKey g)"
  by (induction groups arbitrary: acc) (fastforce split: if_splits)+

lemma group_errors_fields:
  "e \<in> set (validateExclusiveGroups st) \<Longrightarrow> \<exists>g \<in> set EXCLUSIVE_GROUPS. field e = stateKey g"
  using group_loop_fields [of e st "[]" EXCLUSIVE_GROUPS]
  by (simp add: validateExclusiveGroups_def validateExclusiveGroupsIn_def)

lemma conflict_loop_errors:
  "e \<in> set (errors (foldl addConflict acc cs)) \<Longrightarrow>
   e \<in> set (errors acc) \<or>
   (\<exists>c \<in> set cs. severity (rule c) = error \<and> field e = conflictField c)"
proof (induction cs arbitrary: acc)
  case Nil
  then show ?case by simp
next
  case (Cons c cs)
  from Cons.IH [of "addConflict acc c"] Cons.prems
  have "e \<in> set (errors (addConflict acc c)) \<or>
      (\<exists>c \<in> set cs. severity (rule c) = error \<and> field e = conflictField c)"
    by simp
  moreover have "e \<in> set (errors (addConflict acc c)) \<Longrightarrow>
      e \<in> set (errors acc) \<or> (severity (rule c) = error \<and> field e = conflictField c)"
    by (auto simp: addConflict_def split: if_splits)
  ultimately show ?case by auto
qed

lemma detected_rule: "c \<in> set (detectConflictsIn rules st) \<Longrightarrow> rule c \<in> set rules"
  by (induction rules) (auto split: if_splits)

lemma validateState_error_origin:
  assumes "e \<in> set (errors (validateState st))"
  shows "(\<exists>d \<in> set FIELD_DEFINITIONS. validateField d st = Some e) \<or>
         (\<exists>g \<in> set EXCLUSIVE_GROUPS. field e = stateKey g) \<or>
         (\<exists>c. rule c \<in> set CONFLICT_RULES \<and> severity (rule c) = error \<and> field e = conflictField c)"
proof -
  let ?acc0 = "\<lparr>vr_valid = True, errors = [], warnings = [], conflicts = [],
                missingRequired = [], invalidValues = []\<rparr>"
  let ?acc1 = "foldl (addFieldResult st) ?acc0 FIELD_DEFINITIONS"
  let ?acc2 = "?acc1\<lparr>errors := errors ?acc1 @ validateExclusiveGroups st,
                      missingRequired := missingRequired ?acc1 @ map field (validateExclusiveGroups st)\<rparr>"
  from assms have "e \<in> set (errors (foldl addConflict ?acc2 (detectConflicts st)))"
    by (simp add: validateState_def Let_def)
  from conflict_loop_errors [OF this]
  consider (a) "e \<in> set (errors ?acc1)" | (b) "e \<in> set (validateExclusiveGroups st)"
    | (c) "\<exists>c \<in> set (detectConflicts st). severity (rule c) = error \<and> field e = conflictField c"
    by auto
  then show ?thesis
  proof cases
    case a
    from field_loop_errors [OF this] show ?thesis by simp
  next
    case b
    from group_errors_fields [OF this] show ?thesis by simp
  next
    case c
    then show ?thesis using detected_rule [of _ CONFLICT_RULES st]
      by (auto simp: detectConflicts_def)
  qed
qed

text \<open>The fields of the table that have a bound.\<close>

lemma validateField_field: "validateField d st = Some e \<Longrightarrow> field e = key d"
  by (auto simp: validateField_def Let_def fieldError_def split: if_splits option.splits)

lemma field_keys_distinct: "distinct (map key FIELD_DEFINITIONS)"
  by (simp add: FIELD_DEFINITIONS_def)

lemma bounded_fields:
  "\<forall>fd \<in> set FIELD_DEFINITIONS.
     (min_value fd \<noteq> None \<or> max_value fd \<noteq> None) \<longrightarrow>
     validValues fd = None \<and> validate fd = None \<and>
     key fd \<in> {''stepper_x.rotation_distance'', ''stepper_x.run_current'',
               ''stepper_y.rotation_distance'', ''stepper_z.rotation_distance'',
               ''extruder.rotation_distance'', ''heater_bed.max_temp'', ''extruder.max_temp''}"
  by (simp add: FIELD_DEFINITIONS_def)

lemma group_keys_unbounded:
  "\<forall>g \<in> set EXCLUSIVE_GROUPS.
     stateKey g \<notin> {''stepper_x.rotation_distance'', ''stepper_x.run_current'',
               ''stepper_y.rotation_distance'', ''stepper_z.rotation_distance'',
               ''extruder.rotation_distance'', ''heater_bed.max_temp'', ''extruder.max_temp''}"
  by (simp add: EXCLUSIVE_GROUPS_def kinematics_group_def probe_type_group_def
      leveling_type_group_def x_endstop_type_group_def y_endstop_type_group_def
      z_endstop_type_group_def tooling_type_group_def mcu_connection_group_def)

lemmas conflict_rule_defs =
  qgl_requires_4_motors_def z_tilt_requires_2_or_3_motors_def sensorless_needs_stallguard_x_def
  sensorless_needs_stallguard_y_def toolboard_extruder_needs_toolboard_def
  toolboard_fan_needs_toolboard_def toolboard_probe_needs_toolboard_def awd_needs_corexy_def
  beacon_needs_i2c_or_can_def cartographer_needs_can_def high_bed_temp_warning_def
  high_hotend_temp_warning_def high_xy_current_warning_def no_kinematics_selected_def
  no_mainboard_selected_def mesh_exceeds_bed_def

lemma error_rule_fields_unbounded:
  "\<forall>r \<in> set CONFLICT_RULES. severity r = error \<longrightarrow>
     (case relatedFields r of Some (f # fs) \<Rightarrow> if f \<noteq> [] then f else rule_id r | _ \<Rightarrow> rule_id r)
       \<notin> {''stepper_x.rotation_distance'', ''stepper_x.run_current'',
               ''stepper_y.rotation_distance'', ''stepper_z.rotation_distance'',
               ''extruder.rotation_distance'', ''heater_bed.max_temp'', ''extruder.max_temp''}"
  by (simp add: CONFLICT_RULES_def conflict_rule_defs)

lemma range_message_not_required:
  "msg \<in> rangeMessages fd \<Longrightarrow> msg \<noteq> label fd @ '' is required''"
  by (auto simp: rangeMessages_def split: option.splits)

text \<open>
  Claim C10. For every field rule of the table and every state in which the field's
  value is present and is not of type number, no error of \<^verbatim>\<open>validateState\<close> for that
  field carries the message of a violated lower or upper bound, whatever the value
  would be when read as a number.
\<close>

theorem range_checks_only_for_numbers:
  "fd \<in> set FIELD_DEFINITIONS \<Longrightarrow> \<not> isEmpty (st (key fd)) \<Longrightarrow> \<not> isNumber (st (key fd)) \<Longrightarrow>
   \<forall>e \<in> set (errors (validateState st)).
     field e = key fd \<longrightarrow> (\<forall>msg \<in> rangeMessages fd. fv_message e \<noteq> Some msg)"
proof (intro ballI impI)
  fix e msg
  assume fd: "fd \<in> set FIELD_DEFINITIONS" and notnum: "\<not> isNumber (st (key fd))"
    and e: "e \<in> set (errors (validateState st))" and fe: "field e = key fd"
    and msg: "msg \<in> rangeMessages fd"
  from msg have "min_value fd \<noteq> None \<or> max_value fd \<noteq> None"
    by (auto simp: rangeMessages_def split: option.splits)
  with bounded_fields fd have nov: "validValues fd = None" and nof: "validate fd = None"
    and kb: "key fd \<in> {''stepper_x.rotation_distance'', ''stepper_x.run_current'',
               ''stepper_y.rotation_distance'', ''stepper_z.rotation_distance'',
               ''extruder.rotation_distance'', ''heater_bed.max_temp'', ''extruder.max_temp''}"
    by blast+
  from validateState_error_origin [OF e]
  consider (a) d where "d \<in> set FIELD_DEFINITIONS" "validateField d st = Some e"
    | (b) g where "g \<in> set EXCLUSIVE_GROUPS" "field e = stateKey g"
    | (c) c where "rule c \<in> set CONFLICT_RULES" "severity (rule c) = error"
        "field e = conflictField c"
    by blast
  then show "fv_message e \<noteq> Some msg"
  proof cases
    case a
    from validateField_field [OF a(2)] fe have "key d = key fd" by simp
    with field_keys_distinct a(1) fd have "d = fd"
      by (simp add: distinct_map inj_on_def)
    with a(2) have vf: "validateField fd st = Some e" by simp
    have "minError fd (st (key fd)) = None" "maxError fd (st (key fd)) = None"
      "valuesError fd (st (key fd)) = None" "customError fd (st (key fd)) st = None"
      using notnum nov nof
      by (simp_all add: minError_def maxError_def valuesError_def customError_def
          split: option.splits)
    with vf have "fv_message e = Some (label fd @ '' is required'')"
      by (auto simp: validateField_def Let_def fieldError_def split: if_splits)
    with range_message_not_required [OF msg] show ?thesis by simp
  next
    case b
    with group_keys_unbounded kb fe show ?thesis by (metis)
  next
    case c
    from error_rule_fields_unbounded c(1,2)
    have "conflictField c \<notin> {''stepper_x.rotation_distance'', ''stepper_x.run_current'',
               ''stepper_y.rotation_distance'', ''stepper_z.rotation_distance'',
               ''extruder.rotation_distance'', ''heater_bed.max_temp'', ''extruder.max_temp''}"
      unfolding conflictField_def by blast
    with kb fe c(3) show ?thesis by simp
  qed
qed

lemma runCurrentField_in_table: "runCurrentField \<in> set FIELD_DEFINITIONS"
  by (simp add: runCurrentField_def FIELD_DEFINITIONS_def)

lemma three_printed: "ratToString 3 = ''3''"
  by code_simp

lemma tenth_printed: "ratToString (1 / 10) = ''0.1''"
  by code_simp

text \<open>
  The theorem at \<^verbatim>\<open>stepper_x.run_current\<close> set to the string \<^verbatim>\<open>"5"\<close>, above the maximum 3
  when read as a number. Set to the number 5 the field does get the range error.
\<close>

theorem range_checks_only_for_numbers_witness:
  "runCurrentField \<in> set FIELD_DEFINITIONS \<and>
   \<not> isEmpty ((emptyState(''stepper_x.run_current'' := Str ''5'')) (key runCurrentField)) \<and>
   \<not> isNumber ((emptyState(''stepper_x.run_current'' := Str ''5'')) (key runCurrentField)) \<and>
   rangeMessages runCurrentField =
     {''Stepper X Run Current must be at least 0.1'', ''Stepper X Run Current must be at most 3''} \<and>
   \<not> (\<exists>e \<in> set (errors (validateState (emptyState(''stepper_x.run_current'' := Str ''5'')))).
        field e = ''stepper_x.run_current'' \<and>
        fv_message e = Some ''Stepper X Run Current must be at most 3'') \<and>
   validateField runCurrentField (emptyState(''stepper_x.run_current'' := Num (Fin 5)))
     = Some (fieldError runCurrentField ''Stepper X Run Current must be at most 3'')"
proof -
  let ?st = "emptyState(''stepper_x.run_current'' := Str ''5'')"
  have k: "key runCurrentField = ''stepper_x.run_current''"
    by (simp add: runCurrentField_def)
  have h1: "\<not> isEmpty (?st (key runCurrentField))" and h2: "\<not> isNumber (?st (key runCurrentField))"
    by (simp_all add: k isEmpty_def)
  have msgs: "rangeMessages runCurrentField =
     {''Stepper X Run Current must be at least 0.1'', ''Stepper X Run Current must be at most 3''}"
    by (auto simp: rangeMessages_def runCurrentField_def three_printed tenth_printed)
  have num: "validateField runCurrentField (emptyState(''stepper_x.run_current'' := Num (Fin 5)))
     = Some (fieldError runCurrentField ''Stepper X Run Current must be at most 3'')"
    by (simp add: validateField_def isRequired_def isEmpty_def minError_def maxError_def
        runCurrentField_def three_printed emptyState_def)
  show ?thesis
    using range_checks_only_for_numbers [of runCurrentField ?st]
      runCurrentField_in_table h1 h2 msgs num
    by (simp add: k)
qed


subsection \<open>The changed values are the writes, the last one standing\<close>

lemma objectOf_Nil: "objectOf [] = Map.empty"
  by (simp add: objectOf_def)

lemma objectOf_append: "objectOf (xs @ ys) = objectOf xs ++ objectOf ys"
  by (simp add: objectOf_def)

lemma objectOf_single: "m ++ objectOf [(k, v)] = m(k \<mapsto> v)"
  by (simp add: objectOf_def)

lemma dom_objectOf: "dom (objectOf xs) = fst ` set xs"
  by (simp add: objectOf_def dom_map_of_conv_image_fst)

lemma objectOf_Some_mem: "objectOf xs k = Some v \<Longrightarrow> (k, v) \<in> set xs"
  by (auto simp: objectOf_def dest: map_of_SomeD)

lemma entries_loop_changed:
  "changedValues (foldl (applyEntry imp st ov) res es)
     = changedValues res ++ objectOf (filter (written imp st ov) es)"
proof (induction es arbitrary: res)
  case Nil
  show ?case by (simp add: objectOf_Nil)
next
  case (Cons e es)
  obtain k v where e: "e = (k, v)" by (cases e)
  have step: "changedValues (applyEntry imp st ov res e)
      = changedValues res ++ objectOf (filter (written imp st ov) [e])"
    by (simp add: applyEntry_def written_def e objectOf_Nil objectOf_single)
  have "changedValues (foldl (applyEntry imp st ov) res (e # es))
      = changedValues (applyEntry imp st ov res e) ++ objectOf (filter (written imp st ov) es)"
    by (simp add: Cons.IH)
  also have "\<dots> = changedValues res ++ objectOf (filter (written imp st ov) [e] @ filter (written imp st ov) es)"
    unfolding step objectOf_append by simp
  finally show ?case by simp
qed

lemma rule_changed:
  "changedValues (applyImplication st ov res imp) = changedValues res ++ objectOf (writesOf imp st ov)"
  by (simp add: applyImplication_def writesOf_def fires_def entries_loop_changed objectOf_Nil)

lemma rules_loop_changed:
  "changedValues (foldl (applyImplication st ov) res rs) = changedValues res ++ objectOf (allWrites rs st ov)"
proof (induction rs arbitrary: res)
  case Nil
  show ?case by (simp add: allWrites_def objectOf_Nil)
next
  case (Cons r rs)
  have "changedValues (foldl (applyImplication st ov) res (r # rs))
      = (changedValues res ++ objectOf (writesOf r st ov)) ++ objectOf (allWrites rs st ov)"
    by (simp add: Cons.IH rule_changed)
  then show ?case by (simp add: allWrites_def objectOf_append)
qed

lemma changedValues_eq:
  "changedValues (applyImplicationsWith rules st ov) = objectOf (allWrites (sortByPriority rules) st ov)"
  by (simp add: applyImplicationsWith_def rules_loop_changed)

lemma allWrites_mem:
  "(k, v) \<in> set (allWrites rs st ov) \<longleftrightarrow>
     (\<exists>r \<in> set rs. fires r st \<and> (k, v) \<in> set (setValues r) \<and> written r st ov (k, v))"
  by (auto simp: allWrites_def writesOf_def split: if_splits)

subsection \<open>The conditions of the built-in implications\<close>

lemmas eval_compare = eval_defs compare_defs fires_def

lemma fires_corexy_awd_enables_awd:
  "fires corexy_awd_enables_awd st \<longleftrightarrow> st ''printer.kinematics'' = Str ''corexy-awd''"
  by (auto simp: corexy_awd_enables_awd_def eval_compare)

lemma fires_hybrid_corexy_enables_awd:
  "fires hybrid_corexy_enables_awd st \<longleftrightarrow> st ''printer.kinematics'' = Str ''hybrid_corexy''"
  by (auto simp: hybrid_corexy_enables_awd_def eval_compare)

lemma fires_non_awd_disables_awd:
  "fires non_awd_disables_awd st \<longleftrightarrow>
     st ''printer.kinematics'' \<noteq> Str ''corexy-awd'' \<and> st ''printer.kinematics'' \<noteq> Str ''hybrid_corexy''"
  by (auto simp: non_awd_disables_awd_def eval_compare)

lemma fires_tap_zero_offsets:
  "fires tap_zero_offsets st \<longleftrightarrow> st ''probe.probe_type'' = Str ''tap''"
  by (auto simp: tap_zero_offsets_def eval_compare)

lemma fires_beacon_contact_homing:
  "fires beacon_contact_homing st \<longleftrightarrow>
     st ''probe.probe_type'' = Str ''beacon'' \<and> st ''probe.homing_mode'' = Str ''contact''"
  by (auto simp: beacon_contact_homing_def eval_compare)

lemma fires_cartographer_touch_homing:
  "fires cartographer_touch_homing st \<longleftrightarrow>
     st ''probe.probe_type'' = Str ''cartographer'' \<and> st ''probe.homing_mode'' = Str ''touch''"
  by (auto simp: cartographer_touch_homing_def eval_compare)

lemma fires_bltouch_homing:
  "fires bltouch_homing st \<longleftrightarrow> st ''probe.probe_type'' = Str ''bltouch''"
  by (auto simp: bltouch_homing_def eval_compare)

lemma fires_tap_homing:
  "fires tap_homing st \<longleftrightarrow> st ''probe.probe_type'' = Str ''tap''"
  by (auto simp: tap_homing_def eval_compare)

lemma fires_z_motor_count_2_enables_z_tilt:
  "fires z_motor_count_2_enables_z_tilt st \<longleftrightarrow> st ''z_config.motor_count'' = Num (Fin 2)"
  by (auto simp: z_motor_count_2_enables_z_tilt_def eval_compare)

lemma fires_z_motor_count_3_enables_z_tilt:
  "fires z_motor_count_3_enables_z_tilt st \<longleftrightarrow> st ''z_config.motor_count'' = Num (Fin 3)"
  by (auto simp: z_motor_count_3_enables_z_tilt_def eval_compare)

lemma fires_z_motor_count_4_enables_qgl:
  "fires z_motor_count_4_enables_qgl st \<longleftrightarrow> st ''z_config.motor_count'' = Num (Fin 4)"
  by (auto simp: z_motor_count_4_enables_qgl_def eval_compare)

lemma fires_toolboard_default_extruder_location:
  "fires toolboard_default_extruder_location st \<longleftrightarrow> st ''mcu.toolboard.enabled'' = Bool True"
  by (auto simp: toolboard_default_extruder_location_def eval_compare)

lemma fires_sensorless_x_uses_diag:
  "fires sensorless_x_uses_diag st \<longleftrightarrow> st ''homing.x_endstop_type'' = Str ''sensorless''"
  by (auto simp: sensorless_x_uses_diag_def eval_compare)

lemma fires_sensorless_y_uses_diag:
  "fires sensorless_y_uses_diag st \<longleftrightarrow> st ''homing.y_endstop_type'' = Str ''sensorless''"
  by (auto simp: sensorless_y_uses_diag_def eval_compare)

lemma fires_safe_z_home_center:
  "fires safe_z_home_center st \<longleftrightarrow>
     toBoolean (st ''printer.bed_size_x'') \<and> toBoolean (st ''printer.bed_size_y'')"
  by (auto simp: safe_z_home_center_def eval_compare)

lemmas fires_built_in =
  fires_corexy_awd_enables_awd fires_hybrid_corexy_enables_awd fires_non_awd_disables_awd
  fires_tap_zero_offsets fires_beacon_contact_homing fires_cartographer_touch_homing
  fires_bltouch_homing fires_tap_homing fires_z_motor_count_2_enables_z_tilt
  fires_z_motor_count_3_enables_z_tilt fires_z_motor_count_4_enables_qgl
  fires_toolboard_default_extruder_location fires_sensorless_x_uses_diag
  fires_sensorless_y_uses_diag fires_safe_z_home_center

subsection \<open>A second application changes nothing\<close>

text \<open>
  For any rule table: when merging the diff does not change which rules fire, the
  firing rules agree on the value of every key, and no rule sets a key to NaN, the
  second application writes nothing.
\<close>

lemma second_application_empty:
  assumes frame: "\<And>r. r \<in> set rules \<Longrightarrow>
      fires r (mergeState st (changedValues (applyImplicationsWith rules st ov))) = fires r st"
    and agree: "\<And>r1 r2 k v1 v2. r1 \<in> set rules \<Longrightarrow> r2 \<in> set rules \<Longrightarrow>
      fires r1 st \<Longrightarrow> fires r2 st \<Longrightarrow>
      (k, v1) \<in> set (setValues r1) \<Longrightarrow> (k, v2) \<in> set (setValues r2) \<Longrightarrow> v1 = v2"
    and nonan: "\<And>r k. r \<in> set rules \<Longrightarrow> (k, Num NaN) \<notin> set (setValues r)"
  shows "changedValues
           (applyImplicationsWith rules
              (mergeState st (changedValues (applyImplicationsWith rules st ov))) ov)
         = Map.empty"
proof -
  let ?S = "sortByPriority rules"
  let ?D = "changedValues (applyImplicationsWith rules st ov)"
  let ?st' = "mergeState st ?D"
  have S: "set ?S = set rules" by (simp add: sortByPriority_def)
  have D: "?D = objectOf (allWrites ?S st ov)" by (rule changedValues_eq)
  have "allWrites ?S ?st' ov = []"
  proof (rule ccontr)
    assume "allWrites ?S ?st' ov \<noteq> []"
    then obtain k v where "(k, v) \<in> set (allWrites ?S ?st' ov)"
      by (cases "allWrites ?S ?st' ov") auto
    then obtain r where r: "r \<in> set rules" and f': "fires r ?st'"
      and entry: "(k, v) \<in> set (setValues r)" and w': "written r ?st' ov (k, v)"
      using S by (auto simp: allWrites_mem)
    from frame [OF r] f' have f: "fires r st" by simp
    from w' have noskip: "\<not> (allowOverride r = Some True \<and> k \<in> ov)"
      and differs: "\<not> strictEq (?st' k) v"
      by (simp_all add: written_def)
    from nonan [OF r] entry have vn: "v \<noteq> Num NaN" by auto
    show False
    proof (cases "?D k")
      case None
      then have "k \<notin> fst ` set (allWrites ?S st ov)"
        using dom_objectOf [of "allWrites ?S st ov"] D by (metis domIff)
      then have "(k, v) \<notin> set (allWrites ?S st ov)" by force
      with r f entry S have "\<not> written r st ov (k, v)" by (auto simp: allWrites_mem)
      with noskip have "strictEq (st k) v" by (simp add: written_def)
      moreover from None have "?st' k = st k" by (simp add: mergeState_def)
      ultimately show False using differs by simp
    next
      case (Some v')
      with D have "(k, v') \<in> set (allWrites ?S st ov)" by (simp add: objectOf_Some_mem)
      then obtain r' where "r' \<in> set rules" "fires r' st" "(k, v') \<in> set (setValues r')"
        using S by (auto simp: allWrites_mem)
      with agree [of r' r k v' v] r f entry have "v' = v" by simp
      with Some have "?st' k = v" by (simp add: mergeState_def)
      with vn differs show False by (simp add: strictEq_def)
    qed
  qed
  then show ?thesis by (simp add: changedValues_eq objectOf_Nil)
qed

text \<open>The built-in table: what its rules set.\<close>

lemma setValues_built_in:
  "setValues corexy_awd_enables_awd = [(''printer.awd_enabled'', Bool True)]"
  "setValues hybrid_corexy_enables_awd = [(''printer.awd_enabled'', Bool True)]"
  "setValues non_awd_disables_awd = [(''printer.awd_enabled'', Bool False)]"
  "setValues tap_zero_offsets = [(''probe.x_offset'', Num (Fin 0)), (''probe.y_offset'', Num (Fin 0))]"
  "setValues beacon_contact_homing = [(''homing.homing_method'', Str ''beacon_contact'')]"
  "setValues cartographer_touch_homing = [(''homing.homing_method'', Str ''cartographer_touch'')]"
  "setValues bltouch_homing = [(''homing.homing_method'', Str ''probe'')]"
  "setValues tap_homing = [(''homing.homing_method'', Str ''probe'')]"
  "setValues z_motor_count_2_enables_z_tilt = [(''leveling.type'', Str ''z_tilt'')]"
  "setValues z_motor_count_3_enables_z_tilt = [(''leveling.type'', Str ''z_tilt'')]"
  "setValues z_motor_count_4_enables_qgl = [(''leveling.type'', Str ''quad_gantry_level'')]"
  "setValues toolboard_default_extruder_location =
     [(''extruder.motor_location'', Str ''toolboard''),
      (''fans.part_cooling.location'', Str ''toolboard''),
      (''fans.hotend.location'', Str ''toolboard'')]"
  "setValues sensorless_x_uses_diag = [(''stepper_x.endstop_pin'', Str ''virtual_endstop'')]"
  "setValues sensorless_y_uses_diag = [(''stepper_y.endstop_pin'', Str ''virtual_endstop'')]"
  "setValues safe_z_home_center = []"
  by (simp_all add: corexy_awd_enables_awd_def hybrid_corexy_enables_awd_def
      non_awd_disables_awd_def tap_zero_offsets_def beacon_contact_homing_def
      cartographer_touch_homing_def bltouch_homing_def tap_homing_def
      z_motor_count_2_enables_z_tilt_def z_motor_count_3_enables_z_tilt_def
      z_motor_count_4_enables_qgl_def toolboard_default_extruder_location_def
      sensorless_x_uses_diag_def sensorless_y_uses_diag_def safe_z_home_center_def)

lemma built_in_sets_no_condition_key:
  "r \<in> set IMPLICATIONS \<Longrightarrow> (k, v) \<in> set (setValues r) \<Longrightarrow> k \<notin> conditionKeys"
  by (auto simp: IMPLICATIONS_def setValues_built_in conditionKeys_def)

lemma built_in_frame:
  "r \<in> set IMPLICATIONS \<Longrightarrow> \<forall>k \<in> conditionKeys. st' k = st k \<Longrightarrow> fires r st' = fires r st"
  by (auto simp: IMPLICATIONS_def fires_built_in conditionKeys_def)

lemma built_in_no_nan: "r \<in> set IMPLICATIONS \<Longrightarrow> (k, Num NaN) \<notin> set (setValues r)"
  by (auto simp: IMPLICATIONS_def setValues_built_in)

lemma built_in_agree:
  "r1 \<in> set IMPLICATIONS \<Longrightarrow> r2 \<in> set IMPLICATIONS \<Longrightarrow> fires r1 st \<Longrightarrow> fires r2 st \<Longrightarrow>
   (k, v1) \<in> set (setValues r1) \<Longrightarrow> (k, v2) \<in> set (setValues r2) \<Longrightarrow> v1 = v2"
  unfolding IMPLICATIONS_def
  by (auto simp: fires_built_in setValues_built_in)

lemma changed_key_is_set:
  "changedValues (applyImplicationsWith rules st ov) k = Some v \<Longrightarrow>
   \<exists>r \<in> set rules. fires r st \<and> (k, v) \<in> set (setValues r) \<and> written r st ov (k, v)"
proof -
  assume "changedValues (applyImplicationsWith rules st ov) k = Some v"
  then have "(k, v) \<in> set (allWrites (sortByPriority rules) st ov)"
    by (simp add: changedValues_eq objectOf_Some_mem)
  then show ?thesis by (simp add: allWrites_mem sortByPriority_def)
qed

text \<open>
  Claim C4. For every state and every set of user overrides: merging the diff of
  \<^verbatim>\<open>applyImplications\<close> into the state and applying the built-in implications again,
  with the same overrides, yields no changed value.
\<close>

theorem implications_idempotent:
  "changedValues
     (applyImplications (mergeState st (changedValues (applyImplications st ov))) ov)
   = Map.empty"
proof -
  let ?D = "changedValues (applyImplicationsWith IMPLICATIONS st ov)"
  have untouched: "\<forall>k \<in> conditionKeys. mergeState st ?D k = st k"
  proof
    fix k assume k: "k \<in> conditionKeys"
    have "?D k = None"
    proof (cases "?D k")
      case (Some v)
      from changed_key_is_set [OF this] built_in_sets_no_condition_key k
      show ?thesis by blast
    qed simp
    then show "mergeState st ?D k = st k" by (simp add: mergeState_def)
  qed
  have "changedValues (applyImplicationsWith IMPLICATIONS (mergeState st ?D) ov) = Map.empty"
  proof (rule second_application_empty)
    fix r assume "r \<in> set IMPLICATIONS"
    then show "fires r (mergeState st ?D) = fires r st"
      using untouched by (rule built_in_frame)
  next
    fix r1 r2 k v1 v2
    assume "r1 \<in> set IMPLICATIONS" "r2 \<in> set IMPLICATIONS" "fires r1 st" "fires r2 st"
      "(k, v1) \<in> set (setValues r1)" "(k, v2) \<in> set (setValues r2)"
    then show "v1 = v2" by (rule built_in_agree)
  next
    fix r k assume "r \<in> set IMPLICATIONS"
    then show "(k, Num NaN) \<notin> set (setValues r)" by (rule built_in_no_nan)
  qed
  then show ?thesis by (simp add: applyImplications_def)
qed

subsection \<open>The order of application and the last write\<close>





text \<open>
  The claim in its own words, for the built-in table: of two rules that fire and set
  one key to different values, the value of the one of higher priority, or of equal
  priority and declared later, is the entry. Its premise is never met, which is what
  the theorem below states outright.
\<close>

lemma higher_priority_supersedes:
  assumes "i < length IMPLICATIONS" "j < length IMPLICATIONS"
    and "evaluateCondition (Some (imp_condition (IMPLICATIONS ! i))) st"
    and "evaluateCondition (Some (imp_condition (IMPLICATIONS ! j))) st"
    and "(k, v1) \<in> set (setValues (IMPLICATIONS ! i))"
    and "(k, v2) \<in> set (setValues (IMPLICATIONS ! j))"
    and "v1 \<noteq> v2"
    and "priorityOf (IMPLICATIONS ! i) < priorityOf (IMPLICATIONS ! j) \<or>
         (priorityOf (IMPLICATIONS ! i) = priorityOf (IMPLICATIONS ! j) \<and> i < j)"
  shows "changedValues (applyImplications st ov) k = Some v2"
proof -
  from assms(1,2) have "IMPLICATIONS ! i \<in> set IMPLICATIONS" "IMPLICATIONS ! j \<in> set IMPLICATIONS"
    by simp_all
  moreover from assms(3,4) have "fires (IMPLICATIONS ! i) st" "fires (IMPLICATIONS ! j) st"
    by (simp_all add: fires_def)
  ultimately have "v1 = v2" using assms(5,6) by (rule built_in_agree)
  with assms(7) show ?thesis by simp
qed



end
